theory Spec2Isabelle
  imports Complex_Main
begin

section \<open>CCLib point cloud: a shallow embedding of PointCloud.cpp\<close>

text \<open>
  The development follows \<^verbatim>\<open>src/CC/src/PointCloud.cpp\<close>. The cloud is a record of the
  class's members, every method is a function from the cloud to the cloud (state passing),
  paired with the method's return value where it has one. Allocation failures
  (\<^verbatim>\<open>std::bad_alloc\<close>, a failing \<^verbatim>\<open>resizeSafe\<close>) are decided by boolean arguments of the
  method concerned: \<open>True\<close> means that the allocation succeeds.
\<close>

subsection \<open>Numbers\<close>

text \<open>
  \<^verbatim>\<open>PointCoordinateType\<close> and \<^verbatim>\<open>ScalarType\<close> are C++ floating-point types. The embedding
  keeps the one feature of them the source tests for, the not-a-number value: a number is
  either an ordinary (real) number or \<open>NaN\<close>. Every ordered comparison with \<open>NaN\<close> is
  false and \<^verbatim>\<open>!=\<close> with \<open>NaN\<close> is true, so \<^verbatim>\<open>x != x\<close> holds for \<open>NaN\<close> only. Comparisons
  and \<^verbatim>\<open>fabs\<close> are exact on floating-point numbers, and they are the functions \<open>fne\<close>,
  \<open>flt\<close>, \<open>fgt\<close> and \<open>fabs\<close> below. The operations that round (sums, differences,
  products, square roots) are not fixed by the embedding: the one method that computes,
  \<^verbatim>\<open>applyTransformation\<close>, takes them as an argument. Infinities are outside the embedding.
\<close>

datatype number = Num real | NaN

type_synonym PointCoordinateType = number
type_synonym ScalarType = number

fun fne :: "number \<Rightarrow> number \<Rightarrow> bool" where
  "fne (Num a) (Num b) = (a \<noteq> b)"
| "fne _ _ = True"

fun flt :: "number \<Rightarrow> number \<Rightarrow> bool" where
  "flt (Num a) (Num b) = (a < b)"
| "flt _ _ = False"

definition fgt :: "number \<Rightarrow> number \<Rightarrow> bool" where
  "fgt a b = flt b a"

fun fabs :: "number \<Rightarrow> number" where
  "fabs (Num a) = Num \<bar>a\<bar>"
| "fabs NaN = NaN"

text \<open>
  Sums, differences, products and square roots without rounding. They are what the
  floating-point operations compute wherever the exact result is a floating-point number,
  as it is at the inputs at which the theorems below are evaluated; no method of the cloud
  is defined through them.
\<close>

fun fadd :: "number \<Rightarrow> number \<Rightarrow> number" where
  "fadd (Num a) (Num b) = Num (a + b)"
| "fadd _ _ = NaN"

fun fsub :: "number \<Rightarrow> number \<Rightarrow> number" where
  "fsub (Num a) (Num b) = Num (a - b)"
| "fsub _ _ = NaN"

fun fmul :: "number \<Rightarrow> number \<Rightarrow> number" where
  "fmul (Num a) (Num b) = Num (a * b)"
| "fmul _ _ = NaN"

fun fsqrt :: "number \<Rightarrow> number" where
  "fsqrt (Num a) = (if a < 0 then NaN else Num (sqrt a))"
| "fsqrt NaN = NaN"

subsection \<open>Vectors and matrices\<close>

text \<open>
  Modelled from the spec: the vector class is absent from the sources. A \<^verbatim>\<open>CCVector3\<close> is
  a "3D coordinate triple".
\<close>

datatype CCVector3 = CCVector3 (vx: PointCoordinateType) (vy: PointCoordinateType)
  (vz: PointCoordinateType)

definition origin :: CCVector3 where
  "origin = CCVector3 (Num 0) (Num 0) (Num 0)"

text \<open>
  Modelled from the spec: the matrix class is absent from the sources. The rotation of a
  transformation is a matrix "flagged" valid or invalid; it is kept by rows.
\<close>

record SquareMatrix =
  m_matrixValid :: bool
  m_row0 :: CCVector3
  m_row1 :: CCVector3
  m_row2 :: CCVector3

record Transformation =
  trans_R :: SquareMatrix
  trans_T :: CCVector3
  trans_s :: PointCoordinateType

text \<open>
  The operations of \<^verbatim>\<open>applyTransformation\<close> that compute in floating point. The vector
  and matrix operators are declared in headers that are absent from the sources, and the
  rounding of the machine is not part of the embedding, so the operations are an argument
  of the method: \<open>scale_vector P s\<close> is \<^verbatim>\<open>P *= s\<close>, \<open>rotate_vector R P\<close> is \<^verbatim>\<open>R * P\<close>,
  \<open>add_vector P T\<close> is \<^verbatim>\<open>P += T\<close>, \<open>norm_vector T\<close> is \<^verbatim>\<open>T.norm()\<close> and \<open>minus_double a b\<close>
  is the difference \<^verbatim>\<open>a - b\<close> of two \<^verbatim>\<open>double\<close>s.
\<close>

record arithmetic =
  scale_vector :: "CCVector3 \<Rightarrow> PointCoordinateType \<Rightarrow> CCVector3"
  rotate_vector :: "SquareMatrix \<Rightarrow> CCVector3 \<Rightarrow> CCVector3"
  add_vector :: "CCVector3 \<Rightarrow> CCVector3 \<Rightarrow> CCVector3"
  norm_vector :: "CCVector3 \<Rightarrow> PointCoordinateType"
  minus_double :: "number \<Rightarrow> number \<Rightarrow> number"

text \<open>
  Modelled from the spec: the operations without rounding, as the formula
  \<open>P' = R*(s*P) + T\<close> of the spec reads in exact arithmetic: coordinate by coordinate,
  the product of a matrix with a column vector, the Euclidean norm. They are the
  arithmetic at which the theorems below are evaluated, on inputs where no operation of
  the machine rounds.
\<close>

definition exact_scale :: "CCVector3 \<Rightarrow> PointCoordinateType \<Rightarrow> CCVector3" where
  "exact_scale P k = CCVector3 (fmul (vx P) k) (fmul (vy P) k) (fmul (vz P) k)"

definition exact_add :: "CCVector3 \<Rightarrow> CCVector3 \<Rightarrow> CCVector3" where
  "exact_add P Q = CCVector3 (fadd (vx P) (vx Q)) (fadd (vy P) (vy Q)) (fadd (vz P) (vz Q))"

definition exact_dot :: "CCVector3 \<Rightarrow> CCVector3 \<Rightarrow> PointCoordinateType" where
  "exact_dot P Q = fadd (fadd (fmul (vx P) (vx Q)) (fmul (vy P) (vy Q))) (fmul (vz P) (vz Q))"

definition exact_norm :: "CCVector3 \<Rightarrow> PointCoordinateType" where
  "exact_norm P = fsqrt (exact_dot P P)"

definition exact_rotate :: "SquareMatrix \<Rightarrow> CCVector3 \<Rightarrow> CCVector3" where
  "exact_rotate M P =
     CCVector3 (exact_dot (m_row0 M) P) (exact_dot (m_row1 M) P) (exact_dot (m_row2 M) P)"

definition exact_arithmetic :: arithmetic where
  "exact_arithmetic =
     \<lparr>scale_vector = exact_scale, rotate_vector = exact_rotate, add_vector = exact_add,
      norm_vector = exact_norm, minus_double = fsub\<rparr>"

subsection \<open>Bounding box\<close>

text \<open>
  Modelled from the spec: the bounding box class is absent from the sources. The spec
  describes it as a cache that is valid or invalid and as "a running min/max accumulator"
  into which points are folded: \<open>bbox_clear\<close> empties the accumulator (no point seen, so
  not valid), \<open>bbox_add\<close> takes the first point as both corners and marks the box valid,
  and widens the corners coordinate by coordinate for every further point.
\<close>

record BoundingBox =
  m_bbMin :: CCVector3
  m_bbMax :: CCVector3
  m_valid :: bool

definition fmin :: "number \<Rightarrow> number \<Rightarrow> number" where
  "fmin a b = (if flt b a then b else a)"

definition fmax :: "number \<Rightarrow> number \<Rightarrow> number" where
  "fmax a b = (if flt a b then b else a)"

definition vmin :: "CCVector3 \<Rightarrow> CCVector3 \<Rightarrow> CCVector3" where
  "vmin A P = CCVector3 (fmin (vx A) (vx P)) (fmin (vy A) (vy P)) (fmin (vz A) (vz P))"

definition vmax :: "CCVector3 \<Rightarrow> CCVector3 \<Rightarrow> CCVector3" where
  "vmax A P = CCVector3 (fmax (vx A) (vx P)) (fmax (vy A) (vy P)) (fmax (vz A) (vz P))"

definition bbox_clear :: "BoundingBox \<Rightarrow> BoundingBox" where
  "bbox_clear b = \<lparr>m_bbMin = origin, m_bbMax = origin, m_valid = False\<rparr>"

definition bbox_add :: "CCVector3 \<Rightarrow> BoundingBox \<Rightarrow> BoundingBox" where
  "bbox_add P b =
     (if m_valid b
      then b\<lparr>m_bbMin := vmin (m_bbMin b) P, m_bbMax := vmax (m_bbMax b) P\<rparr>
      else \<lparr>m_bbMin = P, m_bbMax = P, m_valid = True\<rparr>)"

definition setValidity :: "bool \<Rightarrow> BoundingBox \<Rightarrow> BoundingBox" where
  "setValidity v b = b\<lparr>m_valid := v\<rparr>"

subsection \<open>Scalar fields\<close>

text \<open>
  Modelled from the spec: the scalar field class is absent from the sources. The spec gives
  its contract: a named sequence of scalar values with min/max statistics; a resize that
  either fully succeeds or leaves the field as it was (\<open>resizeSafe\<close>, whose outcome is the
  boolean argument \<open>ok\<close>); \<open>computeMinAndMax\<close>, which recomputes the statistics from the
  values; \<open>sf_swap\<close>, which exchanges two slots. New slots hold zero, as new elements of a
  \<^verbatim>\<open>std::vector\<close> do. The spec says nothing of a swap or a write outside the field's
  slots (the source indexes without a check): there \<open>sf_swap\<close> and \<open>setValue\<close> give
  \<open>None\<close>.
\<close>

record ScalarField =
  m_name :: string
  m_data :: "ScalarType list"
  m_minVal :: ScalarType
  m_maxVal :: ScalarType

definition resize_list :: "nat \<Rightarrow> 'a \<Rightarrow> 'a list \<Rightarrow> 'a list" where
  "resize_list n d xs = take n xs @ replicate (n - length xs) d"

definition new_ScalarField :: "string \<Rightarrow> ScalarField" where
  "new_ScalarField name = \<lparr>m_name = name, m_data = [], m_minVal = Num 0, m_maxVal = Num 0\<rparr>"

definition sf_resize :: "nat \<Rightarrow> ScalarField \<Rightarrow> ScalarField" where
  "sf_resize n f = f\<lparr>m_data := resize_list n (Num 0) (m_data f)\<rparr>"

definition resizeSafe :: "bool \<Rightarrow> nat \<Rightarrow> ScalarField \<Rightarrow> bool \<times> ScalarField" where
  "resizeSafe ok n f = (if ok then (True, sf_resize n f) else (False, f))"

definition computeMinAndMax :: "ScalarField \<Rightarrow> ScalarField" where
  "computeMinAndMax f =
     (case m_data f of
        [] \<Rightarrow> f\<lparr>m_minVal := Num 0, m_maxVal := Num 0\<rparr>
      | v # vs \<Rightarrow> f\<lparr>m_minVal := fold (\<lambda>w a. fmin a w) vs v, m_maxVal := fold (\<lambda>w a. fmax a w) vs v\<rparr>)"

definition swap_list :: "nat \<Rightarrow> nat \<Rightarrow> 'a list \<Rightarrow> 'a list" where
  "swap_list i j xs = xs[i := xs ! j, j := xs ! i]"

definition sf_swap :: "nat \<Rightarrow> nat \<Rightarrow> ScalarField \<Rightarrow> ScalarField option" where
  "sf_swap i j f =
     (if i < length (m_data f) \<and> j < length (m_data f)
      then Some (f\<lparr>m_data := swap_list i j (m_data f)\<rparr>)
      else None)"

definition setValue :: "nat \<Rightarrow> ScalarType \<Rightarrow> ScalarField \<Rightarrow> ScalarField option" where
  "setValue i v f =
     (if i < length (m_data f) then Some (f\<lparr>m_data := (m_data f)[i := v]\<rparr>) else None)"

definition setName :: "string \<Rightarrow> ScalarField \<Rightarrow> ScalarField" where
  "setName name f = f\<lparr>m_name := name\<rparr>"

subsection \<open>The cloud\<close>

text \<open>
  The members of \<^verbatim>\<open>PointCloud\<close>. The two role indices are C++ \<^verbatim>\<open>int\<close>s, with -1 for
  "unset"; they are mathematical integers here (a cloud does not own \<open>2^31\<close> fields). The
  capacity of \<^verbatim>\<open>m_points\<close> is chosen by the vector's implementation; the one method that
  reads it takes it as an argument.
\<close>

record PointCloud =
  m_points :: "CCVector3 list"
  m_bbox :: BoundingBox
  m_scalarFields :: "ScalarField list"
  m_currentPointIndex :: nat
  m_currentInScalarFieldIndex :: int
  m_currentOutScalarFieldIndex :: int

definition PointCloud_new :: PointCloud where
  "PointCloud_new =
     \<lparr>m_points = [], m_bbox = \<lparr>m_bbMin = origin, m_bbMax = origin, m_valid = False\<rparr>,
      m_scalarFields = [], m_currentPointIndex = 0,
      m_currentInScalarFieldIndex = -1, m_currentOutScalarFieldIndex = -1\<rparr>"

text \<open>
  A method either returns, with a value and the cloud as it has become, or an exception
  leaves it, with the cloud as it was at the throw. The one exception of the file is the
  \<^verbatim>\<open>std::bad_alloc\<close> of a \<^verbatim>\<open>new\<close> that no handler catches.
\<close>

datatype error = bad_alloc

type_synonym 'a outcome = "(error \<times> PointCloud) + ('a \<times> PointCloud)"

definition cloud_after :: "'a outcome \<Rightarrow> PointCloud" where
  "cloud_after r = (case r of Inl (e, c) \<Rightarrow> c | Inr (v, c) \<Rightarrow> c)"

definition returned :: "'a outcome \<Rightarrow> 'a option" where
  "returned r = (case r of Inl (e, c) \<Rightarrow> None | Inr (v, c) \<Rightarrow> Some v)"

text \<open>
  Modelled from the spec: \<^verbatim>\<open>size()\<close> is a method of the class header, which is absent from
  the sources; the spec has \<^verbatim>\<open>len(points) == size()\<close>.
\<close>

definition size_cloud :: "PointCloud \<Rightarrow> nat" where
  "size_cloud c = length (m_points c)"

definition invalidateBoundingBox :: "PointCloud \<Rightarrow> PointCloud" where
  "invalidateBoundingBox c = c\<lparr>m_bbox := setValidity False (m_bbox c)\<rparr>"

definition placeIteratorAtBeginning :: "PointCloud \<Rightarrow> PointCloud" where
  "placeIteratorAtBeginning c = c\<lparr>m_currentPointIndex := 0\<rparr>"

definition getNextPoint :: "PointCloud \<Rightarrow> CCVector3 option \<times> PointCloud" where
  "getNextPoint c =
     (if m_currentPointIndex c < length (m_points c)
      then (Some (m_points c ! m_currentPointIndex c),
            c\<lparr>m_currentPointIndex := m_currentPointIndex c + 1\<rparr>)
      else (None, c))"

text \<open>
  \<^verbatim>\<open>addPoint\<close>: a point with a component that differs from itself is replaced by
  \<open>(0, 0, 0)\<close>; the point is pushed at the back and the box is invalidated. The source
  has no handler for a failing \<^verbatim>\<open>push_back\<close>, and the embedding has no such failure.
\<close>

definition addPoint :: "CCVector3 \<Rightarrow> PointCloud \<Rightarrow> PointCloud" where
  "addPoint P c =
     (let c1 = (if fne (vx P) (vx P) \<or> fne (vy P) (vy P) \<or> fne (vz P) (vz P)
                then c\<lparr>m_points := m_points c @ [CCVector3 (Num 0) (Num 0) (Num 0)]\<rparr>
                else c\<lparr>m_points := m_points c @ [P]\<rparr>)
      in c1\<lparr>m_bbox := setValidity False (m_bbox c1)\<rparr>)"

text \<open>A sequence of \<^verbatim>\<open>addPoint\<close> calls, first call first.\<close>

fun addPoints :: "CCVector3 list \<Rightarrow> PointCloud \<Rightarrow> PointCloud" where
  "addPoints [] c = c"
| "addPoints (P # Ps) c = addPoints Ps (addPoint P c)"

definition hasNaN :: "CCVector3 \<Rightarrow> bool" where
  "hasNaN P = (vx P = NaN \<or> vy P = NaN \<or> vz P = NaN)"

definition stored :: "CCVector3 \<Rightarrow> CCVector3" where
  "stored P = (if hasNaN P then origin else P)"

definition nan_point :: CCVector3 where
  "nan_point = CCVector3 (Num 1) NaN (Num 2)"

definition good_point :: CCVector3 where
  "good_point = CCVector3 (Num 1) (Num 2) (Num 3)"

subsection \<open>Bounding box cache\<close>

text \<open>
  \<^verbatim>\<open>getBoundingBox\<close>: when the box is not valid it is cleared and every point is added
  to it, in index order; the corners of the box are returned.
\<close>

definition getBoundingBox :: "PointCloud \<Rightarrow> (CCVector3 \<times> CCVector3) \<times> PointCloud" where
  "getBoundingBox c =
     (let c1 = (if \<not> m_valid (m_bbox c)
                then c\<lparr>m_bbox := fold bbox_add (m_points c) (bbox_clear (m_bbox c))\<rparr>
                else c)
      in ((m_bbMin (m_bbox c1), m_bbMax (m_bbox c1)), c1))"

text \<open>
  The box that the recomputation of \<^verbatim>\<open>getBoundingBox\<close> builds from a point sequence, and
  the condition under which the cache cannot be read stale: it is invalid, or its corners
  are those of that box.
\<close>

definition box_of :: "CCVector3 list \<Rightarrow> BoundingBox" where
  "box_of pts = fold bbox_add pts \<lparr>m_bbMin = origin, m_bbMax = origin, m_valid = False\<rparr>"

definition corners :: "BoundingBox \<Rightarrow> CCVector3 \<times> CCVector3" where
  "corners b = (m_bbMin b, m_bbMax b)"

definition cache_exact :: "PointCloud \<Rightarrow> bool" where
  "cache_exact c =
     (if m_valid (m_bbox c) then corners (m_bbox c) = corners (box_of (m_points c)) else True)"

text \<open>
  The coordinate-wise minimum and maximum of a sequence of points none of which has a
  not-a-number coordinate, as the claim on \<^verbatim>\<open>getBoundingBox\<close> names them.
\<close>

fun real_of :: "number \<Rightarrow> real" where
  "real_of (Num a) = a"
| "real_of NaN = 0"

definition nan_free :: "CCVector3 list \<Rightarrow> bool" where
  "nan_free pts = list_all (\<lambda>P. \<not> hasNaN P) pts"

definition min_corner :: "CCVector3 list \<Rightarrow> CCVector3" where
  "min_corner pts =
     CCVector3 (Num (Min (set (map (real_of \<circ> vx) pts))))
               (Num (Min (set (map (real_of \<circ> vy) pts))))
               (Num (Min (set (map (real_of \<circ> vz) pts))))"

definition max_corner :: "CCVector3 list \<Rightarrow> CCVector3" where
  "max_corner pts =
     CCVector3 (Num (Max (set (map (real_of \<circ> vx) pts))))
               (Num (Max (set (map (real_of \<circ> vy) pts))))
               (Num (Max (set (map (real_of \<circ> vz) pts))))"

subsection \<open>Resize and reserve\<close>

text \<open>
  The rollback loop of \<^verbatim>\<open>resize\<close> (\<^verbatim>\<open>for j < i\<close>): the fields already processed go back
  to the old number of points and have their statistics recomputed.
\<close>

function resize_rollback :: "nat \<Rightarrow> nat \<Rightarrow> nat \<Rightarrow> ScalarField list \<Rightarrow> ScalarField list" where
  "resize_rollback oldCount i j fs =
     (if j < i
      then resize_rollback oldCount i (j + 1)
             (fs[j := computeMinAndMax (sf_resize oldCount (fs ! j))])
      else fs)"
  by pat_completeness auto
termination
  by (relation "measure (\<lambda>(oldCount, i, j, fs). i - j)") auto

declare resize_rollback.simps [simp del]

text \<open>
  The loop of \<^verbatim>\<open>resize\<close> over the scalar fields, from field \<open>i\<close> on. \<open>okField i\<close> tells
  whether \<^verbatim>\<open>resizeSafe\<close> succeeds on field \<open>i\<close>. On a failure the fields before \<open>i\<close> are
  rolled back, the points are resized to the old count and the result is \<open>False\<close>.
\<close>

function resize_loop :: "(nat \<Rightarrow> bool) \<Rightarrow> nat \<Rightarrow> nat \<Rightarrow> nat \<Rightarrow> PointCloud \<Rightarrow> bool \<times> PointCloud" where
  "resize_loop okField newCount oldCount i c =
     (if i < length (m_scalarFields c)
      then
        (let (r, f) = resizeSafe (okField i) newCount (m_scalarFields c ! i) in
         if \<not> r
         then (False,
               c\<lparr>m_scalarFields := resize_rollback oldCount i 0 ((m_scalarFields c)[i := f]),
                 m_points := resize_list oldCount origin (m_points c)\<rparr>)
         else resize_loop okField newCount oldCount (i + 1)
                (c\<lparr>m_scalarFields := (m_scalarFields c)[i := computeMinAndMax f]\<rparr>))
      else (True, c))"
  by pat_completeness auto
termination
  by (relation "measure (\<lambda>(okField, newCount, oldCount, i, c). length (m_scalarFields c) - i)")
     auto

declare resize_loop.simps [simp del]

text \<open>
  \<^verbatim>\<open>resize\<close>: \<open>okPoints\<close> tells whether \<^verbatim>\<open>m_points.resize\<close> succeeds (no
  \<^verbatim>\<open>std::bad_alloc\<close>). New points are default-constructed, that is \<open>(0, 0, 0)\<close>.
\<close>

definition resize :: "bool \<Rightarrow> (nat \<Rightarrow> bool) \<Rightarrow> nat \<Rightarrow> PointCloud \<Rightarrow> bool \<times> PointCloud" where
  "resize okPoints okField newCount c =
     (let oldCount = length (m_points c) in
      if \<not> okPoints then (False, c)
      else resize_loop okField newCount oldCount 0
             (c\<lparr>m_points := resize_list newCount origin (m_points c)\<rparr>))"

text \<open>
  What \<^verbatim>\<open>resize\<close> does to one field, forwards (\<open>n\<close> the new count) and in the rollback
  (\<open>n\<close> the old count): the field is resized and its statistics are recomputed.
\<close>

definition resized_field :: "nat \<Rightarrow> ScalarField \<Rightarrow> ScalarField" where
  "resized_field n f = computeMinAndMax (sf_resize n f)"

text \<open>An allocator under which \<^verbatim>\<open>resizeSafe\<close> fails on field \<open>m\<close> and on no other field.\<close>

definition fail_at :: "nat \<Rightarrow> nat \<Rightarrow> bool" where
  "fail_at m k = (k \<noteq> m)"

text \<open>An allocator under which no \<^verbatim>\<open>resizeSafe\<close> fails.\<close>

definition never_fails :: "nat \<Rightarrow> bool" where
  "never_fails k = True"

text \<open>The statistics of a field are those of its values: recomputing them changes nothing.\<close>

definition stats_current :: "ScalarField \<Rightarrow> bool" where
  "stats_current f = (computeMinAndMax f = f)"

text \<open>
  \<^verbatim>\<open>reserve\<close> changes capacities only, which are not members of the record: the cloud
  is returned as it is. \<open>capacityAfter\<close> is the capacity of the points after the call.
\<close>

definition reserve :: "bool \<Rightarrow> (nat \<Rightarrow> bool) \<Rightarrow> nat \<Rightarrow> nat \<Rightarrow> PointCloud \<Rightarrow> bool \<times> PointCloud" where
  "reserve okPoints okField capacityAfter newCapacity c =
     (if \<not> okPoints then (False, c)
      else if \<not> list_all okField [0 ..< length (m_scalarFields c)] then (False, c)
      else (newCapacity \<le> capacityAfter, c))"

subsection \<open>Transformation\<close>

text \<open>
  \<^verbatim>\<open>applyTransformation\<close>: three phases, each under its own test. \<open>ZERO_TOLERANCE\<close> is
  a constant of a header that is absent from the sources: it is an argument, as the
  arithmetic \<open>ar\<close> is. The transformation (\<^verbatim>\<open>trans\<close> in the source) is \<open>tr\<close>. The conversion
  of \<^verbatim>\<open>trans.s\<close> to \<^verbatim>\<open>double\<close> changes no value.
\<close>

definition scale_runs :: "arithmetic \<Rightarrow> number \<Rightarrow> Transformation \<Rightarrow> bool" where
  "scale_runs ar ZERO_TOLERANCE tr =
     fgt (fabs (minus_double ar (trans_s tr) (Num 1))) ZERO_TOLERANCE"

definition rotation_runs :: "Transformation \<Rightarrow> bool" where
  "rotation_runs tr = m_matrixValid (trans_R tr)"

definition translation_runs :: "arithmetic \<Rightarrow> number \<Rightarrow> Transformation \<Rightarrow> bool" where
  "translation_runs ar ZERO_TOLERANCE tr = fgt (norm_vector ar (trans_T tr)) ZERO_TOLERANCE"

definition applyTransformation ::
  "arithmetic \<Rightarrow> number \<Rightarrow> Transformation \<Rightarrow> PointCloud \<Rightarrow> PointCloud" where
  "applyTransformation ar ZERO_TOLERANCE tr c =
     (let c1 = (if scale_runs ar ZERO_TOLERANCE tr
                then c\<lparr>m_points := map (\<lambda>P. scale_vector ar P (trans_s tr)) (m_points c),
                       m_bbox := setValidity False (m_bbox c)\<rparr>
                else c);
          c2 = (if rotation_runs tr
                then c1\<lparr>m_points := map (rotate_vector ar (trans_R tr)) (m_points c1),
                        m_bbox := setValidity False (m_bbox c1)\<rparr>
                else c1);
          c3 = (if translation_runs ar ZERO_TOLERANCE tr
                then c2\<lparr>m_points := map (\<lambda>P. add_vector ar P (trans_T tr)) (m_points c2),
                        m_bbox := setValidity False (m_bbox c2)\<rparr>
                else c2)
      in c3)"

text \<open>
  What the claim on \<^verbatim>\<open>applyTransformation\<close> calls "within tolerance": the distance of
  \<open>a\<close> to \<open>b\<close> is a number, and it is not above the tolerance.
\<close>

fun fle :: "number \<Rightarrow> number \<Rightarrow> bool" where
  "fle (Num a) (Num b) = (a \<le> b)"
| "fle _ _ = False"

definition within_tolerance :: "arithmetic \<Rightarrow> number \<Rightarrow> number \<Rightarrow> number \<Rightarrow> bool" where
  "within_tolerance ar ZERO_TOLERANCE a b = fle (fabs (minus_double ar a b)) ZERO_TOLERANCE"

subsection \<open>Scalar fields of the cloud\<close>

definition getScalarField :: "PointCloud \<Rightarrow> int \<Rightarrow> ScalarField option" where
  "getScalarField c index =
     (if 0 \<le> index \<and> index < int (length (m_scalarFields c))
      then Some (m_scalarFields c ! nat index) else None)"

text \<open>
  Modelled from the spec: the two role getters are methods of the class header, which is
  absent from the sources. A role is "either -1 (unset) or a valid index into the
  scalar-field collection": the getter gives the field at the role's index, or null.
\<close>

definition getCurrentInScalarField :: "PointCloud \<Rightarrow> ScalarField option" where
  "getCurrentInScalarField c = getScalarField c (m_currentInScalarFieldIndex c)"

definition getCurrentOutScalarField :: "PointCloud \<Rightarrow> ScalarField option" where
  "getCurrentOutScalarField c = getScalarField c (m_currentOutScalarFieldIndex c)"

text \<open>The linear scan of \<^verbatim>\<open>getScalarFieldIndexByName\<close>, from index \<open>i\<close> on.\<close>

fun indexByName_from :: "nat \<Rightarrow> string \<Rightarrow> ScalarField list \<Rightarrow> int" where
  "indexByName_from i name [] = -1"
| "indexByName_from i name (f # fs) =
     (if m_name f = name then int i else indexByName_from (i + 1) name fs)"

definition getScalarFieldIndexByName :: "PointCloud \<Rightarrow> string \<Rightarrow> int" where
  "getScalarFieldIndexByName c name = indexByName_from 0 name (m_scalarFields c)"

text \<open>
  \<^verbatim>\<open>addScalarField\<close>: \<open>okNew\<close> tells whether \<^verbatim>\<open>new\<close> yields an object, \<open>okResize\<close>
  whether \<^verbatim>\<open>resizeSafe\<close> succeeds on it, \<open>okPush\<close> whether the vector of fields can grow.
  A failing \<^verbatim>\<open>new\<close> throws \<^verbatim>\<open>std::bad_alloc\<close>, which the method does not catch (it never
  yields null, so that the test \<^verbatim>\<open>!sf\<close> never holds); the two other failures are caught or
  reported, and the method returns -1.
\<close>

definition addScalarField :: "bool \<Rightarrow> bool \<Rightarrow> bool \<Rightarrow> string \<Rightarrow> PointCloud \<Rightarrow> int outcome" where
  "addScalarField okNew okResize okPush uniqueName c =
     (if 0 \<le> getScalarFieldIndexByName c uniqueName then Inr (-1, c)
      else if \<not> okNew then Inl (bad_alloc, c)
      else
        (let (r, sf) = (if size_cloud c \<noteq> 0
                        then resizeSafe okResize (size_cloud c) (new_ScalarField uniqueName)
                        else (True, new_ScalarField uniqueName)) in
         if \<not> r then Inr (-1, c)
         else if \<not> okPush then Inr (-1, c)
         else Inr (int (length (m_scalarFields c @ [sf])) - 1,
                   c\<lparr>m_scalarFields := m_scalarFields c @ [sf]\<rparr>)))"

definition deleteScalarField :: "int \<Rightarrow> PointCloud \<Rightarrow> PointCloud" where
  "deleteScalarField index c =
     (let sfCount = int (length (m_scalarFields c)) in
      if index < 0 \<or> sfCount \<le> index then c
      else
        (let c1 = (if index = m_currentInScalarFieldIndex c
                   then c\<lparr>m_currentInScalarFieldIndex := -1\<rparr> else c);
             c2 = (if index = m_currentOutScalarFieldIndex c1
                   then c1\<lparr>m_currentOutScalarFieldIndex := -1\<rparr> else c1);
             lastIndex = sfCount - 1;
             c3 = (if index < lastIndex
                   then
                     (let c4 = c2\<lparr>m_scalarFields :=
                                   swap_list (nat index) (nat lastIndex) (m_scalarFields c2)\<rparr>;
                          c5 = (if lastIndex = m_currentInScalarFieldIndex c4
                                then c4\<lparr>m_currentInScalarFieldIndex := index\<rparr> else c4);
                          c6 = (if lastIndex = m_currentOutScalarFieldIndex c5
                                then c5\<lparr>m_currentOutScalarFieldIndex := index\<rparr> else c5)
                      in c6)
                   else c2)
         in c3\<lparr>m_scalarFields := butlast (m_scalarFields c3)\<rparr>))"

text \<open>The loop of \<^verbatim>\<open>deleteAllScalarFields\<close>: pop the last field until none is left.\<close>

function pop_all :: "ScalarField list \<Rightarrow> ScalarField list" where
  "pop_all fs = (if fs \<noteq> [] then pop_all (butlast fs) else fs)"
  by pat_completeness auto
termination
  by (relation "measure length") auto

declare pop_all.simps [simp del]

definition deleteAllScalarFields :: "PointCloud \<Rightarrow> PointCloud" where
  "deleteAllScalarFields c =
     c\<lparr>m_currentInScalarFieldIndex := -1, m_currentOutScalarFieldIndex := -1,
       m_scalarFields := pop_all (m_scalarFields c)\<rparr>"

definition clear :: "PointCloud \<Rightarrow> PointCloud" where
  "clear c =
     invalidateBoundingBox (placeIteratorAtBeginning (deleteAllScalarFields (c\<lparr>m_points := []\<rparr>)))"

text \<open>
  \<^verbatim>\<open>enableScalarField\<close>. \<open>enableScalarField_finish\<close> is the part of the method after the
  first \<^verbatim>\<open>if\<close> block: the output role, then the resize of the input field to the capacity
  of the points (\<open>okFinal\<close> tells whether that resize succeeds).
\<close>

definition enableScalarField_finish :: "nat \<Rightarrow> bool \<Rightarrow> PointCloud \<Rightarrow> bool \<times> PointCloud" where
  "enableScalarField_finish capacity okFinal c =
     (let c1 = (if getCurrentOutScalarField c = None
                then c\<lparr>m_currentOutScalarFieldIndex := m_currentInScalarFieldIndex c\<rparr>
                else c);
          k = nat (m_currentInScalarFieldIndex c1);
          (r, f) = resizeSafe okFinal capacity (m_scalarFields c1 ! k)
      in (r, c1\<lparr>m_scalarFields := (m_scalarFields c1)[k := f]\<rparr>))"

definition enableScalarField ::
  "nat \<Rightarrow> bool \<Rightarrow> bool \<Rightarrow> bool \<Rightarrow> bool \<Rightarrow> PointCloud \<Rightarrow> bool outcome" where
  "enableScalarField capacity okNew okResize okPush okFinal c =
     (if getCurrentInScalarField c = None
      then
        (let c1 = c\<lparr>m_currentInScalarFieldIndex := getScalarFieldIndexByName c ''Default''\<rparr> in
         if m_currentInScalarFieldIndex c1 < 0
         then
           (case addScalarField okNew okResize okPush ''Default'' c1 of
              Inl (e, c2) \<Rightarrow> Inl (e, c2)
            | Inr (k, c2) \<Rightarrow>
                (let c3 = c2\<lparr>m_currentInScalarFieldIndex := k\<rparr> in
                 if m_currentInScalarFieldIndex c3 < 0 then Inr (False, c3)
                 else Inr (enableScalarField_finish capacity okFinal c3)))
         else Inr (enableScalarField_finish capacity okFinal c1))
      else Inr (enableScalarField_finish capacity okFinal c))"

text \<open>
  \<^verbatim>\<open>setPointScalarValue\<close> asserts that the input role is a valid index and writes
  without a check: \<open>None\<close> where the assertion or the slot fails.
\<close>

definition setPointScalarValue :: "nat \<Rightarrow> ScalarType \<Rightarrow> PointCloud \<Rightarrow> PointCloud option" where
  "setPointScalarValue pointIndex v c =
     (let k = m_currentInScalarFieldIndex c in
      if 0 \<le> k \<and> k < int (length (m_scalarFields c))
      then (case setValue pointIndex v (m_scalarFields c ! nat k) of
              None \<Rightarrow> None
            | Some f \<Rightarrow> Some (c\<lparr>m_scalarFields := (m_scalarFields c)[nat k := f]\<rparr>))
      else None)"

text \<open>
  \<^verbatim>\<open>forEach\<close>: the action reads a point and may write the scalar of the output field
  at the same index. Without an output field the method returns at once (after an
  assertion); an output field with fewer slots than points is read out of range (\<open>None\<close>).
\<close>

definition forEach :: "(CCVector3 \<Rightarrow> ScalarType \<Rightarrow> ScalarType) \<Rightarrow> PointCloud \<Rightarrow> PointCloud option" where
  "forEach action c =
     (case getCurrentOutScalarField c of
        None \<Rightarrow> Some c
      | Some f \<Rightarrow>
          (let n = size_cloud c in
           if length (m_data f) < n then None
           else Some (c\<lparr>m_scalarFields := (m_scalarFields c)
                  [nat (m_currentOutScalarFieldIndex c) :=
                     f\<lparr>m_data := map2 action (m_points c) (take n (m_data f)) @ drop n (m_data f)\<rparr>]\<rparr>)))"

definition renameScalarField :: "int \<Rightarrow> string \<Rightarrow> PointCloud \<Rightarrow> bool \<times> PointCloud" where
  "renameScalarField index newName c =
     (if getScalarFieldIndexByName c newName < 0
      then (case getScalarField c index of
              Some sf \<Rightarrow>
                (True, c\<lparr>m_scalarFields := (m_scalarFields c)[nat index := setName newName sf]\<rparr>)
            | None \<Rightarrow> (False, c))
      else (False, c))"

subsection \<open>Swapping two points\<close>

text \<open>The loop of \<^verbatim>\<open>swapPoints\<close> over the scalar fields.\<close>

fun swap_fields :: "nat \<Rightarrow> nat \<Rightarrow> ScalarField list \<Rightarrow> ScalarField list option" where
  "swap_fields i j [] = Some []"
| "swap_fields i j (f # fs) =
     (case sf_swap i j f of
        None \<Rightarrow> None
      | Some f' \<Rightarrow> (case swap_fields i j fs of None \<Rightarrow> None | Some fs' \<Rightarrow> Some (f' # fs')))"

definition swapPoints :: "nat \<Rightarrow> nat \<Rightarrow> PointCloud \<Rightarrow> PointCloud option" where
  "swapPoints firstIndex secondIndex c =
     (if firstIndex = secondIndex \<or> length (m_points c) \<le> firstIndex
         \<or> length (m_points c) \<le> secondIndex
      then Some c
      else (case swap_fields firstIndex secondIndex (m_scalarFields c) of
              None \<Rightarrow> None
            | Some fs \<Rightarrow>
                Some (c\<lparr>m_points := swap_list firstIndex secondIndex (m_points c),
                        m_scalarFields := fs\<rparr>)))"

text \<open>A field has the two slots that a swap of the points \<open>i\<close> and \<open>j\<close> exchanges.\<close>

definition has_slots :: "nat \<Rightarrow> nat \<Rightarrow> ScalarField \<Rightarrow> bool" where
  "has_slots i j f = (i < length (m_data f) \<and> j < length (m_data f))"

subsection \<open>Invariants of the field collection\<close>

definition field_names :: "PointCloud \<Rightarrow> string list" where
  "field_names c = map m_name (m_scalarFields c)"

text \<open>A role index is -1 or an index into the collection of fields.\<close>

definition role_ok :: "PointCloud \<Rightarrow> int \<Rightarrow> bool" where
  "role_ok c r = (r = -1 \<or> (0 \<le> r \<and> r < int (length (m_scalarFields c))))"

definition fields_inv :: "PointCloud \<Rightarrow> bool" where
  "fields_inv c =
     (role_ok c (m_currentInScalarFieldIndex c) \<and> role_ok c (m_currentOutScalarFieldIndex c)
      \<and> distinct (field_names c))"

text \<open>The two roles of a cloud are -1 or indices into its collection of fields.\<close>

definition roles_ok :: "PointCloud \<Rightarrow> bool" where
  "roles_ok c =
     (role_ok c (m_currentInScalarFieldIndex c) \<and> role_ok c (m_currentOutScalarFieldIndex c))"

text \<open>
  What the claim on \<^verbatim>\<open>deleteScalarField\<close> says of a role index \<open>r\<close>: it is unset when it
  pointed at the deleted index, it follows the last field when that field is moved to the
  deleted index, and it is left alone otherwise.
\<close>

definition role_after_delete :: "int \<Rightarrow> int \<Rightarrow> int \<Rightarrow> int" where
  "role_after_delete index lastIndex r =
     (if r = index then -1 else if index < lastIndex \<and> r = lastIndex then index else r)"

text \<open>Two clouds with the same field names and the same roles.\<close>

definition same_roles :: "PointCloud \<Rightarrow> PointCloud \<Rightarrow> bool" where
  "same_roles c c' =
     (field_names c' = field_names c
      \<and> m_currentInScalarFieldIndex c' = m_currentInScalarFieldIndex c
      \<and> m_currentOutScalarFieldIndex c' = m_currentOutScalarFieldIndex c)"

subsection \<open>Designating the roles\<close>

text \<open>
  Modelled from the spec: the setters of the two roles are methods of the class header,
  which is absent from the sources. The spec has a role "either -1 (unset) or a valid
  index into the scalar-field collection", which the caller may establish without
  \<^verbatim>\<open>enableScalarField\<close>, the two roles referring to "the same field or different fields":
  a setter stores the index, and the caller designates -1 or a valid index (the condition
  \<open>role_ok\<close> of the steps below).
\<close>

definition setCurrentInScalarField :: "int \<Rightarrow> PointCloud \<Rightarrow> PointCloud" where
  "setCurrentInScalarField index c = c\<lparr>m_currentInScalarFieldIndex := index\<rparr>"

definition setCurrentOutScalarField :: "int \<Rightarrow> PointCloud \<Rightarrow> PointCloud" where
  "setCurrentOutScalarField index c = c\<lparr>m_currentOutScalarFieldIndex := index\<rparr>"

subsection \<open>Reachable clouds\<close>

text \<open>
  The clouds that the methods of the file and the setters of the roles build from a new
  cloud, whatever the arguments, the arithmetic and the allocations. A call that reads or
  writes out of range (\<open>None\<close>) has no successor; a call that an exception leaves has the
  cloud at the throw as successor.
\<close>

inductive reachable :: "PointCloud \<Rightarrow> bool" where
  r_new: "reachable PointCloud_new"
| r_clear: "reachable c \<Longrightarrow> reachable (clear c)"
| r_forEach: "reachable c \<Longrightarrow> forEach action c = Some c' \<Longrightarrow> reachable c'"
| r_getBoundingBox: "reachable c \<Longrightarrow> reachable (snd (getBoundingBox c))"
| r_invalidateBoundingBox: "reachable c \<Longrightarrow> reachable (invalidateBoundingBox c)"
| r_placeIteratorAtBeginning: "reachable c \<Longrightarrow> reachable (placeIteratorAtBeginning c)"
| r_getNextPoint: "reachable c \<Longrightarrow> reachable (snd (getNextPoint c))"
| r_resize: "reachable c \<Longrightarrow> reachable (snd (resize okPoints okField newCount c))"
| r_reserve:
    "reachable c \<Longrightarrow> reachable (snd (reserve okPoints okField capacityAfter newCapacity c))"
| r_addPoint: "reachable c \<Longrightarrow> reachable (addPoint P c)"
| r_applyTransformation: "reachable c \<Longrightarrow> reachable (applyTransformation ar tol tr c)"
| r_enableScalarField:
    "reachable c \<Longrightarrow>
     reachable (cloud_after (enableScalarField capacity okNew okResize okPush okFinal c))"
| r_setPointScalarValue:
    "reachable c \<Longrightarrow> setPointScalarValue pointIndex v c = Some c' \<Longrightarrow> reachable c'"
| r_addScalarField:
    "reachable c \<Longrightarrow> reachable (cloud_after (addScalarField okNew okResize okPush name c))"
| r_deleteScalarField: "reachable c \<Longrightarrow> reachable (deleteScalarField index c)"
| r_deleteAllScalarFields: "reachable c \<Longrightarrow> reachable (deleteAllScalarFields c)"
| r_renameScalarField: "reachable c \<Longrightarrow> reachable (snd (renameScalarField index newName c))"
| r_swapPoints: "reachable c \<Longrightarrow> swapPoints i j c = Some c' \<Longrightarrow> reachable c'"
| r_setCurrentInScalarField:
    "reachable c \<Longrightarrow> role_ok c index \<Longrightarrow> reachable (setCurrentInScalarField index c)"
| r_setCurrentOutScalarField:
    "reachable c \<Longrightarrow> role_ok c index \<Longrightarrow> reachable (setCurrentOutScalarField index c)"


text \<open>
  One call of a method of the file other than \<^verbatim>\<open>getBoundingBox\<close>, the one method that
  recomputes the box, or of a setter of the roles.
\<close>

inductive mutation :: "PointCloud \<Rightarrow> PointCloud \<Rightarrow> bool" where
  m_clear: "mutation c (clear c)"
| m_forEach: "forEach action c = Some c' \<Longrightarrow> mutation c c'"
| m_invalidateBoundingBox: "mutation c (invalidateBoundingBox c)"
| m_placeIteratorAtBeginning: "mutation c (placeIteratorAtBeginning c)"
| m_getNextPoint: "mutation c (snd (getNextPoint c))"
| m_resize: "mutation c (snd (resize okPoints okField newCount c))"
| m_reserve: "mutation c (snd (reserve okPoints okField capacityAfter newCapacity c))"
| m_addPoint: "mutation c (addPoint P c)"
| m_applyTransformation: "mutation c (applyTransformation ar tol tr c)"
| m_enableScalarField:
    "mutation c (cloud_after (enableScalarField capacity okNew okResize okPush okFinal c))"
| m_setPointScalarValue: "setPointScalarValue pointIndex v c = Some c' \<Longrightarrow> mutation c c'"
| m_addScalarField: "mutation c (cloud_after (addScalarField okNew okResize okPush name c))"
| m_deleteScalarField: "mutation c (deleteScalarField index c)"
| m_deleteAllScalarFields: "mutation c (deleteAllScalarFields c)"
| m_renameScalarField: "mutation c (snd (renameScalarField index newName c))"
| m_swapPoints: "swapPoints i j c = Some c' \<Longrightarrow> mutation c c'"
| m_setCurrentInScalarField:
    "role_ok c index \<Longrightarrow> mutation c (setCurrentInScalarField index c)"
| m_setCurrentOutScalarField:
    "role_ok c index \<Longrightarrow> mutation c (setCurrentOutScalarField index c)"

subsection \<open>Concrete clouds and transformations\<close>

text \<open>The inputs at which the theorems below are evaluated.\<close>

definition invalid_box :: BoundingBox where
  "invalid_box = \<lparr>m_bbMin = origin, m_bbMax = origin, m_valid = False\<rparr>"

definition three_points :: PointCloud where
  "three_points =
     \<lparr>m_points = [CCVector3 (Num 0) (Num 0) (Num 0), CCVector3 (Num 1) (Num 0) (Num 0),
                  CCVector3 (Num 0) (Num 1) (Num 0)],
      m_bbox = invalid_box, m_scalarFields = [], m_currentPointIndex = 0,
      m_currentInScalarFieldIndex = -1, m_currentOutScalarFieldIndex = -1\<rparr>"

definition quarter_turn :: SquareMatrix where
  "quarter_turn =
     \<lparr>m_matrixValid = True,
      m_row0 = CCVector3 (Num 0) (Num (-1)) (Num 0),
      m_row1 = CCVector3 (Num 1) (Num 0) (Num 0),
      m_row2 = CCVector3 (Num 0) (Num 0) (Num 1)\<rparr>"

definition similarity :: Transformation where
  "similarity =
     \<lparr>trans_R = quarter_turn, trans_T = CCVector3 (Num 0) (Num 0) (Num 1), trans_s = Num 2\<rparr>"

definition no_motion :: Transformation where
  "no_motion =
     \<lparr>trans_R = quarter_turn\<lparr>m_matrixValid := False\<rparr>,
      trans_T = CCVector3 (Num 0) (Num 0) (Num 0), trans_s = Num 1\<rparr>"

text \<open>
  A transformation whose scale is not a number, with no rotation and no translation.
\<close>

definition nan_scale :: Transformation where
  "nan_scale =
     \<lparr>trans_R = quarter_turn\<lparr>m_matrixValid := False\<rparr>,
      trans_T = CCVector3 (Num 0) (Num 0) (Num 0), trans_s = NaN\<rparr>"

text \<open>A tolerance: \<open>2^-10\<close>.\<close>

definition tolerance :: number where
  "tolerance = Num (1 / 1024)"

definition default_field :: ScalarField where
  "default_field =
     \<lparr>m_name = ''Default'', m_data = [Num 1, Num 2, Num 3], m_minVal = Num 1, m_maxVal = Num 3\<rparr>"

definition three_points_one_field :: PointCloud where
  "three_points_one_field =
     three_points\<lparr>m_scalarFields := [default_field], m_currentInScalarFieldIndex := 0,
                  m_currentOutScalarFieldIndex := 0\<rparr>"

definition other_field :: ScalarField where
  "other_field =
     \<lparr>m_name = ''Other'', m_data = [Num 5, Num 4, Num 6], m_minVal = Num 4, m_maxVal = Num 6\<rparr>"

definition three_points_two_fields :: PointCloud where
  "three_points_two_fields =
     three_points\<lparr>m_scalarFields := [default_field, other_field],
                  m_currentInScalarFieldIndex := 1, m_currentOutScalarFieldIndex := 0\<rparr>"

text \<open>
  A cloud without points whose two roles differ: the fields \<open>A\<close> and \<open>B\<close> were added to
  a new cloud, then \<open>B\<close> was designated as input and \<open>A\<close> as output.
\<close>

definition two_roles :: PointCloud where
  "two_roles =
     PointCloud_new
       \<lparr>m_scalarFields :=
          [\<lparr>m_name = ''A'', m_data = [], m_minVal = Num 0, m_maxVal = Num 0\<rparr>,
           \<lparr>m_name = ''B'', m_data = [], m_minVal = Num 0, m_maxVal = Num 0\<rparr>],
        m_currentInScalarFieldIndex := 1, m_currentOutScalarFieldIndex := 0\<rparr>"

text \<open>
  A cloud of one point whose field \<open>A\<close> has no slot: \<open>A\<close> was added to the empty cloud,
  then the point, then the field \<open>B\<close>.
\<close>

definition ragged_cloud :: PointCloud where
  "ragged_cloud =
     \<lparr>m_points = [CCVector3 (Num 0) (Num 0) (Num 0)],
      m_bbox = invalid_box,
      m_scalarFields =
        [\<lparr>m_name = ''A'', m_data = [], m_minVal = Num 0, m_maxVal = Num 0\<rparr>,
         \<lparr>m_name = ''B'', m_data = [Num 0], m_minVal = Num 0, m_maxVal = Num 0\<rparr>],
      m_currentPointIndex = 0,
      m_currentInScalarFieldIndex = -1, m_currentOutScalarFieldIndex = -1\<rparr>"

text \<open>
  The three points with the box of their corners cached, and a cloud whose cache is valid
  but is not the box of its points: the cloud after \<^verbatim>\<open>addPoint(1, 1, 1)\<close>,
  \<^verbatim>\<open>getBoundingBox\<close> and \<^verbatim>\<open>resize(2)\<close>.
\<close>

definition boxed_points :: PointCloud where
  "boxed_points =
     three_points\<lparr>m_bbox := \<lparr>m_bbMin = CCVector3 (Num 0) (Num 0) (Num 0),
                              m_bbMax = CCVector3 (Num 1) (Num 1) (Num 0), m_valid = True\<rparr>\<rparr>"

definition unit_point :: CCVector3 where
  "unit_point = CCVector3 (Num 1) (Num 1) (Num 1)"

definition stale_cloud :: PointCloud where
  "stale_cloud =
     \<lparr>m_points = [unit_point, CCVector3 (Num 0) (Num 0) (Num 0)],
      m_bbox = \<lparr>m_bbMin = unit_point, m_bbMax = unit_point, m_valid = True\<rparr>,
      m_scalarFields = [], m_currentPointIndex = 0,
      m_currentInScalarFieldIndex = -1, m_currentOutScalarFieldIndex = -1\<rparr>"

section \<open>Point insertion\<close>

lemma fne_self: "fne a a = (a = NaN)"
  by (cases a) simp_all

lemma addPoint_points: "m_points (addPoint P c) = m_points c @ [stored P]"
  by (simp add: addPoint_def stored_def hasNaN_def fne_self origin_def Let_def)

lemma addPoint_bbox_invalid: "\<not> m_valid (m_bbox (addPoint P c))"
  by (simp add: addPoint_def setValidity_def Let_def)

lemma addPoints_points: "m_points (addPoints Ps c) = m_points c @ map stored Ps"
  by (induction Ps arbitrary: c) (simp_all add: addPoint_points)

lemma addPoints_snoc: "addPoints (Ps @ [P]) c = addPoint P (addPoints Ps c)"
  by (induction Ps arbitrary: c) simp_all

lemma addPoints_bbox_invalid: "Ps \<noteq> [] \<Longrightarrow> \<not> m_valid (m_bbox (addPoints Ps c))"
proof (induction Ps rule: rev_induct)
  case Nil
  then show ?case by simp
next
  case (snoc P Ps)
  show ?case by (simp only: addPoints_snoc addPoint_bbox_invalid not_False_eq_True)
qed

text \<open>
  Claim C2. After a sequence of \<^verbatim>\<open>addPoint\<close> calls the size is the old size plus the
  number of calls (the number of calls, from a new cloud), and the points stored are the
  points given, in call order, behind the old ones; one call appends at index = old size;
  a point with a component for which \<^verbatim>\<open>x != x\<close> holds (\<open>hasNaN\<close>) is stored as the origin,
  any other point as it is; the cache of the bounding box is invalid after every call.
\<close>

theorem addPoint_sequence:
  "size_cloud (addPoints Ps PointCloud_new) = length Ps
   \<and> size_cloud (addPoints Ps c) = size_cloud c + length Ps
   \<and> m_points (addPoints Ps c) = m_points c @ map (\<lambda>P. if hasNaN P then origin else P) Ps
   \<and> (\<forall>k < length Ps. m_points (addPoints Ps c) ! (size_cloud c + k)
                         = (if hasNaN (Ps ! k) then origin else Ps ! k))
   \<and> m_points (addPoint P c) = m_points c @ [if hasNaN P then origin else P]
   \<and> m_points (addPoint P c) ! size_cloud c = (if hasNaN P then origin else P)
   \<and> size_cloud (addPoint P c) = size_cloud c + 1
   \<and> hasNaN P = (fne (vx P) (vx P) \<or> fne (vy P) (vy P) \<or> fne (vz P) (vz P))
   \<and> \<not> m_valid (m_bbox (addPoint P c))
   \<and> (Ps \<noteq> [] \<longrightarrow> \<not> m_valid (m_bbox (addPoints Ps c)))"
proof -
  have pts: "m_points (addPoints Ps d) = m_points d @ map stored Ps" for d
    by (rule addPoints_points)
  have st: "stored = (\<lambda>P. if hasNaN P then origin else P)"
    by (rule ext) (simp add: stored_def)
  have a: "size_cloud (addPoints Ps PointCloud_new) = length Ps"
    by (simp add: size_cloud_def pts PointCloud_new_def)
  have b: "size_cloud (addPoints Ps c) = size_cloud c + length Ps"
    by (simp add: size_cloud_def pts)
  have d: "\<forall>k < length Ps. m_points (addPoints Ps c) ! (size_cloud c + k)
             = (if hasNaN (Ps ! k) then origin else Ps ! k)"
    by (simp add: pts size_cloud_def nth_append stored_def)
  have e: "m_points (addPoint P c) = m_points c @ [if hasNaN P then origin else P]"
    by (simp add: addPoint_points stored_def)
  have f: "m_points (addPoint P c) ! size_cloud c = (if hasNaN P then origin else P)"
    by (simp add: e size_cloud_def)
  have g: "size_cloud (addPoint P c) = size_cloud c + 1"
    by (simp add: e size_cloud_def)
  have h: "hasNaN P = (fne (vx P) (vx P) \<or> fne (vy P) (vy P) \<or> fne (vz P) (vz P))"
    by (simp add: hasNaN_def fne_self)
  from a b pts [of c] d e f g h addPoint_bbox_invalid [of P c] addPoints_bbox_invalid [of Ps c]
  show ?thesis unfolding st by blast
qed

theorem addPoint_sequence_witness:
  "size_cloud (addPoints [nan_point, good_point] PointCloud_new) = 2
   \<and> m_points (addPoints [nan_point, good_point] PointCloud_new) = [origin, good_point]
   \<and> \<not> m_valid (m_bbox (addPoints [nan_point, good_point] PointCloud_new))"
  using addPoint_sequence [of "[nan_point, good_point]" PointCloud_new nan_point]
  by (simp add: hasNaN_def nan_point_def good_point_def PointCloud_new_def)

section \<open>Transformation\<close>

lemma applyTransformation_points:
  "m_points (applyTransformation ar tol tr c) =
     map ((if translation_runs ar tol tr then (\<lambda>P. add_vector ar P (trans_T tr)) else id)
          \<circ> (if rotation_runs tr then rotate_vector ar (trans_R tr) else id)
          \<circ> (if scale_runs ar tol tr then (\<lambda>P. scale_vector ar P (trans_s tr)) else id))
       (m_points c)"
  by (simp add: applyTransformation_def Let_def comp_def)

lemma applyTransformation_bbox:
  "m_bbox (applyTransformation ar tol tr c) =
     (if scale_runs ar tol tr \<or> rotation_runs tr \<or> translation_runs ar tol tr
      then setValidity False (m_bbox c) else m_bbox c)"
  by (simp add: applyTransformation_def Let_def setValidity_def)

lemma applyTransformation_skip:
  "\<not> scale_runs ar tol tr \<Longrightarrow> \<not> rotation_runs tr \<Longrightarrow> \<not> translation_runs ar tol tr
   \<Longrightarrow> applyTransformation ar tol tr c = c"
  by (simp add: applyTransformation_def Let_def)

lemma applyTransformation_others:
  "m_scalarFields (applyTransformation ar tol tr c) = m_scalarFields c
   \<and> m_currentInScalarFieldIndex (applyTransformation ar tol tr c) = m_currentInScalarFieldIndex c
   \<and> m_currentOutScalarFieldIndex (applyTransformation ar tol tr c)
       = m_currentOutScalarFieldIndex c
   \<and> m_currentPointIndex (applyTransformation ar tol tr c) = m_currentPointIndex c"
  by (simp add: applyTransformation_def Let_def)

lemma fgt_cases:
  "fgt a tol = (case a of Num x \<Rightarrow> (case tol of Num e \<Rightarrow> e < x | NaN \<Rightarrow> False) | NaN \<Rightarrow> False)"
  by (cases a; cases tol) (simp_all add: fgt_def)

lemma not_fgt: "(\<not> fgt a tol) = (fle a tol \<or> a = NaN \<or> tol = NaN)"
  by (cases a; cases tol) (auto simp: fgt_def)

lemma similarity_runs:
  "scale_runs exact_arithmetic tolerance similarity \<and> rotation_runs similarity
   \<and> translation_runs exact_arithmetic tolerance similarity"
  by (simp add: scale_runs_def rotation_runs_def translation_runs_def similarity_def
      quarter_turn_def fgt_def exact_arithmetic_def exact_norm_def exact_dot_def tolerance_def)

lemma similarity_points:
  "map (\<lambda>P. add_vector exact_arithmetic
              (rotate_vector exact_arithmetic (trans_R similarity)
                 (scale_vector exact_arithmetic P (trans_s similarity)))
              (trans_T similarity))
     [CCVector3 (Num 0) (Num 0) (Num 0), CCVector3 (Num 1) (Num 0) (Num 0),
      CCVector3 (Num 0) (Num 1) (Num 0)]
   = [CCVector3 (Num 0) (Num 0) (Num 1), CCVector3 (Num 0) (Num 2) (Num 1),
      CCVector3 (Num (-2)) (Num 0) (Num 1)]"
  by (simp add: similarity_def quarter_turn_def exact_arithmetic_def exact_add_def
      exact_rotate_def exact_scale_def exact_dot_def)

lemma no_motion_skips:
  "\<not> scale_runs exact_arithmetic tolerance no_motion \<and> \<not> rotation_runs no_motion
   \<and> \<not> translation_runs exact_arithmetic tolerance no_motion"
  by (simp add: scale_runs_def rotation_runs_def translation_runs_def no_motion_def
      quarter_turn_def fgt_def exact_arithmetic_def exact_norm_def exact_dot_def tolerance_def)

text \<open>
  Claim C10, as the claim states it, fails. The scale of the transformation \<open>nan_scale\<close> is
  not a number: it is not within tolerance of 1, and scaling by it is no numerical no-op
  (it turns the point \<open>(1, 0, 0)\<close> into not-a-numbers), but the comparison
  \<^verbatim>\<open>fabs(s - 1.0) > ZERO_TOLERANCE\<close> is false and the phase is skipped: the cloud is left as
  it is. (No operation rounds at this input: the difference of a not-a-number and 1 is a
  not-a-number, and the norm of the zero vector is 0.)
\<close>

theorem applyTransformation_nan_scale_counterexample:
  "trans_s nan_scale = NaN
   \<and> \<not> within_tolerance exact_arithmetic tolerance (trans_s nan_scale) (Num 1)
   \<and> scale_vector exact_arithmetic (CCVector3 (Num 1) (Num 0) (Num 0)) (trans_s nan_scale)
       = CCVector3 NaN NaN NaN
   \<and> \<not> scale_runs exact_arithmetic tolerance nan_scale
   \<and> applyTransformation exact_arithmetic tolerance nan_scale three_points = three_points"
proof -
  have a: "\<not> scale_runs exact_arithmetic tolerance nan_scale
      \<and> \<not> rotation_runs nan_scale \<and> \<not> translation_runs exact_arithmetic tolerance nan_scale"
    by (simp add: scale_runs_def rotation_runs_def translation_runs_def nan_scale_def
        quarter_turn_def fgt_def exact_arithmetic_def exact_norm_def exact_dot_def tolerance_def)
  then have b: "applyTransformation exact_arithmetic tolerance nan_scale three_points
      = three_points"
    by (simp add: applyTransformation_skip)
  have d: "trans_s nan_scale = NaN
      \<and> \<not> within_tolerance exact_arithmetic tolerance (trans_s nan_scale) (Num 1)
      \<and> scale_vector exact_arithmetic (CCVector3 (Num 1) (Num 0) (Num 0)) (trans_s nan_scale)
          = CCVector3 NaN NaN NaN"
    by (simp add: nan_scale_def within_tolerance_def exact_arithmetic_def exact_scale_def)
  from a b d show ?thesis by blast
qed

text \<open>
  Claim C10, amended. Whatever the arithmetic, \<^verbatim>\<open>applyTransformation\<close> maps every point
  through the scale, then the rotation, then the translation, each phase being the
  identity when its test fails; when the three phases run the new point is
  \<open>R * (s * P) + T\<close>, computed by the operations of the machine in that order. The scale
  runs exactly when \<^verbatim>\<open>fabs(s - 1.0) > ZERO_TOLERANCE\<close> holds, the rotation exactly when the
  matrix is flagged valid, the translation exactly when \<^verbatim>\<open>T.norm() > ZERO_TOLERANCE\<close>
  holds: the scale is skipped when \<open>s\<close> is within tolerance of 1 and the translation when
  the norm of \<open>T\<close> is within tolerance of 0, and each of them also when its comparison is
  false because a not-a-number takes part in it. The cache of the bounding box is invalid
  as soon as one phase has run; when none runs the cloud is left as it is.
\<close>

theorem applyTransformation_phases:
  "m_points (applyTransformation ar tol tr c) =
     map ((if translation_runs ar tol tr then (\<lambda>P. add_vector ar P (trans_T tr)) else id)
          \<circ> (if rotation_runs tr then rotate_vector ar (trans_R tr) else id)
          \<circ> (if scale_runs ar tol tr then (\<lambda>P. scale_vector ar P (trans_s tr)) else id))
       (m_points c)
   \<and> (scale_runs ar tol tr \<and> rotation_runs tr \<and> translation_runs ar tol tr \<longrightarrow>
        m_points (applyTransformation ar tol tr c) =
          map (\<lambda>P. add_vector ar
                     (rotate_vector ar (trans_R tr) (scale_vector ar P (trans_s tr)))
                     (trans_T tr))
            (m_points c))
   \<and> (scale_runs ar tol tr \<or> rotation_runs tr \<or> translation_runs ar tol tr \<longrightarrow>
        \<not> m_valid (m_bbox (applyTransformation ar tol tr c)))
   \<and> (\<not> scale_runs ar tol tr \<and> \<not> rotation_runs tr \<and> \<not> translation_runs ar tol tr \<longrightarrow>
        applyTransformation ar tol tr c = c)
   \<and> scale_runs ar tol tr =
       (case fabs (minus_double ar (trans_s tr) (Num 1)) of
          Num a \<Rightarrow> (case tol of Num e \<Rightarrow> e < a | NaN \<Rightarrow> False)
        | NaN \<Rightarrow> False)
   \<and> (\<not> scale_runs ar tol tr) =
       (within_tolerance ar tol (trans_s tr) (Num 1)
        \<or> fabs (minus_double ar (trans_s tr) (Num 1)) = NaN \<or> tol = NaN)
   \<and> rotation_runs tr = m_matrixValid (trans_R tr)
   \<and> translation_runs ar tol tr =
       (case norm_vector ar (trans_T tr) of
          Num a \<Rightarrow> (case tol of Num e \<Rightarrow> e < a | NaN \<Rightarrow> False)
        | NaN \<Rightarrow> False)
   \<and> (\<not> translation_runs ar tol tr) =
       (fle (norm_vector ar (trans_T tr)) tol \<or> norm_vector ar (trans_T tr) = NaN \<or> tol = NaN)
   \<and> m_scalarFields (applyTransformation ar tol tr c) = m_scalarFields c"
proof -
  have all: "scale_runs ar tol tr \<and> rotation_runs tr \<and> translation_runs ar tol tr \<longrightarrow>
        m_points (applyTransformation ar tol tr c) =
          map (\<lambda>P. add_vector ar
                     (rotate_vector ar (trans_R tr) (scale_vector ar P (trans_s tr)))
                     (trans_T tr))
            (m_points c)"
    by (simp add: applyTransformation_points)
  have inv: "scale_runs ar tol tr \<or> rotation_runs tr \<or> translation_runs ar tol tr \<longrightarrow>
        \<not> m_valid (m_bbox (applyTransformation ar tol tr c))"
    by (simp add: applyTransformation_bbox setValidity_def)
  have skip: "\<not> scale_runs ar tol tr \<and> \<not> rotation_runs tr \<and> \<not> translation_runs ar tol tr \<longrightarrow>
        applyTransformation ar tol tr c = c"
    by (simp add: applyTransformation_skip)
  have s1: "scale_runs ar tol tr =
       (case fabs (minus_double ar (trans_s tr) (Num 1)) of
          Num a \<Rightarrow> (case tol of Num e \<Rightarrow> e < a | NaN \<Rightarrow> False)
        | NaN \<Rightarrow> False)"
    unfolding scale_runs_def by (rule fgt_cases)
  have s2: "(\<not> scale_runs ar tol tr) =
       (within_tolerance ar tol (trans_s tr) (Num 1)
        \<or> fabs (minus_double ar (trans_s tr) (Num 1)) = NaN \<or> tol = NaN)"
    unfolding scale_runs_def within_tolerance_def by (rule not_fgt)
  have r: "rotation_runs tr = m_matrixValid (trans_R tr)"
    by (simp add: rotation_runs_def)
  have t1: "translation_runs ar tol tr =
       (case norm_vector ar (trans_T tr) of
          Num a \<Rightarrow> (case tol of Num e \<Rightarrow> e < a | NaN \<Rightarrow> False)
        | NaN \<Rightarrow> False)"
    unfolding translation_runs_def by (rule fgt_cases)
  have t2: "(\<not> translation_runs ar tol tr) =
       (fle (norm_vector ar (trans_T tr)) tol \<or> norm_vector ar (trans_T tr) = NaN \<or> tol = NaN)"
    unfolding translation_runs_def by (rule not_fgt)
  have o: "m_scalarFields (applyTransformation ar tol tr c) = m_scalarFields c"
    by (simp add: applyTransformation_others)
  from applyTransformation_points [of ar tol tr c] all inv skip s1 s2 r t1 t2 o
  show ?thesis by (intro conjI)
qed

theorem applyTransformation_phases_witness:
  "m_points (applyTransformation exact_arithmetic tolerance similarity three_points) =
     [CCVector3 (Num 0) (Num 0) (Num 1), CCVector3 (Num 0) (Num 2) (Num 1),
      CCVector3 (Num (-2)) (Num 0) (Num 1)]
   \<and> \<not> m_valid (m_bbox (applyTransformation exact_arithmetic tolerance similarity three_points))
   \<and> applyTransformation exact_arithmetic tolerance no_motion boxed_points = boxed_points"
proof -
  note t = applyTransformation_phases [of exact_arithmetic tolerance similarity three_points]
  note s = similarity_runs
  have a: "m_points (applyTransformation exact_arithmetic tolerance similarity three_points) =
     [CCVector3 (Num 0) (Num 0) (Num 1), CCVector3 (Num 0) (Num 2) (Num 1),
      CCVector3 (Num (-2)) (Num 0) (Num 1)]"
    using t [THEN conjunct2, THEN conjunct1, THEN mp, OF s] similarity_points
    by (simp add: three_points_def)
  have b: "\<not> m_valid (m_bbox (applyTransformation exact_arithmetic tolerance similarity
              three_points))"
    using t s by blast
  have d: "applyTransformation exact_arithmetic tolerance no_motion boxed_points = boxed_points"
    using applyTransformation_phases [of exact_arithmetic tolerance no_motion boxed_points]
      no_motion_skips
    by blast
  from a b d show ?thesis by blast
qed

section \<open>Swapping two points\<close>

lemma length_swap_list: "length (swap_list i j xs) = length xs"
  by (simp add: swap_list_def)

lemma swap_list_nth:
  "i < length xs \<Longrightarrow> j < length xs \<Longrightarrow>
   swap_list i j xs ! k = (if k = j then xs ! i else if k = i then xs ! j else xs ! k)"
  by (simp add: swap_list_def nth_list_update)

lemma swap_list_twice:
  "i < length xs \<Longrightarrow> j < length xs \<Longrightarrow> swap_list i j (swap_list i j xs) = xs"
  by (rule nth_equalityI) (simp_all add: length_swap_list swap_list_nth)

lemma set_swap_list:
  "i < length xs \<Longrightarrow> j < length xs \<Longrightarrow> set (swap_list i j xs) = set xs"
  by (simp add: swap_list_def set_swap)

lemma swap_fields_Some:
  "list_all (has_slots i j) fs \<Longrightarrow>
   swap_fields i j fs = Some (map (\<lambda>f. f\<lparr>m_data := swap_list i j (m_data f)\<rparr>) fs)"
  by (induction fs) (simp_all add: sf_swap_def has_slots_def)

lemma swap_fields_None:
  "\<not> list_all (has_slots i j) fs \<Longrightarrow> swap_fields i j fs = None"
  by (induction fs) (auto simp: sf_swap_def has_slots_def split: option.splits)


lemma swapPoints_noop:
  "i = j \<or> size_cloud c \<le> i \<or> size_cloud c \<le> j \<Longrightarrow> swapPoints i j c = Some c"
  by (auto simp: swapPoints_def size_cloud_def)

lemma swapPoints_Some:
  assumes "i \<noteq> j" "i < size_cloud c" "j < size_cloud c"
    and "list_all (has_slots i j) (m_scalarFields c)"
  shows "swapPoints i j c =
           Some (c\<lparr>m_points := swap_list i j (m_points c),
                   m_scalarFields :=
                     map (\<lambda>f. f\<lparr>m_data := swap_list i j (m_data f)\<rparr>) (m_scalarFields c)\<rparr>)"
  using assms by (simp add: swapPoints_def size_cloud_def swap_fields_Some)

lemma swapPoints_None:
  assumes "i \<noteq> j" "i < size_cloud c" "j < size_cloud c"
    and "\<not> list_all (has_slots i j) (m_scalarFields c)"
  shows "swapPoints i j c = None"
  using assms by (simp add: swapPoints_def size_cloud_def swap_fields_None)

lemma swap_data_twice:
  "list_all (has_slots i j) fs \<Longrightarrow>
   map (\<lambda>f. f\<lparr>m_data := swap_list i j (m_data f)\<rparr>)
     (map (\<lambda>f. f\<lparr>m_data := swap_list i j (m_data f)\<rparr>) fs) = fs"
  by (induction fs) (simp_all add: has_slots_def swap_list_twice)

lemma has_slots_swapped:
  "list_all (has_slots i j) fs \<Longrightarrow>
   list_all (has_slots i j) (map (\<lambda>f. f\<lparr>m_data := swap_list i j (m_data f)\<rparr>) fs)"
  by (induction fs) (simp_all add: has_slots_def length_swap_list)

lemma swapPoints_twice:
  assumes "i \<noteq> j" "i < size_cloud c" "j < size_cloud c"
    and "list_all (has_slots i j) (m_scalarFields c)"
    and "swapPoints i j c = Some c'"
  shows "swapPoints i j c' = Some c"
proof -
  let ?sw = "\<lambda>f. f\<lparr>m_data := swap_list i j (m_data f)\<rparr>"
  have c': "c' = c\<lparr>m_points := swap_list i j (m_points c),
                    m_scalarFields := map ?sw (m_scalarFields c)\<rparr>"
    using swapPoints_Some [OF assms(1-4)] assms(5) by simp
  have sz: "i < size_cloud c'" "j < size_cloud c'"
    using assms(2,3) by (simp_all add: c' size_cloud_def length_swap_list)
  have sl: "list_all (has_slots i j) (m_scalarFields c')"
    using assms(4) by (simp add: c' has_slots_swapped)
  have pts: "swap_list i j (m_points c') = m_points c"
    using assms(2,3) by (simp add: c' size_cloud_def swap_list_twice)
  have fs: "map ?sw (m_scalarFields c') = m_scalarFields c"
    using swap_data_twice [OF assms(4)] by (simp add: c')
  show ?thesis
    unfolding swapPoints_Some [OF assms(1) sz sl] pts fs by (simp add: c')
qed

text \<open>
  Claim C3, as the claim states it, fails. The cloud \<open>ragged_cloud\<close> is built by
  \<^verbatim>\<open>addScalarField("A")\<close> on a new cloud, \<^verbatim>\<open>addPoint\<close> and \<^verbatim>\<open>addScalarField("B")\<close>; after
  one more \<^verbatim>\<open>addPoint\<close> it has two points, and its fields \<open>A\<close> and \<open>B\<close> have 0 and 1 slots.
  The indices 0 and 1 are valid and differ, but \<^verbatim>\<open>swapPoints(0, 1)\<close>, once the points are
  exchanged, exchanges slots that the fields do not have: the unchecked access is out of
  range and the call has no defined result, so that no second call restores anything.
\<close>

theorem swapPoints_missing_slots_counterexample:
  "addPoint unit_point ragged_cloud
     = addPoint unit_point (cloud_after (addScalarField True True True ''B''
         (addPoint origin (cloud_after (addScalarField True True True ''A'' PointCloud_new)))))
   \<and> size_cloud (addPoint unit_point ragged_cloud) = 2
   \<and> map (length \<circ> m_data) (m_scalarFields (addPoint unit_point ragged_cloud)) = [0, 1]
   \<and> swapPoints 0 1 (addPoint unit_point ragged_cloud) = None"
proof -
  have a: "cloud_after (addScalarField True True True ''A'' PointCloud_new)
      = PointCloud_new\<lparr>m_scalarFields := [new_ScalarField ''A'']\<rparr>"
    by (simp add: addScalarField_def getScalarFieldIndexByName_def PointCloud_new_def
        size_cloud_def cloud_after_def)
  have b: "ragged_cloud = cloud_after (addScalarField True True True ''B''
         (addPoint origin (cloud_after (addScalarField True True True ''A'' PointCloud_new))))"
    unfolding a
    by (simp add: addScalarField_def getScalarFieldIndexByName_def PointCloud_new_def
        size_cloud_def cloud_after_def addPoint_def fne_self origin_def setValidity_def
        resizeSafe_def sf_resize_def resize_list_def new_ScalarField_def ragged_cloud_def
        invalid_box_def Let_def)
  have d: "size_cloud (addPoint unit_point ragged_cloud) = 2
      \<and> map (length \<circ> m_data) (m_scalarFields (addPoint unit_point ragged_cloud)) = [0, 1]"
    by (simp add: size_cloud_def addPoint_def ragged_cloud_def Let_def)
  have e: "swapPoints 0 1 (addPoint unit_point ragged_cloud) = None"
    by (rule swapPoints_None)
       (simp_all add: size_cloud_def addPoint_def ragged_cloud_def has_slots_def Let_def)
  from b d e show ?thesis by simp
qed

text \<open>
  Claim C3, amended. \<^verbatim>\<open>swapPoints(i, j)\<close> returns the cloud as it is when \<open>i = j\<close> or an
  index is not below the size. Otherwise, provided that every field has the two slots \<open>i\<close>
  and \<open>j\<close>, it exchanges the points \<open>i\<close> and \<open>j\<close> and, in every field, the scalars \<open>i\<close> and
  \<open>j\<close>, and touches nothing else; a second call with the same indices gives back the cloud
  it started from. (Where a field lacks one of the two slots the source reads and writes
  out of range: \<open>None\<close>.)
\<close>

theorem swapPoints_involution:
  "(i = j \<or> size_cloud c \<le> i \<or> size_cloud c \<le> j \<longrightarrow> swapPoints i j c = Some c)
   \<and> (i \<noteq> j \<and> i < size_cloud c \<and> j < size_cloud c
        \<and> list_all (has_slots i j) (m_scalarFields c) \<longrightarrow>
       (\<exists>c'. swapPoints i j c = Some c'
          \<and> size_cloud c' = size_cloud c
          \<and> m_points c' ! i = m_points c ! j \<and> m_points c' ! j = m_points c ! i
          \<and> (\<forall>k. k \<noteq> i \<and> k \<noteq> j \<longrightarrow> m_points c' ! k = m_points c ! k)
          \<and> length (m_scalarFields c') = length (m_scalarFields c)
          \<and> (\<forall>n < length (m_scalarFields c).
                m_name (m_scalarFields c' ! n) = m_name (m_scalarFields c ! n)
              \<and> length (m_data (m_scalarFields c' ! n)) = length (m_data (m_scalarFields c ! n))
              \<and> m_data (m_scalarFields c' ! n) ! i = m_data (m_scalarFields c ! n) ! j
              \<and> m_data (m_scalarFields c' ! n) ! j = m_data (m_scalarFields c ! n) ! i
              \<and> (\<forall>k. k \<noteq> i \<and> k \<noteq> j \<longrightarrow>
                    m_data (m_scalarFields c' ! n) ! k = m_data (m_scalarFields c ! n) ! k))
          \<and> swapPoints i j c' = Some c))
   \<and> (i \<noteq> j \<and> i < size_cloud c \<and> j < size_cloud c
        \<and> \<not> list_all (has_slots i j) (m_scalarFields c) \<longrightarrow> swapPoints i j c = None)"
proof (intro conjI impI)
  assume "i = j \<or> size_cloud c \<le> i \<or> size_cloud c \<le> j"
  then show "swapPoints i j c = Some c" by (rule swapPoints_noop)
next
  assume "i \<noteq> j \<and> i < size_cloud c \<and> j < size_cloud c
        \<and> \<not> list_all (has_slots i j) (m_scalarFields c)"
  then show "swapPoints i j c = None" by (simp add: swapPoints_None)
next
  assume a: "i \<noteq> j \<and> i < size_cloud c \<and> j < size_cloud c
        \<and> list_all (has_slots i j) (m_scalarFields c)"
  let ?sw = "\<lambda>f. f\<lparr>m_data := swap_list i j (m_data f)\<rparr>"
  let ?c' = "c\<lparr>m_points := swap_list i j (m_points c),
                m_scalarFields := map ?sw (m_scalarFields c)\<rparr>"
  from a have ne: "i \<noteq> j" and i: "i < length (m_points c)" and j: "j < length (m_points c)"
    and sl: "list_all (has_slots i j) (m_scalarFields c)"
    by (simp_all add: size_cloud_def)
  have r: "swapPoints i j c = Some ?c'"
    using a by (simp add: swapPoints_Some)
  have slots: "i < length (m_data (m_scalarFields c ! n)) \<and> j < length (m_data (m_scalarFields c ! n))"
    if "n < length (m_scalarFields c)" for n
    using sl that by (simp add: list_all_length has_slots_def)
  have again: "swapPoints i j ?c' = Some c"
    using a r by (simp add: swapPoints_twice)
  have pts: "m_points ?c' ! i = m_points c ! j \<and> m_points ?c' ! j = m_points c ! i
      \<and> (\<forall>k. k \<noteq> i \<and> k \<noteq> j \<longrightarrow> m_points ?c' ! k = m_points c ! k)"
    using ne i j by (simp add: swap_list_nth)
  have flds: "\<forall>n < length (m_scalarFields c).
                m_name (m_scalarFields ?c' ! n) = m_name (m_scalarFields c ! n)
              \<and> length (m_data (m_scalarFields ?c' ! n)) = length (m_data (m_scalarFields c ! n))
              \<and> m_data (m_scalarFields ?c' ! n) ! i = m_data (m_scalarFields c ! n) ! j
              \<and> m_data (m_scalarFields ?c' ! n) ! j = m_data (m_scalarFields c ! n) ! i
              \<and> (\<forall>k. k \<noteq> i \<and> k \<noteq> j \<longrightarrow>
                    m_data (m_scalarFields ?c' ! n) ! k = m_data (m_scalarFields c ! n) ! k)"
    using ne slots by (simp add: swap_list_nth length_swap_list)
  have sz: "size_cloud ?c' = size_cloud c"
    by (simp add: size_cloud_def length_swap_list)
  have len: "length (m_scalarFields ?c') = length (m_scalarFields c)"
    by simp
  show "\<exists>c'. swapPoints i j c = Some c'
          \<and> size_cloud c' = size_cloud c
          \<and> m_points c' ! i = m_points c ! j \<and> m_points c' ! j = m_points c ! i
          \<and> (\<forall>k. k \<noteq> i \<and> k \<noteq> j \<longrightarrow> m_points c' ! k = m_points c ! k)
          \<and> length (m_scalarFields c') = length (m_scalarFields c)
          \<and> (\<forall>n < length (m_scalarFields c).
                m_name (m_scalarFields c' ! n) = m_name (m_scalarFields c ! n)
              \<and> length (m_data (m_scalarFields c' ! n)) = length (m_data (m_scalarFields c ! n))
              \<and> m_data (m_scalarFields c' ! n) ! i = m_data (m_scalarFields c ! n) ! j
              \<and> m_data (m_scalarFields c' ! n) ! j = m_data (m_scalarFields c ! n) ! i
              \<and> (\<forall>k. k \<noteq> i \<and> k \<noteq> j \<longrightarrow>
                    m_data (m_scalarFields c' ! n) ! k = m_data (m_scalarFields c ! n) ! k))
          \<and> swapPoints i j c' = Some c"
    using r sz pts len flds again by blast
qed

theorem swapPoints_involution_witness:
  "swapPoints 0 2 three_points_one_field =
     Some (three_points_one_field
       \<lparr>m_points := [CCVector3 (Num 0) (Num 1) (Num 0), CCVector3 (Num 1) (Num 0) (Num 0),
                     CCVector3 (Num 0) (Num 0) (Num 0)],
        m_scalarFields := [default_field\<lparr>m_data := [Num 3, Num 2, Num 1]\<rparr>]\<rparr>)
   \<and> swapPoints 0 2 (the (swapPoints 0 2 three_points_one_field)) = Some three_points_one_field
   \<and> swapPoints 1 1 three_points_one_field = Some three_points_one_field
   \<and> swapPoints 0 3 three_points_one_field = Some three_points_one_field
   \<and> swapPoints 0 1 (addPoint unit_point ragged_cloud) = None"
proof -
  have r: "swapPoints 0 2 three_points_one_field =
     Some (three_points_one_field
       \<lparr>m_points := [CCVector3 (Num 0) (Num 1) (Num 0), CCVector3 (Num 1) (Num 0) (Num 0),
                     CCVector3 (Num 0) (Num 0) (Num 0)],
        m_scalarFields := [default_field\<lparr>m_data := [Num 3, Num 2, Num 1]\<rparr>]\<rparr>)"
    by (simp add: swapPoints_def three_points_one_field_def three_points_def default_field_def
        sf_swap_def swap_list_def)
  have h: "(0::nat) \<noteq> 2 \<and> 0 < size_cloud three_points_one_field
      \<and> 2 < size_cloud three_points_one_field
      \<and> list_all (has_slots 0 2) (m_scalarFields three_points_one_field)"
    by (simp add: size_cloud_def three_points_one_field_def three_points_def default_field_def
        has_slots_def)
  have n1: "swapPoints 1 1 three_points_one_field = Some three_points_one_field"
    using swapPoints_involution [of 1 1 three_points_one_field] by simp
  have n2: "swapPoints 0 3 three_points_one_field = Some three_points_one_field"
    using swapPoints_involution [of 0 3 three_points_one_field]
    by (simp add: size_cloud_def three_points_one_field_def three_points_def)
  have g: "(0::nat) \<noteq> 1 \<and> 0 < size_cloud (addPoint unit_point ragged_cloud)
      \<and> 1 < size_cloud (addPoint unit_point ragged_cloud)
      \<and> \<not> list_all (has_slots 0 1) (m_scalarFields (addPoint unit_point ragged_cloud))"
    by (simp add: size_cloud_def addPoint_def ragged_cloud_def has_slots_def Let_def)
  have n3: "swapPoints 0 1 (addPoint unit_point ragged_cloud) = None"
    using swapPoints_involution [of 0 1 "addPoint unit_point ragged_cloud"] g by blast
  from swapPoints_involution [of 0 2 three_points_one_field] h
  have "swapPoints 0 2 (the (swapPoints 0 2 three_points_one_field)) = Some three_points_one_field"
    by auto
  with r n1 n2 n3 show ?thesis by simp
qed

section \<open>Scalar field management\<close>

subsection \<open>Lookup by name\<close>

lemma indexByName_from_absent:
  "name \<notin> set (map m_name fs) \<Longrightarrow> indexByName_from i name fs = -1"
  by (induction fs arbitrary: i) auto

lemma indexByName_from_present:
  "name \<in> set (map m_name fs) \<Longrightarrow>
   int i \<le> indexByName_from i name fs \<and> indexByName_from i name fs < int i + int (length fs)
   \<and> m_name (fs ! nat (indexByName_from i name fs - int i)) = name"
proof (induction fs arbitrary: i)
  case Nil
  then show ?case by simp
next
  case (Cons f fs)
  show ?case
  proof (cases "m_name f = name")
    case True
    then show ?thesis by simp
  next
    case False
    with Cons.prems have "name \<in> set (map m_name fs)" by auto
    from Cons.IH [OF this, of "i + 1"] False show ?thesis
      by (auto simp: nat_diff_distrib' nat_add_distrib)
  qed
qed

lemma getScalarFieldIndexByName_absent:
  "name \<notin> set (field_names c) \<Longrightarrow> getScalarFieldIndexByName c name = -1"
  by (simp add: getScalarFieldIndexByName_def field_names_def indexByName_from_absent)

lemma getScalarFieldIndexByName_present:
  assumes "name \<in> set (field_names c)"
  shows "0 \<le> getScalarFieldIndexByName c name"
    and "getScalarFieldIndexByName c name < int (length (m_scalarFields c))"
    and "m_name (m_scalarFields c ! nat (getScalarFieldIndexByName c name)) = name"
  using indexByName_from_present [of name "m_scalarFields c" 0] assms
  by (simp_all add: getScalarFieldIndexByName_def field_names_def)

lemma getScalarFieldIndexByName_neg:
  "(getScalarFieldIndexByName c name < 0) = (name \<notin> set (field_names c))"
  using getScalarFieldIndexByName_absent [of name c] getScalarFieldIndexByName_present(1) [of name c]
  by auto

lemma getScalarFieldIndexByName_nonneg:
  "(0 \<le> getScalarFieldIndexByName c name) = (name \<in> set (field_names c))"
  using getScalarFieldIndexByName_neg [of c name] by auto

lemma getScalarField_None:
  "(getScalarField c k = None) = (k < 0 \<or> int (length (m_scalarFields c)) \<le> k)"
  by (auto simp: getScalarField_def)

subsection \<open>Renaming\<close>

lemma renameScalarField_eq:
  "renameScalarField index newName c =
     (if newName \<in> set (field_names c) \<or> index < 0 \<or> int (length (m_scalarFields c)) \<le> index
      then (False, c)
      else (True, c\<lparr>m_scalarFields := (m_scalarFields c)
                       [nat index := (m_scalarFields c ! nat index)\<lparr>m_name := newName\<rparr>]\<rparr>))"
  by (auto simp: renameScalarField_def getScalarFieldIndexByName_neg getScalarField_def setName_def)

subsection \<open>Adding a field\<close>

lemma addScalarField_eq:
  "addScalarField okNew okResize okPush name c =
     (if name \<in> set (field_names c) then Inr (-1, c)
      else if \<not> okNew then Inl (bad_alloc, c)
      else if (size_cloud c \<noteq> 0 \<and> \<not> okResize) \<or> \<not> okPush then Inr (-1, c)
      else Inr (int (length (m_scalarFields c)),
                c\<lparr>m_scalarFields := m_scalarFields c @
                     [\<lparr>m_name = name, m_data = replicate (size_cloud c) (Num 0),
                       m_minVal = Num 0, m_maxVal = Num 0\<rparr>]\<rparr>))"
  by (auto simp: addScalarField_def getScalarFieldIndexByName_nonneg resizeSafe_def
      sf_resize_def resize_list_def new_ScalarField_def Let_def)

lemma cloud_after_simps:
  "cloud_after (Inl (e, c)) = c" "cloud_after (Inr (v, c)) = c"
  by (simp_all add: cloud_after_def)

lemma returned_simps:
  "returned (Inl (e, c)) = None" "returned (Inr (v, c)) = Some v"
  by (simp_all add: returned_def)

lemma cloud_after_addScalarField:
  "cloud_after (addScalarField okNew okResize okPush name c) =
     (if name \<in> set (field_names c) \<or> \<not> okNew \<or> (size_cloud c \<noteq> 0 \<and> \<not> okResize) \<or> \<not> okPush
      then c
      else c\<lparr>m_scalarFields := m_scalarFields c @
                 [\<lparr>m_name = name, m_data = replicate (size_cloud c) (Num 0),
                   m_minVal = Num 0, m_maxVal = Num 0\<rparr>]\<rparr>)"
  by (simp add: addScalarField_eq cloud_after_simps)

lemma ragged_cloud_built:
  "ragged_cloud = cloud_after (addScalarField True True True ''B''
       (addPoint origin (cloud_after (addScalarField True True True ''A'' PointCloud_new))))"
  by (simp add: cloud_after_addScalarField field_names_def PointCloud_new_def size_cloud_def
      addPoint_def fne_self origin_def setValidity_def ragged_cloud_def invalid_box_def Let_def)

subsection \<open>Deleting fields\<close>

lemma pop_all_empty: "pop_all fs = []"
proof (induction fs rule: pop_all.induct)
  case (1 fs)
  show ?case by (subst pop_all.simps) (use 1 in simp)
qed

lemma deleteAllScalarFields_eq:
  "deleteAllScalarFields c =
     c\<lparr>m_currentInScalarFieldIndex := -1, m_currentOutScalarFieldIndex := -1, m_scalarFields := []\<rparr>"
  by (simp add: deleteAllScalarFields_def pop_all_empty)

lemma deleteScalarField_eq:
  "deleteScalarField index c =
     (if index < 0 \<or> int (length (m_scalarFields c)) \<le> index then c
      else c\<lparr>m_currentInScalarFieldIndex :=
                 role_after_delete index (int (length (m_scalarFields c)) - 1) (m_currentInScalarFieldIndex c),
              m_currentOutScalarFieldIndex :=
                 role_after_delete index (int (length (m_scalarFields c)) - 1) (m_currentOutScalarFieldIndex c),
              m_scalarFields :=
                 butlast ((m_scalarFields c)[nat index := last (m_scalarFields c)])\<rparr>)"
proof (cases "index < 0 \<or> int (length (m_scalarFields c)) \<le> index")
  case True
  then show ?thesis by (auto simp: deleteScalarField_def)
next
  case False
  then have ne: "m_scalarFields c \<noteq> []" by auto
  have sw: "butlast (swap_list (nat index) (nat (int (length (m_scalarFields c)) - 1)) (m_scalarFields c))
      = butlast ((m_scalarFields c)[nat index := last (m_scalarFields c)])"
    if "index < int (length (m_scalarFields c)) - 1"
  proof -
    have l: "nat (int (length (m_scalarFields c)) - 1) = length (m_scalarFields c) - 1"
      by simp
    show ?thesis
      unfolding swap_list_def l
      by (simp add: butlast_list_update last_conv_nth ne)
  qed
  have nsw: "butlast (m_scalarFields c) = butlast ((m_scalarFields c)[nat index := last (m_scalarFields c)])"
    if "\<not> index < int (length (m_scalarFields c)) - 1"
  proof -
    from that False have "nat index = length (m_scalarFields c) - 1" by auto
    then show ?thesis by (simp add: butlast_list_update)
  qed
  show ?thesis
    using False sw nsw
    by (auto simp: deleteScalarField_def role_after_delete_def Let_def)
qed


subsection \<open>The invariant of the field collection\<close>

lemma length_field_names: "length (field_names c) = length (m_scalarFields c)"
  by (simp add: field_names_def)

lemma same_roles_inv: "same_roles c c' \<Longrightarrow> fields_inv c \<Longrightarrow> fields_inv c'"
  using length_field_names [of c] length_field_names [of c']
  by (simp add: same_roles_def fields_inv_def role_ok_def)

lemma same_roles_ok: "same_roles c c' \<Longrightarrow> roles_ok c \<Longrightarrow> roles_ok c'"
  using length_field_names [of c] length_field_names [of c']
  by (simp add: same_roles_def roles_ok_def role_ok_def)

lemma fields_inv_roles_ok: "fields_inv c = (roles_ok c \<and> distinct (field_names c))"
  by (simp add: fields_inv_def roles_ok_def)

lemma same_roles_refl: "same_roles c c"
  by (simp add: same_roles_def)

lemma same_roles_trans: "same_roles a b \<Longrightarrow> same_roles b c \<Longrightarrow> same_roles a c"
  by (simp add: same_roles_def)

lemma fields_inv_new: "fields_inv PointCloud_new"
  by (simp add: fields_inv_def role_ok_def PointCloud_new_def field_names_def)

lemma fields_inv_deleteAll: "fields_inv (deleteAllScalarFields c)"
  by (simp add: deleteAllScalarFields_eq fields_inv_def role_ok_def field_names_def)

lemma fields_inv_clear: "fields_inv (clear c)"
  using fields_inv_deleteAll [of "c\<lparr>m_points := []\<rparr>"]
  by (simp add: clear_def invalidateBoundingBox_def placeIteratorAtBeginning_def
      fields_inv_def role_ok_def field_names_def)

lemma same_roles_forEach: "forEach action c = Some c' \<Longrightarrow> same_roles c c'"
  by (auto simp: forEach_def same_roles_def field_names_def getCurrentOutScalarField_def
      getScalarField_def Let_def map_update list_update_same_conv
      split: option.splits if_splits)

lemma same_roles_getBoundingBox: "same_roles c (snd (getBoundingBox c))"
  by (simp add: getBoundingBox_def same_roles_def field_names_def Let_def)

lemma same_roles_invalidateBoundingBox: "same_roles c (invalidateBoundingBox c)"
  by (simp add: invalidateBoundingBox_def same_roles_def field_names_def)

lemma same_roles_placeIteratorAtBeginning: "same_roles c (placeIteratorAtBeginning c)"
  by (simp add: placeIteratorAtBeginning_def same_roles_def field_names_def)

lemma same_roles_getNextPoint: "same_roles c (snd (getNextPoint c))"
  by (simp add: getNextPoint_def same_roles_def field_names_def)

lemma same_roles_reserve: "same_roles c (snd (reserve okPoints okField capacityAfter newCapacity c))"
  by (simp add: reserve_def same_roles_def)

lemma same_roles_addPoint: "same_roles c (addPoint P c)"
  by (simp add: addPoint_def same_roles_def field_names_def Let_def)

lemma same_roles_applyTransformation: "same_roles c (applyTransformation ar tol tr c)"
  by (simp add: applyTransformation_def same_roles_def field_names_def Let_def)

lemma names_resize_rollback:
  "i \<le> length fs \<Longrightarrow> map m_name (resize_rollback oldCount i j fs) = map m_name fs"
proof (induction oldCount i j fs rule: resize_rollback.induct)
  case (1 oldCount i j fs)
  show ?case
  proof (cases "j < i")
    case True
    with 1 show ?thesis
      by (subst resize_rollback.simps)
         (simp add: map_update computeMinAndMax_def sf_resize_def list_update_same_conv
            split: list.splits)
  next
    case False
    then show ?thesis by (subst resize_rollback.simps) simp
  qed
qed

lemma same_roles_resize_loop:
  "same_roles c (snd (resize_loop okField newCount oldCount i c))"
proof (induction okField newCount oldCount i c rule: resize_loop.induct)
  case (1 okField newCount oldCount i c)
  show ?case
  proof (cases "i < length (m_scalarFields c)")
    case False
    then show ?thesis by (subst resize_loop.simps) (simp add: same_roles_refl)
  next
    case True
    show ?thesis
    proof (cases "okField i")
      case False
      with True show ?thesis
        by (subst resize_loop.simps)
           (simp add: resizeSafe_def same_roles_def field_names_def names_resize_rollback)
    next
      case ok: True
      let ?c1 = "c\<lparr>m_scalarFields := (m_scalarFields c)
                    [i := computeMinAndMax (sf_resize newCount (m_scalarFields c ! i))]\<rparr>"
      have step: "same_roles c ?c1"
        using True
        by (simp add: same_roles_def field_names_def map_update computeMinAndMax_def
            sf_resize_def list_update_same_conv split: list.splits)
      have "same_roles ?c1 (snd (resize_loop okField newCount oldCount (i + 1) ?c1))"
        using "1.IH" [of "(True, sf_resize newCount (m_scalarFields c ! i))" True
            "sf_resize newCount (m_scalarFields c ! i)"] True ok
        by (simp add: resizeSafe_def)
      with step have "same_roles c (snd (resize_loop okField newCount oldCount (i + 1) ?c1))"
        by (rule same_roles_trans)
      with True ok show ?thesis
        by (subst resize_loop.simps) (simp add: resizeSafe_def)
    qed
  qed
qed

lemma same_roles_resize: "same_roles c (snd (resize okPoints okField newCount c))"
proof (cases okPoints)
  case False
  then show ?thesis by (simp add: resize_def same_roles_refl)
next
  case True
  let ?c1 = "c\<lparr>m_points := resize_list newCount origin (m_points c)\<rparr>"
  have "same_roles c ?c1" by (simp add: same_roles_def field_names_def)
  then have "same_roles c (snd (resize_loop okField newCount (length (m_points c)) 0 ?c1))"
    using same_roles_resize_loop by (rule same_roles_trans)
  with True show ?thesis by (simp add: resize_def Let_def)
qed

lemma same_roles_setPointScalarValue:
  "setPointScalarValue pointIndex v c = Some c' \<Longrightarrow> same_roles c c'"
  by (auto simp: setPointScalarValue_def setValue_def same_roles_def field_names_def Let_def
      map_update list_update_same_conv split: if_splits option.splits)

lemma names_swap_fields:
  "swap_fields i j fs = Some fs' \<Longrightarrow> map m_name fs' = map m_name fs"
  by (induction fs arbitrary: fs') (auto simp: sf_swap_def split: option.splits if_splits)

lemma same_roles_swapPoints: "swapPoints i j c = Some c' \<Longrightarrow> same_roles c c'"
  by (auto simp: swapPoints_def same_roles_def field_names_def names_swap_fields
      split: if_splits option.splits)


lemma roles_ok_clear: "roles_ok (clear c)"
  by (simp add: clear_def invalidateBoundingBox_def placeIteratorAtBeginning_def
      deleteAllScalarFields_eq roles_ok_def role_ok_def)

lemma roles_ok_deleteAll: "roles_ok (deleteAllScalarFields c)"
  by (simp add: deleteAllScalarFields_eq roles_ok_def role_ok_def)

lemma roles_ok_addScalarField:
  "roles_ok c \<Longrightarrow> roles_ok (cloud_after (addScalarField okNew okResize okPush name c))"
  by (auto simp: cloud_after_addScalarField roles_ok_def role_ok_def)

lemma roles_ok_setCurrentInScalarField:
  "roles_ok c \<Longrightarrow> role_ok c index \<Longrightarrow> roles_ok (setCurrentInScalarField index c)"
  by (simp add: setCurrentInScalarField_def roles_ok_def role_ok_def)

lemma roles_ok_setCurrentOutScalarField:
  "roles_ok c \<Longrightarrow> role_ok c index \<Longrightarrow> roles_ok (setCurrentOutScalarField index c)"
  by (simp add: setCurrentOutScalarField_def roles_ok_def role_ok_def)

lemma fields_inv_setCurrentInScalarField:
  "fields_inv c \<Longrightarrow> role_ok c index \<Longrightarrow> fields_inv (setCurrentInScalarField index c)"
  by (simp add: setCurrentInScalarField_def fields_inv_def role_ok_def field_names_def)

lemma fields_inv_setCurrentOutScalarField:
  "fields_inv c \<Longrightarrow> role_ok c index \<Longrightarrow> fields_inv (setCurrentOutScalarField index c)"
  by (simp add: setCurrentOutScalarField_def fields_inv_def role_ok_def field_names_def)

lemma fields_inv_addScalarField:
  "fields_inv c \<Longrightarrow> fields_inv (cloud_after (addScalarField okNew okResize okPush name c))"
  by (auto simp: cloud_after_addScalarField fields_inv_def role_ok_def field_names_def)

lemma distinct_names_delete:
  assumes "distinct (map m_name fs)" "k < length fs"
  shows "distinct (map m_name (butlast (fs[k := last fs])))"
proof (cases "k = length fs - 1")
  case True
  then have "butlast (fs[k := last fs]) = butlast fs"
    by (simp add: butlast_list_update)
  with assms(1) show ?thesis by (simp add: map_butlast distinct_butlast)
next
  case False
  with assms(2) have k: "k < length fs - 1" by simp
  have ne: "fs \<noteq> []" using assms(2) by auto
  have "butlast (fs[k := last fs]) = (butlast fs)[k := last fs]"
    using k by (simp add: butlast_list_update)
  moreover have "distinct (map m_name ((butlast fs)[k := last fs]))"
  proof -
    have "map m_name fs = map m_name (butlast fs) @ [m_name (last fs)]"
      using ne by (metis append_butlast_last_id list.simps(8,9) map_append)
    with assms(1) have d: "distinct (map m_name (butlast fs))"
      and n: "m_name (last fs) \<notin> set (map m_name (butlast fs))"
      by simp_all
    have "set ((map m_name (butlast fs))[k := m_name (last fs)])
            \<subseteq> insert (m_name (last fs)) (set (map m_name (butlast fs)))"
      by (rule set_update_subset_insert)
    show ?thesis
      unfolding map_update
      using d n k by (simp add: distinct_list_update)
  qed
  ultimately show ?thesis by simp
qed

lemma role_ok_after_delete:
  assumes "0 \<le> index" "index < int (length (m_scalarFields c))" "role_ok c r"
  shows "role_after_delete index (int (length (m_scalarFields c)) - 1) r = -1
         \<or> (0 \<le> role_after_delete index (int (length (m_scalarFields c)) - 1) r
            \<and> role_after_delete index (int (length (m_scalarFields c)) - 1) r
                < int (length (m_scalarFields c)) - 1)"
  using assms by (auto simp: role_after_delete_def role_ok_def)

lemma roles_ok_deleteScalarField:
  assumes "roles_ok c"
  shows "roles_ok (deleteScalarField index c)"
proof (cases "index < 0 \<or> int (length (m_scalarFields c)) \<le> index")
  case True
  with assms show ?thesis by (simp add: deleteScalarField_eq)
next
  case False
  then have i: "0 \<le> index" "index < int (length (m_scalarFields c))" by auto
  then have len: "int (length (butlast ((m_scalarFields c)[nat index := last (m_scalarFields c)])))
      = int (length (m_scalarFields c)) - 1"
    by (simp add: of_nat_diff)
  from assms have a: "role_ok c (m_currentInScalarFieldIndex c)"
    and b: "role_ok c (m_currentOutScalarFieldIndex c)"
    by (simp_all add: roles_ok_def)
  show ?thesis
    using role_ok_after_delete [OF i a] role_ok_after_delete [OF i b] False len
    by (simp add: deleteScalarField_eq roles_ok_def role_ok_def)
qed

lemma roles_ok_renameScalarField:
  "roles_ok c \<Longrightarrow> roles_ok (snd (renameScalarField index newName c))"
  by (simp add: renameScalarField_eq roles_ok_def role_ok_def)

lemma fields_inv_deleteScalarField:
  assumes "fields_inv c"
  shows "fields_inv (deleteScalarField index c)"
proof (cases "index < 0 \<or> int (length (m_scalarFields c)) \<le> index")
  case True
  with assms show ?thesis by (simp add: deleteScalarField_eq)
next
  case False
  then have i: "0 \<le> index" "index < int (length (m_scalarFields c))" by auto
  then have k: "nat index < length (m_scalarFields c)" by simp
  have len: "int (length (butlast ((m_scalarFields c)[nat index := last (m_scalarFields c)])))
      = int (length (m_scalarFields c)) - 1"
    using k by (simp add: of_nat_diff)
  from assms have a: "role_ok c (m_currentInScalarFieldIndex c)"
    and b: "role_ok c (m_currentOutScalarFieldIndex c)"
    and d: "distinct (map m_name (m_scalarFields c))"
    by (simp_all add: fields_inv_def field_names_def)
  show ?thesis
    using role_ok_after_delete [OF i a] role_ok_after_delete [OF i b]
      distinct_names_delete [OF d k] False len
    by (simp add: deleteScalarField_eq fields_inv_def role_ok_def field_names_def)
qed

lemma fields_inv_renameScalarField:
  assumes "fields_inv c"
  shows "fields_inv (snd (renameScalarField index newName c))"
proof (cases "newName \<in> set (field_names c) \<or> index < 0
    \<or> int (length (m_scalarFields c)) \<le> index")
  case True
  with assms show ?thesis by (simp add: renameScalarField_eq)
next
  case False
  then have n: "newName \<notin> set (map m_name (m_scalarFields c))"
    and k: "nat index < length (m_scalarFields c)"
    by (auto simp: field_names_def)
  from assms have d: "distinct (map m_name (m_scalarFields c))"
    by (simp add: fields_inv_def field_names_def)
  have "distinct ((map m_name (m_scalarFields c))[nat index := newName])"
    using d n k by (simp add: distinct_list_update)
  with assms False show ?thesis
    by (simp add: renameScalarField_eq fields_inv_def role_ok_def field_names_def map_update)
qed

lemma fields_inv_finish:
  assumes "distinct (field_names c)"
    and "0 \<le> m_currentInScalarFieldIndex c"
    and "m_currentInScalarFieldIndex c < int (length (m_scalarFields c))"
  shows "fields_inv (snd (enableScalarField_finish capacity okFinal c))"
proof -
  have nm: "map m_name ((m_scalarFields c)[k := snd (resizeSafe okFinal capacity (m_scalarFields c ! k))])
        = map m_name (m_scalarFields c)" for k
    by (cases "k < length (m_scalarFields c)")
       (simp_all add: map_update resizeSafe_def sf_resize_def list_update_same_conv
          list_update_beyond)
  show ?thesis
    using assms nm
    by (auto simp: enableScalarField_finish_def fields_inv_def role_ok_def field_names_def
        getCurrentOutScalarField_def getScalarField_def Let_def split_beta split: if_splits)
qed

lemma roles_ok_finish:
  assumes "0 \<le> m_currentInScalarFieldIndex c"
    and "m_currentInScalarFieldIndex c < int (length (m_scalarFields c))"
  shows "roles_ok (snd (enableScalarField_finish capacity okFinal c))"
  using assms
  by (auto simp: enableScalarField_finish_def roles_ok_def role_ok_def
      getCurrentOutScalarField_def getScalarField_def Let_def split_beta split: if_splits)

lemma cloud_after_enableScalarField:
  "cloud_after (enableScalarField capacity okNew okResize okPush okFinal c) =
     (if getCurrentInScalarField c \<noteq> None
      then snd (enableScalarField_finish capacity okFinal c)
      else if ''Default'' \<in> set (field_names c)
      then snd (enableScalarField_finish capacity okFinal
                  (c\<lparr>m_currentInScalarFieldIndex := getScalarFieldIndexByName c ''Default''\<rparr>))
      else if \<not> okNew \<or> (size_cloud c \<noteq> 0 \<and> \<not> okResize) \<or> \<not> okPush
      then c\<lparr>m_currentInScalarFieldIndex := -1\<rparr>
      else snd (enableScalarField_finish capacity okFinal
                  (c\<lparr>m_scalarFields := m_scalarFields c @
                        [\<lparr>m_name = ''Default'', m_data = replicate (size_cloud c) (Num 0),
                          m_minVal = Num 0, m_maxVal = Num 0\<rparr>],
                     m_currentInScalarFieldIndex := int (length (m_scalarFields c))\<rparr>)))"
proof (cases "getCurrentInScalarField c = None")
  case False
  then have "enableScalarField capacity okNew okResize okPush okFinal c
      = Inr (enableScalarField_finish capacity okFinal c)"
    by (simp only: enableScalarField_def if_False)
  with False show ?thesis
    by (simp add: cloud_after_def split_beta)
next
  case True
  have fn1: "field_names (c\<lparr>m_currentInScalarFieldIndex := k\<rparr>) = field_names c" for k
    by (simp add: field_names_def)
  have sz1: "size_cloud (c\<lparr>m_currentInScalarFieldIndex := k\<rparr>) = size_cloud c" for k
    by (simp add: size_cloud_def)
  show ?thesis
  proof (cases "''Default'' \<in> set (field_names c)")
    case in_names: True
    with True show ?thesis
      by (simp add: enableScalarField_def Let_def getScalarFieldIndexByName_neg cloud_after_def
          split_beta)
  next
    case not_in: False
    then have neg: "getScalarFieldIndexByName c ''Default'' = -1"
      by (rule getScalarFieldIndexByName_absent)
    show ?thesis
      using True not_in
      by (simp add: enableScalarField_def Let_def neg addScalarField_eq fn1 sz1
          cloud_after_def split_beta)
  qed
qed

lemma roles_ok_enableScalarField:
  assumes "roles_ok c"
  shows "roles_ok (cloud_after (enableScalarField capacity okNew okResize okPush okFinal c))"
proof (cases "getCurrentInScalarField c = None")
  case False
  then have "0 \<le> m_currentInScalarFieldIndex c"
    "m_currentInScalarFieldIndex c < int (length (m_scalarFields c))"
    by (auto simp: getCurrentInScalarField_def getScalarField_def split: if_splits)
  then have "roles_ok (snd (enableScalarField_finish capacity okFinal c))"
    by (rule roles_ok_finish)
  with False show ?thesis by (simp add: cloud_after_enableScalarField)
next
  case True
  show ?thesis
  proof (cases "''Default'' \<in> set (field_names c)")
    case in_names: True
    then have "0 \<le> getScalarFieldIndexByName c ''Default''"
      "getScalarFieldIndexByName c ''Default'' < int (length (m_scalarFields c))"
      by (rule getScalarFieldIndexByName_present)+
    then have "roles_ok (snd (enableScalarField_finish capacity okFinal
        (c\<lparr>m_currentInScalarFieldIndex := getScalarFieldIndexByName c ''Default''\<rparr>)))"
      by (intro roles_ok_finish) simp_all
    with True in_names show ?thesis by (simp add: cloud_after_enableScalarField)
  next
    case not_in: False
    show ?thesis
    proof (cases "\<not> okNew \<or> (size_cloud c \<noteq> 0 \<and> \<not> okResize) \<or> \<not> okPush")
      case fail: True
      from assms have "roles_ok (c\<lparr>m_currentInScalarFieldIndex := -1\<rparr>)"
        by (simp add: roles_ok_def role_ok_def)
      with True not_in fail show ?thesis by (simp add: cloud_after_enableScalarField)
    next
      case ok: False
      have "roles_ok (snd (enableScalarField_finish capacity okFinal
          (c\<lparr>m_scalarFields := m_scalarFields c @
                [\<lparr>m_name = ''Default'', m_data = replicate (size_cloud c) (Num 0),
                  m_minVal = Num 0, m_maxVal = Num 0\<rparr>],
             m_currentInScalarFieldIndex := int (length (m_scalarFields c))\<rparr>)))"
        by (intro roles_ok_finish) simp_all
      with True not_in ok show ?thesis by (auto simp: cloud_after_enableScalarField)
    qed
  qed
qed

lemma fields_inv_enableScalarField:
  assumes "fields_inv c"
  shows "fields_inv (cloud_after (enableScalarField capacity okNew okResize okPush okFinal c))"
proof (cases "getCurrentInScalarField c = None")
  case False
  then have "0 \<le> m_currentInScalarFieldIndex c"
    "m_currentInScalarFieldIndex c < int (length (m_scalarFields c))"
    by (auto simp: getCurrentInScalarField_def getScalarField_def split: if_splits)
  with assms have "fields_inv (snd (enableScalarField_finish capacity okFinal c))"
    by (intro fields_inv_finish) (simp_all add: fields_inv_def)
  with False show ?thesis by (simp add: cloud_after_enableScalarField)
next
  case True
  from assms have d: "distinct (field_names c)" by (simp add: fields_inv_def)
  show ?thesis
  proof (cases "''Default'' \<in> set (field_names c)")
    case in_names: True
    then have "0 \<le> getScalarFieldIndexByName c ''Default''"
      "getScalarFieldIndexByName c ''Default'' < int (length (m_scalarFields c))"
      by (rule getScalarFieldIndexByName_present)+
    then have "fields_inv (snd (enableScalarField_finish capacity okFinal
        (c\<lparr>m_currentInScalarFieldIndex := getScalarFieldIndexByName c ''Default''\<rparr>)))"
      using d by (intro fields_inv_finish) (simp_all add: field_names_def)
    with True in_names show ?thesis by (simp add: cloud_after_enableScalarField)
  next
    case not_in: False
    show ?thesis
    proof (cases "\<not> okNew \<or> (size_cloud c \<noteq> 0 \<and> \<not> okResize) \<or> \<not> okPush")
      case fail: True
      from assms have "fields_inv (c\<lparr>m_currentInScalarFieldIndex := -1\<rparr>)"
        by (simp add: fields_inv_def role_ok_def field_names_def)
      with True not_in fail show ?thesis by (simp add: cloud_after_enableScalarField)
    next
      case ok: False
      have "fields_inv (snd (enableScalarField_finish capacity okFinal
          (c\<lparr>m_scalarFields := m_scalarFields c @
                [\<lparr>m_name = ''Default'', m_data = replicate (size_cloud c) (Num 0),
                  m_minVal = Num 0, m_maxVal = Num 0\<rparr>],
             m_currentInScalarFieldIndex := int (length (m_scalarFields c))\<rparr>)))"
        using d not_in by (intro fields_inv_finish) (simp_all add: field_names_def)
      with True not_in ok show ?thesis by (auto simp: cloud_after_enableScalarField)
    qed
  qed
qed

lemma reachable_fields_inv: "reachable c \<Longrightarrow> fields_inv c"
proof (induction rule: reachable.induct)
  case r_new
  show ?case by (rule fields_inv_new)
next
  case (r_clear c)
  show ?case by (rule fields_inv_clear)
next
  case (r_forEach c action c')
  then show ?case using same_roles_forEach same_roles_inv by blast
next
  case (r_getBoundingBox c)
  then show ?case using same_roles_getBoundingBox same_roles_inv by blast
next
  case (r_invalidateBoundingBox c)
  then show ?case using same_roles_invalidateBoundingBox same_roles_inv by blast
next
  case (r_placeIteratorAtBeginning c)
  then show ?case using same_roles_placeIteratorAtBeginning same_roles_inv by blast
next
  case (r_getNextPoint c)
  then show ?case using same_roles_getNextPoint same_roles_inv by blast
next
  case (r_resize c okPoints okField newCount)
  then show ?case using same_roles_resize same_roles_inv by blast
next
  case (r_reserve c okPoints okField capacityAfter newCapacity)
  then show ?case using same_roles_reserve same_roles_inv by blast
next
  case (r_addPoint c P)
  then show ?case using same_roles_addPoint same_roles_inv by blast
next
  case (r_applyTransformation c ar tol tr)
  then show ?case using same_roles_applyTransformation same_roles_inv by blast
next
  case (r_enableScalarField c capacity okNew okResize okPush okFinal)
  then show ?case by (simp add: fields_inv_enableScalarField)
next
  case (r_setPointScalarValue c pointIndex v c')
  then show ?case using same_roles_setPointScalarValue same_roles_inv by blast
next
  case (r_addScalarField c okNew okResize okPush name)
  then show ?case by (simp add: fields_inv_addScalarField)
next
  case (r_deleteScalarField c index)
  then show ?case by (simp add: fields_inv_deleteScalarField)
next
  case (r_deleteAllScalarFields c)
  show ?case by (rule fields_inv_deleteAll)
next
  case (r_renameScalarField c index newName)
  then show ?case by (simp add: fields_inv_renameScalarField)
next
  case (r_swapPoints c i j c')
  then show ?case using same_roles_swapPoints same_roles_inv by blast
next
  case (r_setCurrentInScalarField c index)
  then show ?case by (simp add: fields_inv_setCurrentInScalarField)
next
  case (r_setCurrentOutScalarField c index)
  then show ?case by (simp add: fields_inv_setCurrentOutScalarField)
qed

lemma mutation_roles_ok: "mutation c c' \<Longrightarrow> roles_ok c \<Longrightarrow> roles_ok c'"
proof (induction rule: mutation.induct)
  case (m_clear c)
  show ?case by (rule roles_ok_clear)
next
  case (m_forEach action c c')
  then show ?case using same_roles_forEach same_roles_ok by blast
next
  case (m_invalidateBoundingBox c)
  then show ?case using same_roles_invalidateBoundingBox same_roles_ok by blast
next
  case (m_placeIteratorAtBeginning c)
  then show ?case using same_roles_placeIteratorAtBeginning same_roles_ok by blast
next
  case (m_getNextPoint c)
  then show ?case using same_roles_getNextPoint same_roles_ok by blast
next
  case (m_resize c okPoints okField newCount)
  then show ?case using same_roles_resize same_roles_ok by blast
next
  case (m_reserve c okPoints okField capacityAfter newCapacity)
  then show ?case using same_roles_reserve same_roles_ok by blast
next
  case (m_addPoint c P)
  then show ?case using same_roles_addPoint same_roles_ok by blast
next
  case (m_applyTransformation c ar tol tr)
  then show ?case using same_roles_applyTransformation same_roles_ok by blast
next
  case (m_enableScalarField c capacity okNew okResize okPush okFinal)
  then show ?case by (simp add: roles_ok_enableScalarField)
next
  case (m_setPointScalarValue pointIndex v c c')
  then show ?case using same_roles_setPointScalarValue same_roles_ok by blast
next
  case (m_addScalarField c okNew okResize okPush name)
  then show ?case by (simp add: roles_ok_addScalarField)
next
  case (m_deleteScalarField c index)
  then show ?case by (simp add: roles_ok_deleteScalarField)
next
  case (m_deleteAllScalarFields c)
  show ?case by (rule roles_ok_deleteAll)
next
  case (m_renameScalarField c index newName)
  then show ?case by (simp add: roles_ok_renameScalarField)
next
  case (m_swapPoints i j c c')
  then show ?case using same_roles_swapPoints same_roles_ok by blast
next
  case (m_setCurrentInScalarField c index)
  then show ?case by (simp add: roles_ok_setCurrentInScalarField)
next
  case (m_setCurrentOutScalarField c index)
  then show ?case by (simp add: roles_ok_setCurrentOutScalarField)
qed

lemma two_roles_built:
  "two_roles = setCurrentOutScalarField 0 (setCurrentInScalarField 1
     (cloud_after (addScalarField True True True ''B''
        (cloud_after (addScalarField True True True ''A'' PointCloud_new)))))"
  by (simp add: cloud_after_addScalarField field_names_def PointCloud_new_def size_cloud_def
      setCurrentInScalarField_def setCurrentOutScalarField_def two_roles_def)

lemma two_roles_reachable: "reachable two_roles"
proof -
  let ?a = "cloud_after (addScalarField True True True ''A'' PointCloud_new)"
  let ?b = "cloud_after (addScalarField True True True ''B'' ?a)"
  have b: "reachable ?b" by (intro r_addScalarField r_new)
  have lb: "length (m_scalarFields ?b) = 2"
    by (simp add: cloud_after_addScalarField field_names_def PointCloud_new_def size_cloud_def)
  have i: "reachable (setCurrentInScalarField 1 ?b)"
    using b by (rule r_setCurrentInScalarField) (simp add: role_ok_def lb)
  have "reachable (setCurrentOutScalarField 0 (setCurrentInScalarField 1 ?b))"
    using i by (rule r_setCurrentOutScalarField)
      (simp add: role_ok_def setCurrentInScalarField_def lb)
  then show ?thesis by (simp only: two_roles_built)
qed


subsection \<open>The claims on the field collection\<close>

lemma deleteScalarField_last_added:
  "deleteScalarField (int (length (m_scalarFields c))) (c\<lparr>m_scalarFields := m_scalarFields c @ [f]\<rparr>)
     = c\<lparr>m_currentInScalarFieldIndex :=
            (if m_currentInScalarFieldIndex c = int (length (m_scalarFields c)) then -1
             else m_currentInScalarFieldIndex c),
          m_currentOutScalarFieldIndex :=
            (if m_currentOutScalarFieldIndex c = int (length (m_scalarFields c)) then -1
             else m_currentOutScalarFieldIndex c)\<rparr>"
  by (simp add: deleteScalarField_eq role_after_delete_def)

text \<open>
  Claim C6. In every reachable cloud each of the two role indices is -1 or an index into
  the collection of fields, and so it is after one more call, of any method or setter,
  from any cloud of which it holds, whatever the two roles are. \<^verbatim>\<open>deleteScalarField(index)\<close>,
  for a valid index, moves the last field to the deleted index and drops the last slot; a
  role that pointed at the deleted index becomes -1, a role that pointed at the last
  field, when that field is moved, becomes the deleted index, any other role is left
  alone; roles that were valid stay valid. An index out of range changes nothing.
  \<^verbatim>\<open>deleteAllScalarFields\<close> leaves no field and sets both roles to -1.
\<close>

theorem role_indices_valid:
  "(reachable c \<longrightarrow>
      role_ok c (m_currentInScalarFieldIndex c) \<and> role_ok c (m_currentOutScalarFieldIndex c))
   \<and> (role_ok c (m_currentInScalarFieldIndex c) \<and> role_ok c (m_currentOutScalarFieldIndex c)
        \<and> (mutation c c' \<or> c' = snd (getBoundingBox c)) \<longrightarrow>
      role_ok c' (m_currentInScalarFieldIndex c') \<and> role_ok c' (m_currentOutScalarFieldIndex c'))
   \<and> (0 \<le> index \<and> index < int (length (m_scalarFields c)) \<longrightarrow>
        m_scalarFields (deleteScalarField index c)
          = butlast ((m_scalarFields c)[nat index := last (m_scalarFields c)])
      \<and> m_currentInScalarFieldIndex (deleteScalarField index c)
          = (if m_currentInScalarFieldIndex c = index then -1
             else if index < int (length (m_scalarFields c)) - 1
                     \<and> m_currentInScalarFieldIndex c = int (length (m_scalarFields c)) - 1
                  then index
             else m_currentInScalarFieldIndex c)
      \<and> m_currentOutScalarFieldIndex (deleteScalarField index c)
          = (if m_currentOutScalarFieldIndex c = index then -1
             else if index < int (length (m_scalarFields c)) - 1
                     \<and> m_currentOutScalarFieldIndex c = int (length (m_scalarFields c)) - 1
                  then index
             else m_currentOutScalarFieldIndex c))
   \<and> (index < 0 \<or> int (length (m_scalarFields c)) \<le> index \<longrightarrow> deleteScalarField index c = c)
   \<and> (role_ok c (m_currentInScalarFieldIndex c) \<and> role_ok c (m_currentOutScalarFieldIndex c) \<longrightarrow>
        role_ok (deleteScalarField index c) (m_currentInScalarFieldIndex (deleteScalarField index c))
      \<and> role_ok (deleteScalarField index c) (m_currentOutScalarFieldIndex (deleteScalarField index c)))
   \<and> m_currentInScalarFieldIndex (deleteAllScalarFields c) = -1
   \<and> m_currentOutScalarFieldIndex (deleteAllScalarFields c) = -1
   \<and> m_scalarFields (deleteAllScalarFields c) = []"
proof -
  have r: "reachable c \<longrightarrow>
      role_ok c (m_currentInScalarFieldIndex c) \<and> role_ok c (m_currentOutScalarFieldIndex c)"
    using reachable_fields_inv [of c] by (simp add: fields_inv_def)
  have m: "role_ok c (m_currentInScalarFieldIndex c) \<and> role_ok c (m_currentOutScalarFieldIndex c)
        \<and> (mutation c c' \<or> c' = snd (getBoundingBox c)) \<longrightarrow>
      role_ok c' (m_currentInScalarFieldIndex c') \<and> role_ok c' (m_currentOutScalarFieldIndex c')"
    using mutation_roles_ok [of c c'] same_roles_ok [OF same_roles_getBoundingBox, of c]
    unfolding roles_ok_def by blast
  have d: "0 \<le> index \<and> index < int (length (m_scalarFields c)) \<longrightarrow>
        m_scalarFields (deleteScalarField index c)
          = butlast ((m_scalarFields c)[nat index := last (m_scalarFields c)])
      \<and> m_currentInScalarFieldIndex (deleteScalarField index c)
          = (if m_currentInScalarFieldIndex c = index then -1
             else if index < int (length (m_scalarFields c)) - 1
                     \<and> m_currentInScalarFieldIndex c = int (length (m_scalarFields c)) - 1
                  then index
             else m_currentInScalarFieldIndex c)
      \<and> m_currentOutScalarFieldIndex (deleteScalarField index c)
          = (if m_currentOutScalarFieldIndex c = index then -1
             else if index < int (length (m_scalarFields c)) - 1
                     \<and> m_currentOutScalarFieldIndex c = int (length (m_scalarFields c)) - 1
                  then index
             else m_currentOutScalarFieldIndex c)"
    by (simp add: deleteScalarField_eq role_after_delete_def)
  have n: "index < 0 \<or> int (length (m_scalarFields c)) \<le> index \<longrightarrow> deleteScalarField index c = c"
    by (simp add: deleteScalarField_eq)
  have k: "role_ok c (m_currentInScalarFieldIndex c) \<and> role_ok c (m_currentOutScalarFieldIndex c) \<longrightarrow>
        role_ok (deleteScalarField index c) (m_currentInScalarFieldIndex (deleteScalarField index c))
      \<and> role_ok (deleteScalarField index c) (m_currentOutScalarFieldIndex (deleteScalarField index c))"
    using roles_ok_deleteScalarField [of c index] unfolding roles_ok_def by blast
  have a: "m_currentInScalarFieldIndex (deleteAllScalarFields c) = -1
   \<and> m_currentOutScalarFieldIndex (deleteAllScalarFields c) = -1
   \<and> m_scalarFields (deleteAllScalarFields c) = []"
    by (simp add: deleteAllScalarFields_eq)
  from r m d n k a show ?thesis by blast
qed

theorem role_indices_valid_witness:
  "reachable two_roles
   \<and> m_currentInScalarFieldIndex two_roles = 1 \<and> m_currentOutScalarFieldIndex two_roles = 0
   \<and> role_ok two_roles 1 \<and> role_ok two_roles 0
   \<and> mutation two_roles (deleteScalarField 0 two_roles)
   \<and> m_currentInScalarFieldIndex (deleteScalarField 0 two_roles) = 0
   \<and> m_currentOutScalarFieldIndex (deleteScalarField 0 two_roles) = -1
   \<and> role_ok (deleteScalarField 0 two_roles) 0
   \<and> role_ok (deleteScalarField 0 two_roles) (-1)
   \<and> m_currentInScalarFieldIndex (deleteScalarField 0 three_points_two_fields) = 0
   \<and> m_currentOutScalarFieldIndex (deleteScalarField 0 three_points_two_fields) = -1
   \<and> m_scalarFields (deleteScalarField 0 three_points_two_fields) = [other_field]
   \<and> deleteScalarField 2 three_points_two_fields = three_points_two_fields"
proof -
  note t = role_indices_valid [of two_roles "deleteScalarField 0 two_roles" 0]
  have io: "m_currentInScalarFieldIndex two_roles = 1 \<and> m_currentOutScalarFieldIndex two_roles = 0"
    by (simp add: two_roles_def)
  have h0: "(0::int) \<le> 0 \<and> 0 < int (length (m_scalarFields two_roles))"
    by (simp add: two_roles_def)
  have ok: "role_ok two_roles (m_currentInScalarFieldIndex two_roles)
      \<and> role_ok two_roles (m_currentOutScalarFieldIndex two_roles)"
    using t [THEN conjunct1, THEN mp, OF two_roles_reachable] .
  have mu: "mutation two_roles (deleteScalarField 0 two_roles)"
    by (rule m_deleteScalarField)
  have after: "role_ok (deleteScalarField 0 two_roles)
        (m_currentInScalarFieldIndex (deleteScalarField 0 two_roles))
      \<and> role_ok (deleteScalarField 0 two_roles)
        (m_currentOutScalarFieldIndex (deleteScalarField 0 two_roles))"
    using t [THEN conjunct2, THEN conjunct1] ok mu by blast
  have del: "m_currentInScalarFieldIndex (deleteScalarField 0 two_roles) = 0
      \<and> m_currentOutScalarFieldIndex (deleteScalarField 0 two_roles) = -1"
    using t [THEN conjunct2, THEN conjunct2, THEN conjunct1, THEN mp, OF h0]
    by (simp add: two_roles_def)
  have h: "(0::int) \<le> 0 \<and> 0 < int (length (m_scalarFields three_points_two_fields))"
    by (simp add: three_points_two_fields_def)
  have h2: "(2::int) < 0 \<or> int (length (m_scalarFields three_points_two_fields)) \<le> 2"
    by (simp add: three_points_two_fields_def)
  have three: "m_currentInScalarFieldIndex (deleteScalarField 0 three_points_two_fields) = 0
      \<and> m_currentOutScalarFieldIndex (deleteScalarField 0 three_points_two_fields) = -1
      \<and> m_scalarFields (deleteScalarField 0 three_points_two_fields) = [other_field]
      \<and> deleteScalarField 2 three_points_two_fields = three_points_two_fields"
    using role_indices_valid [of three_points_two_fields three_points_two_fields 0]
      role_indices_valid [of three_points_two_fields three_points_two_fields 2] h h2
    by (simp add: three_points_two_fields_def)
  from two_roles_reachable io ok mu after del three show ?thesis by simp
qed

lemma addScalarField_new_fails:
  "name \<notin> set (field_names c) \<Longrightarrow>
   addScalarField False okResize okPush name c = Inl (bad_alloc, c)"
  by (simp add: addScalarField_eq)

text \<open>
  Claim C7, as the claim states it, fails: no field of the cloud \<open>three_points\<close> is named
  \<open>A\<close>, the resize of the new field to the three points fails, and \<^verbatim>\<open>addScalarField\<close>
  returns -1, not the index of a new field.
\<close>

theorem addScalarField_fresh_name_counterexample:
  "''A'' \<notin> set (field_names three_points)
   \<and> addScalarField True False True ''A'' three_points = Inr (-1, three_points)"
  by (simp add: addScalarField_eq field_names_def three_points_def size_cloud_def)

text \<open>
  Claim C7, amended. \<^verbatim>\<open>addScalarField(name)\<close> returns -1 and leaves the cloud unchanged when
  a field has that very name already. Otherwise, the object of the new field once
  allocated, it returns -1 and leaves the cloud unchanged when the new field cannot be
  sized to the points or the collection of fields cannot grow, and else appends a field of
  that name with one zero per point and returns its index, the old number of fields. When
  no allocation fails and no field is named \<open>name\<close>: the first call returns a valid index,
  a second call returns -1 and changes nothing, and after \<^verbatim>\<open>deleteScalarField\<close> of the first
  index a further call succeeds. The names of the fields of a reachable cloud are pairwise
  distinct.
\<close>

theorem addScalarField_unique_names:
  "(name \<in> set (field_names c) \<longrightarrow>
      addScalarField okNew okResize okPush name c = Inr (-1, c))
   \<and> (name \<notin> set (field_names c) \<longrightarrow>
        addScalarField True okResize okPush name c =
          Inr (if (size_cloud c \<noteq> 0 \<and> \<not> okResize) \<or> \<not> okPush then (-1, c)
               else (int (length (m_scalarFields c)),
                     c\<lparr>m_scalarFields := m_scalarFields c @
                          [\<lparr>m_name = name, m_data = replicate (size_cloud c) (Num 0),
                            m_minVal = Num 0, m_maxVal = Num 0\<rparr>]\<rparr>)))
   \<and> (name \<notin> set (field_names c) \<longrightarrow>
        returned (addScalarField True True True name c) = Some (int (length (m_scalarFields c)))
      \<and> addScalarField True True True name (cloud_after (addScalarField True True True name c))
          = Inr (-1, cloud_after (addScalarField True True True name c))
      \<and> returned (addScalarField True True True name
               (deleteScalarField (int (length (m_scalarFields c)))
                  (cloud_after (addScalarField True True True name c))))
          = Some (int (length (m_scalarFields c))))
   \<and> (reachable c \<longrightarrow> distinct (field_names c))"
proof -
  have e: "name \<in> set (field_names c) \<longrightarrow>
      addScalarField okNew okResize okPush name c = Inr (-1, c)"
    by (simp add: addScalarField_eq)
  have f: "name \<notin> set (field_names c) \<longrightarrow>
        addScalarField True okResize okPush name c =
          Inr (if (size_cloud c \<noteq> 0 \<and> \<not> okResize) \<or> \<not> okPush then (-1, c)
               else (int (length (m_scalarFields c)),
                     c\<lparr>m_scalarFields := m_scalarFields c @
                          [\<lparr>m_name = name, m_data = replicate (size_cloud c) (Num 0),
                            m_minVal = Num 0, m_maxVal = Num 0\<rparr>]\<rparr>))"
    by (simp add: addScalarField_eq)
  have s: "name \<notin> set (field_names c) \<longrightarrow>
        returned (addScalarField True True True name c) = Some (int (length (m_scalarFields c)))
      \<and> addScalarField True True True name (cloud_after (addScalarField True True True name c))
          = Inr (-1, cloud_after (addScalarField True True True name c))
      \<and> returned (addScalarField True True True name
               (deleteScalarField (int (length (m_scalarFields c)))
                  (cloud_after (addScalarField True True True name c))))
          = Some (int (length (m_scalarFields c)))"
  proof
    assume fresh: "name \<notin> set (field_names c)"
    let ?f = "\<lparr>m_name = name, m_data = replicate (size_cloud c) (Num 0),
                m_minVal = Num 0, m_maxVal = Num 0\<rparr>"
    let ?c1 = "c\<lparr>m_scalarFields := m_scalarFields c @ [?f]\<rparr>"
    have first: "addScalarField True True True name c = Inr (int (length (m_scalarFields c)), ?c1)"
      using fresh by (simp add: addScalarField_eq)
    have "name \<in> set (field_names ?c1)" by (simp add: field_names_def)
    then have second: "addScalarField True True True name ?c1 = Inr (-1, ?c1)"
      by (simp add: addScalarField_eq)
    let ?c3 = "deleteScalarField (int (length (m_scalarFields c))) ?c1"
    have "field_names ?c3 = field_names c" "m_scalarFields ?c3 = m_scalarFields c"
      by (simp_all add: deleteScalarField_last_added field_names_def)
    with fresh have third: "returned (addScalarField True True True name ?c3)
        = Some (int (length (m_scalarFields c)))"
      by (simp add: addScalarField_eq returned_simps)
    from second third
    show "returned (addScalarField True True True name c) = Some (int (length (m_scalarFields c)))
      \<and> addScalarField True True True name (cloud_after (addScalarField True True True name c))
          = Inr (-1, cloud_after (addScalarField True True True name c))
      \<and> returned (addScalarField True True True name
               (deleteScalarField (int (length (m_scalarFields c)))
                  (cloud_after (addScalarField True True True name c))))
          = Some (int (length (m_scalarFields c)))"
      unfolding first by (simp add: returned_simps cloud_after_simps)
  qed
  have d: "reachable c \<longrightarrow> distinct (field_names c)"
    using reachable_fields_inv [of c] by (simp add: fields_inv_def)
  from e f s d show ?thesis by (intro conjI)
qed

theorem addScalarField_unique_names_witness:
  "returned (addScalarField True True True ''A'' three_points) = Some 0
   \<and> returned (addScalarField True True True ''A''
            (cloud_after (addScalarField True True True ''A'' three_points))) = Some (-1)
   \<and> returned (addScalarField True True True ''A''
            (deleteScalarField 0
               (cloud_after (addScalarField True True True ''A'' three_points)))) = Some 0
   \<and> addScalarField True True True ''Default'' three_points_one_field
       = Inr (-1, three_points_one_field)
   \<and> addScalarField True True False ''A'' three_points = Inr (-1, three_points)
   \<and> distinct (field_names (cloud_after (addScalarField True True True ''A'' PointCloud_new)))"
proof -
  have fresh: "''A'' \<notin> set (field_names three_points)"
    by (simp add: field_names_def three_points_def)
  have len0: "int (length (m_scalarFields three_points)) = 0"
    by (simp add: three_points_def)
  note t = addScalarField_unique_names [of "''A''" three_points]
  note s = t [of True True True, THEN conjunct2, THEN conjunct2, THEN conjunct1, THEN mp, OF fresh]
  have one: "returned (addScalarField True True True ''A'' three_points) = Some 0"
    using s [THEN conjunct1] len0 by simp
  have two: "returned (addScalarField True True True ''A''
            (cloud_after (addScalarField True True True ''A'' three_points))) = Some (-1)"
    using s [THEN conjunct2, THEN conjunct1] by (simp add: returned_simps)
  have three: "returned (addScalarField True True True ''A''
            (deleteScalarField 0
               (cloud_after (addScalarField True True True ''A'' three_points)))) = Some 0"
    using s [THEN conjunct2, THEN conjunct2] len0 by simp
  have owned: "''Default'' \<in> set (field_names three_points_one_field)"
    by (simp add: field_names_def three_points_one_field_def default_field_def)
  have four: "addScalarField True True True ''Default'' three_points_one_field
      = Inr (-1, three_points_one_field)"
    using addScalarField_unique_names [of "''Default''" three_points_one_field True True True,
        THEN conjunct1] owned
    by simp
  have push: "addScalarField True True False ''A'' three_points = Inr (-1, three_points)"
    using t [of True True False, THEN conjunct2, THEN conjunct1, THEN mp, OF fresh] by simp
  have r: "reachable (cloud_after (addScalarField True True True ''A'' PointCloud_new))"
    by (intro r_addScalarField r_new)
  have five: "distinct (field_names (cloud_after (addScalarField True True True ''A''
      PointCloud_new)))"
    using addScalarField_unique_names [of "''A''"
        "cloud_after (addScalarField True True True ''A'' PointCloud_new)" True True True,
        THEN conjunct2, THEN conjunct2, THEN conjunct2, THEN mp, OF r] .
  from one two three four push five show ?thesis by blast
qed

text \<open>
  Claim C9, as the claim states it, fails: the cloud \<open>three_points_one_field\<close> has one field,
  at index 0, so that no other field owns the name \<open>Default\<close>; renaming field 0 to \<open>Default\<close>
  returns false.
\<close>

theorem renameScalarField_own_name_counterexample:
  "field_names three_points_one_field = [''Default'']
   \<and> getScalarField three_points_one_field 0 = Some default_field
   \<and> renameScalarField 0 ''Default'' three_points_one_field = (False, three_points_one_field)"
  by (simp add: renameScalarField_eq field_names_def three_points_one_field_def
      getScalarField_def default_field_def)

text \<open>
  Claim C9, amended. \<^verbatim>\<open>renameScalarField(index, newName)\<close> returns false and changes nothing
  when some field of the cloud, the field at \<open>index\<close> included, owns \<open>newName\<close>, or when
  \<open>index\<close> is not a valid index; otherwise it gives the name to the field at \<open>index\<close>, in
  place, and returns true.
\<close>

theorem renameScalarField_result:
  "renameScalarField index newName c =
     (if newName \<in> set (field_names c) \<or> index < 0 \<or> int (length (m_scalarFields c)) \<le> index
      then (False, c)
      else (True, c\<lparr>m_scalarFields := (m_scalarFields c)
                       [nat index := (m_scalarFields c ! nat index)\<lparr>m_name := newName\<rparr>]\<rparr>))"
  by (rule renameScalarField_eq)

theorem renameScalarField_result_witness:
  "renameScalarField 1 ''Height'' three_points_two_fields =
     (True, three_points_two_fields
              \<lparr>m_scalarFields := [default_field, other_field\<lparr>m_name := ''Height''\<rparr>]\<rparr>)
   \<and> renameScalarField 1 ''Default'' three_points_two_fields = (False, three_points_two_fields)
   \<and> renameScalarField 2 ''Height'' three_points_two_fields = (False, three_points_two_fields)"
  using renameScalarField_result [of 1 "''Height''" three_points_two_fields]
    renameScalarField_result [of 1 "''Default''" three_points_two_fields]
    renameScalarField_result [of 2 "''Height''" three_points_two_fields]
  by (simp add: field_names_def three_points_two_fields_def default_field_def other_field_def)

section \<open>Enabling the input scalar field\<close>

lemma length_resize_list: "length (resize_list n d xs) = n"
  by (simp add: resize_list_def)

lemma enableScalarField_finish_eq:
  "enableScalarField_finish capacity okFinal c =
     (okFinal,
      c\<lparr>m_currentOutScalarFieldIndex :=
           (if getCurrentOutScalarField c = None then m_currentInScalarFieldIndex c
            else m_currentOutScalarFieldIndex c),
        m_scalarFields := (m_scalarFields c)
           [nat (m_currentInScalarFieldIndex c) :=
              (if okFinal
               then (m_scalarFields c ! nat (m_currentInScalarFieldIndex c))
                      \<lparr>m_data := resize_list capacity (Num 0)
                         (m_data (m_scalarFields c ! nat (m_currentInScalarFieldIndex c)))\<rparr>
               else m_scalarFields c ! nat (m_currentInScalarFieldIndex c))]\<rparr>)"
  by (simp add: enableScalarField_finish_def resizeSafe_def sf_resize_def Let_def)

lemma enableScalarField_designated:
  "getCurrentInScalarField c \<noteq> None \<Longrightarrow>
   enableScalarField capacity okNew okResize okPush okFinal c
     = Inr (enableScalarField_finish capacity okFinal c)"
  by (simp only: enableScalarField_def if_False)

lemma enableScalarField_found:
  assumes "getCurrentInScalarField c = None" "''Default'' \<in> set (field_names c)"
  shows "enableScalarField capacity okNew okResize okPush okFinal c
     = Inr (enableScalarField_finish capacity okFinal
         (c\<lparr>m_currentInScalarFieldIndex := getScalarFieldIndexByName c ''Default''\<rparr>))"
  using assms by (simp add: enableScalarField_def Let_def getScalarFieldIndexByName_neg)

lemma enableScalarField_creation_throws:
  assumes "getCurrentInScalarField c = None" "''Default'' \<notin> set (field_names c)"
  shows "enableScalarField capacity False okResize okPush okFinal c
     = Inl (bad_alloc, c\<lparr>m_currentInScalarFieldIndex := -1\<rparr>)"
proof -
  have neg: "getScalarFieldIndexByName c ''Default'' = -1"
    using assms(2) by (rule getScalarFieldIndexByName_absent)
  have "''Default'' \<notin> set (field_names (c\<lparr>m_currentInScalarFieldIndex := -1\<rparr>))"
    using assms(2) by (simp add: field_names_def)
  then have "addScalarField False okResize okPush ''Default'' (c\<lparr>m_currentInScalarFieldIndex := -1\<rparr>)
      = Inl (bad_alloc, c\<lparr>m_currentInScalarFieldIndex := -1\<rparr>)"
    by (rule addScalarField_new_fails)
  with assms(1) show ?thesis
    by (simp add: enableScalarField_def Let_def neg)
qed

lemma enableScalarField_creation_fails:
  assumes "getCurrentInScalarField c = None" "''Default'' \<notin> set (field_names c)"
    and "okNew" "(size_cloud c \<noteq> 0 \<and> \<not> okResize) \<or> \<not> okPush"
  shows "enableScalarField capacity okNew okResize okPush okFinal c
     = Inr (False, c\<lparr>m_currentInScalarFieldIndex := -1\<rparr>)"
proof -
  have neg: "getScalarFieldIndexByName c ''Default'' = -1"
    using assms(2) by (rule getScalarFieldIndexByName_absent)
  have "''Default'' \<notin> set (field_names (c\<lparr>m_currentInScalarFieldIndex := -1\<rparr>))"
    using assms(2) by (simp add: field_names_def)
  then have "addScalarField okNew okResize okPush ''Default'' (c\<lparr>m_currentInScalarFieldIndex := -1\<rparr>)
      = Inr (-1, c\<lparr>m_currentInScalarFieldIndex := -1\<rparr>)"
    using assms(3,4) by (auto simp: addScalarField_eq size_cloud_def)
  with assms(1) show ?thesis
    by (simp add: enableScalarField_def Let_def neg)
qed

lemma enableScalarField_created:
  assumes "getCurrentInScalarField c = None" "''Default'' \<notin> set (field_names c)"
    and "okNew" "size_cloud c = 0 \<or> okResize" "okPush"
  shows "enableScalarField capacity okNew okResize okPush okFinal c
     = Inr (enableScalarField_finish capacity okFinal
         (c\<lparr>m_scalarFields := m_scalarFields c @
               [\<lparr>m_name = ''Default'', m_data = replicate (size_cloud c) (Num 0),
                 m_minVal = Num 0, m_maxVal = Num 0\<rparr>],
             m_currentInScalarFieldIndex := int (length (m_scalarFields c))\<rparr>))"
proof -
  let ?f = "\<lparr>m_name = ''Default'', m_data = replicate (size_cloud c) (Num 0),
              m_minVal = Num 0, m_maxVal = Num 0\<rparr>"
  have neg: "getScalarFieldIndexByName c ''Default'' = -1"
    using assms(2) by (rule getScalarFieldIndexByName_absent)
  have "''Default'' \<notin> set (field_names (c\<lparr>m_currentInScalarFieldIndex := -1\<rparr>))"
    using assms(2) by (simp add: field_names_def)
  then have "addScalarField okNew okResize okPush ''Default'' (c\<lparr>m_currentInScalarFieldIndex := -1\<rparr>)
      = Inr (int (length (m_scalarFields c)),
             c\<lparr>m_currentInScalarFieldIndex := -1, m_scalarFields := m_scalarFields c @ [?f]\<rparr>)"
    using assms(3-5) by (auto simp: addScalarField_eq size_cloud_def)
  with assms(1) show ?thesis
    by (simp add: enableScalarField_def Let_def neg)
qed

text \<open>
  The cases of \<^verbatim>\<open>enableScalarField\<close>. With an input field designated, the method goes
  straight to its last part. Without one, the input role becomes the index of the field
  named \<open>Default\<close> when there is one; otherwise \<^verbatim>\<open>addScalarField\<close> is to create that field:
  when the field object cannot be allocated, the exception of \<^verbatim>\<open>new\<close> leaves the method
  (input role -1, nothing else changed); when the field cannot be sized or the collection
  cannot grow, the method returns false (input role -1, nothing else changed); otherwise
  the input role becomes the index of the new field. The last part: when no output field
  is designated the output role becomes the input role; the input field is resized to the
  capacity of the points (the argument \<open>capacity\<close>) by \<open>resizeSafe\<close>, and the method returns
  whether that resize has succeeded.
\<close>

lemma enableScalarField_cases:
  "(getCurrentInScalarField c \<noteq> None \<longrightarrow>
      enableScalarField capacity okNew okResize okPush okFinal c
        = Inr (enableScalarField_finish capacity okFinal c))
   \<and> (getCurrentInScalarField c = None \<and> ''Default'' \<in> set (field_names c) \<longrightarrow>
      enableScalarField capacity okNew okResize okPush okFinal c
        = Inr (enableScalarField_finish capacity okFinal
            (c\<lparr>m_currentInScalarFieldIndex := getScalarFieldIndexByName c ''Default''\<rparr>))
      \<and> 0 \<le> getScalarFieldIndexByName c ''Default''
      \<and> getScalarFieldIndexByName c ''Default'' < int (length (m_scalarFields c))
      \<and> m_name (m_scalarFields c ! nat (getScalarFieldIndexByName c ''Default'')) = ''Default'')
   \<and> (getCurrentInScalarField c = None \<and> ''Default'' \<notin> set (field_names c) \<longrightarrow>
      enableScalarField capacity False okResize okPush okFinal c
        = Inl (bad_alloc, c\<lparr>m_currentInScalarFieldIndex := -1\<rparr>))
   \<and> (getCurrentInScalarField c = None \<and> ''Default'' \<notin> set (field_names c)
        \<and> ((size_cloud c \<noteq> 0 \<and> \<not> okResize) \<or> \<not> okPush) \<longrightarrow>
      enableScalarField capacity True okResize okPush okFinal c
        = Inr (False, c\<lparr>m_currentInScalarFieldIndex := -1\<rparr>))
   \<and> (getCurrentInScalarField c = None \<and> ''Default'' \<notin> set (field_names c)
        \<and> (size_cloud c = 0 \<or> okResize) \<and> okPush \<longrightarrow>
      enableScalarField capacity True okResize okPush okFinal c
        = Inr (enableScalarField_finish capacity okFinal
            (c\<lparr>m_scalarFields := m_scalarFields c @
                  [\<lparr>m_name = ''Default'', m_data = replicate (size_cloud c) (Num 0),
                    m_minVal = Num 0, m_maxVal = Num 0\<rparr>],
                m_currentInScalarFieldIndex := int (length (m_scalarFields c))\<rparr>)))
   \<and> enableScalarField_finish capacity okFinal c =
       (okFinal,
        c\<lparr>m_currentOutScalarFieldIndex :=
             (if getCurrentOutScalarField c = None then m_currentInScalarFieldIndex c
              else m_currentOutScalarFieldIndex c),
          m_scalarFields := (m_scalarFields c)
             [nat (m_currentInScalarFieldIndex c) :=
                (if okFinal
                 then (m_scalarFields c ! nat (m_currentInScalarFieldIndex c))
                        \<lparr>m_data := resize_list capacity (Num 0)
                           (m_data (m_scalarFields c ! nat (m_currentInScalarFieldIndex c)))\<rparr>
                 else m_scalarFields c ! nat (m_currentInScalarFieldIndex c))]\<rparr>)
   \<and> length (resize_list capacity (Num 0) xs) = capacity"
  using enableScalarField_designated [of c capacity okNew okResize okPush okFinal]
    enableScalarField_found [of c capacity okNew okResize okPush okFinal]
    enableScalarField_creation_throws [of c capacity okResize okPush okFinal]
    enableScalarField_creation_fails [of c True okResize okPush capacity okFinal]
    enableScalarField_created [of c True okResize okPush capacity okFinal]
    enableScalarField_finish_eq [of capacity okFinal c]
    getScalarFieldIndexByName_present [of "''Default''" c]
    length_resize_list [of capacity "Num 0" xs]
  by blast

lemma enableScalarField_examples:
  "enableScalarField 4 True True True True PointCloud_new =
     Inr (True, PointCloud_new
        \<lparr>m_scalarFields := [\<lparr>m_name = ''Default'', m_data = [Num 0, Num 0, Num 0, Num 0],
                             m_minVal = Num 0, m_maxVal = Num 0\<rparr>],
         m_currentInScalarFieldIndex := 0, m_currentOutScalarFieldIndex := 0\<rparr>)"
  "enableScalarField 3 True False True True three_points = Inr (False, three_points)"
  "enableScalarField 5 True True True False three_points_two_fields
     = Inr (False, three_points_two_fields)"
  "enableScalarField 4 True True True True three_points_two_fields
     = Inr (True, three_points_two_fields
          \<lparr>m_scalarFields := [default_field, other_field\<lparr>m_data := [Num 5, Num 4, Num 6, Num 0]\<rparr>]\<rparr>)"
  "enableScalarField 3 True True True True
       (three_points_one_field\<lparr>m_currentInScalarFieldIndex := -1\<rparr>)
     = Inr (True, three_points_one_field)"
proof -
  have a: "getCurrentInScalarField PointCloud_new = None"
    "''Default'' \<notin> set (field_names PointCloud_new)" "size_cloud PointCloud_new = 0 \<or> True"
    by (simp_all add: getCurrentInScalarField_def getScalarField_def PointCloud_new_def
        field_names_def size_cloud_def)
  show "enableScalarField 4 True True True True PointCloud_new =
     Inr (True, PointCloud_new
        \<lparr>m_scalarFields := [\<lparr>m_name = ''Default'', m_data = [Num 0, Num 0, Num 0, Num 0],
                             m_minVal = Num 0, m_maxVal = Num 0\<rparr>],
         m_currentInScalarFieldIndex := 0, m_currentOutScalarFieldIndex := 0\<rparr>)"
    unfolding enableScalarField_created [OF a(1,2) TrueI a(3) TrueI] enableScalarField_finish_eq
    by (simp add: PointCloud_new_def size_cloud_def getCurrentOutScalarField_def
        getScalarField_def resize_list_def numeral_eq_Suc)
  have b: "getCurrentInScalarField three_points = None"
    "''Default'' \<notin> set (field_names three_points)"
    "(size_cloud three_points \<noteq> 0 \<and> \<not> False) \<or> \<not> True"
    by (simp_all add: getCurrentInScalarField_def getScalarField_def three_points_def
        field_names_def size_cloud_def)
  show "enableScalarField 3 True False True True three_points = Inr (False, three_points)"
    unfolding enableScalarField_creation_fails [OF b(1,2) TrueI b(3)]
    by (simp add: three_points_def)
  have d: "getCurrentInScalarField three_points_two_fields \<noteq> None"
    by (simp add: getCurrentInScalarField_def getScalarField_def three_points_two_fields_def)
  show "enableScalarField 5 True True True False three_points_two_fields
     = Inr (False, three_points_two_fields)"
    unfolding enableScalarField_designated [OF d] enableScalarField_finish_eq
    by (simp add: three_points_two_fields_def getCurrentOutScalarField_def getScalarField_def)
  show "enableScalarField 4 True True True True three_points_two_fields
     = Inr (True, three_points_two_fields
          \<lparr>m_scalarFields := [default_field, other_field\<lparr>m_data := [Num 5, Num 4, Num 6, Num 0]\<rparr>]\<rparr>)"
    unfolding enableScalarField_designated [OF d] enableScalarField_finish_eq
    by (simp add: three_points_two_fields_def getCurrentOutScalarField_def getScalarField_def
        resize_list_def other_field_def)
  let ?u = "three_points_one_field\<lparr>m_currentInScalarFieldIndex := -1\<rparr>"
  have e: "getCurrentInScalarField ?u = None" "''Default'' \<in> set (field_names ?u)"
    by (simp_all add: getCurrentInScalarField_def getScalarField_def three_points_one_field_def
        field_names_def default_field_def)
  have ix: "getScalarFieldIndexByName ?u ''Default'' = 0"
    by (simp add: getScalarFieldIndexByName_def three_points_one_field_def default_field_def)
  show "enableScalarField 3 True True True True ?u = Inr (True, three_points_one_field)"
    unfolding enableScalarField_found [OF e] ix enableScalarField_finish_eq
    by (simp add: three_points_one_field_def getCurrentOutScalarField_def getScalarField_def
        resize_list_def default_field_def)
qed

text \<open>
  Claim C8 fails in the source. On a cloud without an input field and without a field
  named \<open>Default\<close>, \<^verbatim>\<open>enableScalarField\<close> calls \<^verbatim>\<open>addScalarField("Default")\<close>; when the
  \<^verbatim>\<open>new ScalarField\<close> of that call fails, the creation fails, but the method does not return
  false: \<^verbatim>\<open>new\<close> throws \<^verbatim>\<open>std::bad_alloc\<close>, neither method has a handler around it (the test
  \<^verbatim>\<open>!sf\<close> that was to report the failure never holds), and the exception leaves
  \<^verbatim>\<open>enableScalarField\<close> with the input role set to -1 and no value returned.
\<close>

theorem enableScalarField_creation_failure_throws:
  "getCurrentInScalarField c = None \<and> ''Default'' \<notin> set (field_names c) \<longrightarrow>
     enableScalarField capacity False okResize okPush okFinal c
       = Inl (bad_alloc, c\<lparr>m_currentInScalarFieldIndex := -1\<rparr>)
   \<and> returned (enableScalarField capacity False okResize okPush okFinal c) = None"
proof (intro impI, elim conjE)
  assume a: "getCurrentInScalarField c = None" "''Default'' \<notin> set (field_names c)"
  show "enableScalarField capacity False okResize okPush okFinal c
       = Inl (bad_alloc, c\<lparr>m_currentInScalarFieldIndex := -1\<rparr>)
   \<and> returned (enableScalarField capacity False okResize okPush okFinal c) = None"
    unfolding enableScalarField_creation_throws [OF a] by (simp add: returned_simps)
qed

theorem enableScalarField_creation_failure_throws_witness:
  "getCurrentInScalarField PointCloud_new = None
   \<and> ''Default'' \<notin> set (field_names PointCloud_new)
   \<and> enableScalarField 0 False True True True PointCloud_new = Inl (bad_alloc, PointCloud_new)
   \<and> returned (enableScalarField 0 False True True True PointCloud_new) \<noteq> Some False"
proof -
  have a: "getCurrentInScalarField PointCloud_new = None
      \<and> ''Default'' \<notin> set (field_names PointCloud_new)"
    by (simp add: getCurrentInScalarField_def getScalarField_def PointCloud_new_def
        field_names_def)
  have b: "PointCloud_new\<lparr>m_currentInScalarFieldIndex := -1\<rparr> = PointCloud_new"
    by (simp add: PointCloud_new_def)
  from enableScalarField_creation_failure_throws [of PointCloud_new 0 True True True,
      THEN mp, OF a]
  have "enableScalarField 0 False True True True PointCloud_new = Inl (bad_alloc, PointCloud_new)
      \<and> returned (enableScalarField 0 False True True True PointCloud_new) \<noteq> Some False"
    by (simp add: b returned_simps)
  with a show ?thesis by blast
qed

section \<open>Resize\<close>

lemma resize_list_back:
  "length xs \<le> n \<Longrightarrow> resize_list (length xs) d (resize_list n d xs) = xs"
  by (simp add: resize_list_def)

lemma data_computeMinAndMax: "m_data (computeMinAndMax f) = m_data f"
  by (simp add: computeMinAndMax_def split: list.splits)

lemma name_computeMinAndMax: "m_name (computeMinAndMax f) = m_name f"
  by (simp add: computeMinAndMax_def split: list.splits)

lemma data_resized_field: "m_data (resized_field n f) = resize_list n (Num 0) (m_data f)"
  by (simp add: resized_field_def data_computeMinAndMax sf_resize_def)

lemma length_resized_field: "length (m_data (resized_field n f)) = n"
  by (simp add: data_resized_field resize_list_def)

lemma name_resized_field: "m_name (resized_field n f) = m_name f"
  by (simp add: resized_field_def name_computeMinAndMax sf_resize_def)

lemma computeMinAndMax_cong:
  "m_data g = m_data f \<Longrightarrow> m_name g = m_name f \<Longrightarrow> computeMinAndMax g = computeMinAndMax f"
  by (cases f, cases g) (simp add: computeMinAndMax_def split: list.splits)

lemma computeMinAndMax_idem: "computeMinAndMax (computeMinAndMax f) = computeMinAndMax f"
  by (rule computeMinAndMax_cong) (simp_all add: data_computeMinAndMax name_computeMinAndMax)

lemma resized_field_uptodate: "computeMinAndMax (resized_field n f) = resized_field n f"
  by (simp add: resized_field_def computeMinAndMax_idem)

lemma resized_field_back:
  assumes "length (m_data f) \<le> n" "computeMinAndMax f = f"
  shows "resized_field (length (m_data f)) (resized_field n f) = f"
proof -
  have "m_data (sf_resize (length (m_data f)) (resized_field n f)) = m_data f"
    using assms(1) by (simp add: sf_resize_def data_resized_field resize_list_back)
  moreover have "m_name (sf_resize (length (m_data f)) (resized_field n f)) = m_name f"
    by (simp add: sf_resize_def name_resized_field)
  ultimately have "computeMinAndMax (sf_resize (length (m_data f)) (resized_field n f))
      = computeMinAndMax f"
    by (rule computeMinAndMax_cong)
  with assms(2) show ?thesis by (simp add: resized_field_def)
qed

lemma resize_rollback_eq:
  "j \<le> i \<Longrightarrow> i \<le> length fs \<Longrightarrow>
   resize_rollback oldCount i j fs
     = take j fs @ map (resized_field oldCount) (take (i - j) (drop j fs)) @ drop i fs"
proof (induction oldCount i j fs rule: resize_rollback.induct)
  case (1 oldCount i j fs)
  show ?case
  proof (cases "j < i")
    case False
    with "1.prems" have "j = i" by simp
    then show ?thesis by (subst resize_rollback.simps) simp
  next
    case True
    let ?fs1 = "fs[j := computeMinAndMax (sf_resize oldCount (fs ! j))]"
    from True "1.prems" have j: "j < length fs" by simp
    have ih: "resize_rollback oldCount i (j + 1) ?fs1
        = take (j + 1) ?fs1 @ map (resized_field oldCount) (take (i - (j + 1)) (drop (j + 1) ?fs1))
          @ drop i ?fs1"
      using "1.IH" [OF True] True "1.prems" by simp
    have t: "take (j + 1) ?fs1 = take j fs @ [resized_field oldCount (fs ! j)]"
      using j by (simp add: take_Suc_conv_app_nth resized_field_def)
    have d: "drop (j + 1) ?fs1 = drop (j + 1) fs" by simp
    have d2: "drop i ?fs1 = drop i fs" using True by simp
    have s: "take (i - j) (drop j fs) = fs ! j # take (i - (j + 1)) (drop (j + 1) fs)"
    proof -
      have "drop j fs = fs ! j # drop (j + 1) fs"
        using j by (simp add: Cons_nth_drop_Suc)
      moreover from True have "i - j = Suc (i - (j + 1))" by simp
      ultimately show ?thesis by simp
    qed
    have "resize_rollback oldCount i j fs = resize_rollback oldCount i (j + 1) ?fs1"
      using True by (subst resize_rollback.simps) simp
    then show ?thesis
      unfolding ih t d d2 s by simp
  qed
qed

lemma resize_rollback_all:
  "i \<le> length fs \<Longrightarrow>
   resize_rollback oldCount i 0 fs = map (resized_field oldCount) (take i fs) @ drop i fs"
  using resize_rollback_eq [of 0 i fs oldCount] by simp

lemma resize_loop_step:
  assumes "i < length (m_scalarFields c)" "okField i"
  shows "resize_loop okField newCount oldCount i c
     = resize_loop okField newCount oldCount (i + 1)
         (c\<lparr>m_scalarFields := (m_scalarFields c)[i := resized_field newCount (m_scalarFields c ! i)]\<rparr>)"
  using assms by (subst resize_loop.simps) (simp add: resizeSafe_def resized_field_def)

lemma resize_loop_fail:
  assumes "i < length (m_scalarFields c)" "\<not> okField i"
  shows "resize_loop okField newCount oldCount i c
     = (False, c\<lparr>m_scalarFields := resize_rollback oldCount i 0 (m_scalarFields c),
                  m_points := resize_list oldCount origin (m_points c)\<rparr>)"
  using assms by (subst resize_loop.simps) (simp add: resizeSafe_def)

lemma resize_loop_done:
  assumes "\<not> i < length (m_scalarFields c)"
  shows "resize_loop okField newCount oldCount i c = (True, c)"
  using assms by (subst resize_loop.simps) simp

lemma take_drop_step:
  assumes "i < length fs"
  shows "take (i + 1) (fs[i := g (fs ! i)]) @ map g (drop (i + 1) (fs[i := g (fs ! i)]))
         = take i fs @ map g (drop i fs)"
proof -
  have "drop i fs = fs ! i # drop (i + 1) fs"
    using assms by (simp add: Cons_nth_drop_Suc)
  then show ?thesis
    using assms by (simp add: take_Suc_conv_app_nth)
qed

lemma resize_loop_success:
  "\<forall>k. i \<le> k \<and> k < length (m_scalarFields c) \<longrightarrow> okField k \<Longrightarrow>
   resize_loop okField newCount oldCount i c
     = (True, c\<lparr>m_scalarFields :=
                   take i (m_scalarFields c) @ map (resized_field newCount) (drop i (m_scalarFields c))\<rparr>)"
proof (induction "length (m_scalarFields c) - i" arbitrary: i c)
  case 0
  then have "\<not> i < length (m_scalarFields c)" by simp
  then show ?case by (simp add: resize_loop_done)
next
  case (Suc n)
  then have i: "i < length (m_scalarFields c)" by simp
  with Suc.prems have ok: "okField i" by simp
  let ?c1 = "c\<lparr>m_scalarFields := (m_scalarFields c)[i := resized_field newCount (m_scalarFields c ! i)]\<rparr>"
  have "n = length (m_scalarFields ?c1) - (i + 1)" using Suc.hyps(2) by simp
  moreover have "\<forall>k. i + 1 \<le> k \<and> k < length (m_scalarFields ?c1) \<longrightarrow> okField k"
    using Suc.prems by simp
  ultimately have "resize_loop okField newCount oldCount (i + 1) ?c1
      = (True, ?c1\<lparr>m_scalarFields := take (i + 1) (m_scalarFields ?c1)
                       @ map (resized_field newCount) (drop (i + 1) (m_scalarFields ?c1))\<rparr>)"
    by (rule Suc.hyps(1))
  moreover have "resize_loop okField newCount oldCount i c
      = resize_loop okField newCount oldCount (i + 1) ?c1"
    using i ok by (rule resize_loop_step)
  ultimately show ?case
    using take_drop_step [OF i, of "resized_field newCount"] by simp
qed

lemma resize_loop_failure:
  "i \<le> m \<Longrightarrow> m < length (m_scalarFields c) \<Longrightarrow> \<not> okField m \<Longrightarrow>
   \<forall>k. i \<le> k \<and> k < m \<longrightarrow> okField k \<Longrightarrow>
   resize_loop okField newCount oldCount i c
     = (False,
        c\<lparr>m_scalarFields :=
             resize_rollback oldCount m 0
               (take i (m_scalarFields c)
                @ map (resized_field newCount) (take (m - i) (drop i (m_scalarFields c)))
                @ drop m (m_scalarFields c)),
          m_points := resize_list oldCount origin (m_points c)\<rparr>)"
proof (induction "m - i" arbitrary: i c)
  case 0
  then have "i = m" by simp
  with 0 show ?case by (simp add: resize_loop_fail)
next
  case (Suc n)
  then have im: "i < m" and i: "i < length (m_scalarFields c)" by simp_all
  with Suc.prems have ok: "okField i" by simp
  let ?fs = "m_scalarFields c"
  let ?c1 = "c\<lparr>m_scalarFields := ?fs[i := resized_field newCount (?fs ! i)]\<rparr>"
  have "n = m - (i + 1)" using Suc.hyps(2) by simp
  moreover have "i + 1 \<le> m" using im by simp
  moreover have "m < length (m_scalarFields ?c1)" using Suc.prems(2) by simp
  moreover note Suc.prems(3)
  moreover have "\<forall>k. i + 1 \<le> k \<and> k < m \<longrightarrow> okField k" using Suc.prems(4) by simp
  ultimately have ih: "resize_loop okField newCount oldCount (i + 1) ?c1
     = (False,
        ?c1\<lparr>m_scalarFields :=
             resize_rollback oldCount m 0
               (take (i + 1) (m_scalarFields ?c1)
                @ map (resized_field newCount) (take (m - (i + 1)) (drop (i + 1) (m_scalarFields ?c1)))
                @ drop m (m_scalarFields ?c1)),
          m_points := resize_list oldCount origin (m_points ?c1)\<rparr>)"
    by (rule Suc.hyps(1))
  have d: "drop i ?fs = ?fs ! i # drop (i + 1) ?fs"
    using i by (simp add: Cons_nth_drop_Suc)
  have mi: "m - i = Suc (m - (i + 1))" using im by simp
  have eq: "take (i + 1) (m_scalarFields ?c1)
                @ map (resized_field newCount) (take (m - (i + 1)) (drop (i + 1) (m_scalarFields ?c1)))
                @ drop m (m_scalarFields ?c1)
      = take i ?fs @ map (resized_field newCount) (take (m - i) (drop i ?fs)) @ drop m ?fs"
    using i im unfolding mi d by (simp add: take_Suc_conv_app_nth)
  have "resize_loop okField newCount oldCount i c
      = resize_loop okField newCount oldCount (i + 1) ?c1"
    using i ok by (rule resize_loop_step)
  then show ?case
    unfolding ih eq by simp
qed


lemma resize_points_fail: "resize False okField newCount c = (False, c)"
  by (simp add: resize_def)

lemma resize_success:
  assumes "\<forall>k < length (m_scalarFields c). okField k"
  shows "resize True okField newCount c
     = (True, c\<lparr>m_points := resize_list newCount origin (m_points c),
                 m_scalarFields := map (resized_field newCount) (m_scalarFields c)\<rparr>)"
proof -
  let ?c1 = "c\<lparr>m_points := resize_list newCount origin (m_points c)\<rparr>"
  have "\<forall>k. 0 \<le> k \<and> k < length (m_scalarFields ?c1) \<longrightarrow> okField k"
    using assms by simp
  then have "resize_loop okField newCount (length (m_points c)) 0 ?c1
      = (True, ?c1\<lparr>m_scalarFields := take 0 (m_scalarFields ?c1)
                       @ map (resized_field newCount) (drop 0 (m_scalarFields ?c1))\<rparr>)"
    by (rule resize_loop_success)
  then show ?thesis by (simp add: resize_def Let_def)
qed

lemma resize_field_fail:
  assumes "m < length (m_scalarFields c)" "\<not> okField m" "\<forall>k < m. okField k"
  shows "resize True okField newCount c
     = (False,
        c\<lparr>m_scalarFields :=
             map (resized_field (length (m_points c)) \<circ> resized_field newCount)
               (take m (m_scalarFields c))
             @ drop m (m_scalarFields c),
          m_points := resize_list (length (m_points c)) origin
                        (resize_list newCount origin (m_points c))\<rparr>)"
proof -
  let ?c1 = "c\<lparr>m_points := resize_list newCount origin (m_points c)\<rparr>"
  let ?old = "length (m_points c)"
  let ?gs = "take 0 (m_scalarFields ?c1)
      @ map (resized_field newCount) (take (m - 0) (drop 0 (m_scalarFields ?c1)))
      @ drop m (m_scalarFields ?c1)"
  have "(0::nat) \<le> m" by simp
  moreover have "m < length (m_scalarFields ?c1)" using assms(1) by simp
  moreover note assms(2)
  moreover have "\<forall>k. 0 \<le> k \<and> k < m \<longrightarrow> okField k" using assms(3) by simp
  ultimately have l: "resize_loop okField newCount ?old 0 ?c1
     = (False, ?c1\<lparr>m_scalarFields := resize_rollback ?old m 0 ?gs,
                    m_points := resize_list ?old origin (m_points ?c1)\<rparr>)"
    by (rule resize_loop_failure)
  have gs: "?gs = map (resized_field newCount) (take m (m_scalarFields c)) @ drop m (m_scalarFields c)"
    by simp
  have "m \<le> length ?gs" using assms(1) by simp
  then have "resize_rollback ?old m 0 ?gs = map (resized_field ?old) (take m ?gs) @ drop m ?gs"
    by (rule resize_rollback_all)
  also have "\<dots> = map (resized_field ?old \<circ> resized_field newCount) (take m (m_scalarFields c))
      @ drop m (m_scalarFields c)"
    unfolding gs using assms(1) by simp
  finally have rb: "resize_rollback ?old m 0 ?gs
      = map (resized_field ?old \<circ> resized_field newCount) (take m (m_scalarFields c))
        @ drop m (m_scalarFields c)" .
  show ?thesis
    unfolding resize_def Let_def l rb by simp
qed

lemma rollback_restores:
  assumes "\<forall>k < m. length (m_data (fs ! k)) = n \<and> computeMinAndMax (fs ! k) = fs ! k"
    and "n \<le> newCount" "m \<le> length fs"
  shows "map (resized_field n \<circ> resized_field newCount) (take m fs) @ drop m fs = fs"
proof -
  have "map (resized_field n \<circ> resized_field newCount) (take m fs) = take m fs"
  proof (rule nth_equalityI)
    show "length (map (resized_field n \<circ> resized_field newCount) (take m fs)) = length (take m fs)"
      by simp
  next
    fix k assume "k < length (map (resized_field n \<circ> resized_field newCount) (take m fs))"
    then have k: "k < m" "k < length fs" by simp_all
    with assms(1) have l: "length (m_data (fs ! k)) = n" and u: "computeMinAndMax (fs ! k) = fs ! k"
      by simp_all
    from l assms(2) have "length (m_data (fs ! k)) \<le> newCount" by simp
    from resized_field_back [OF this u] l
    have "resized_field n (resized_field newCount (fs ! k)) = fs ! k" by simp
    with k show "map (resized_field n \<circ> resized_field newCount) (take m fs) ! k = take m fs ! k"
      by simp
  qed
  then show ?thesis by simp
qed

text \<open>
  Claim C1, as the claim states it, fails. The cloud \<open>ragged_cloud\<close> (reached by adding
  the field \<open>A\<close>, a point, and the field \<open>B\<close>) has one point and fields of 0 and 1 slots.
  \<^verbatim>\<open>resize(3)\<close> with a failure on field 1 returns false, and leaves field 0 with 1 slot,
  the old number of points, not with the 0 slots it had before the call.
\<close>

theorem resize_not_atomic_counterexample:
  "ragged_cloud = cloud_after (addScalarField True True True ''B''
       (addPoint origin (cloud_after (addScalarField True True True ''A'' PointCloud_new))))
   \<and> map (length \<circ> m_data) (m_scalarFields ragged_cloud) = [0, 1]
   \<and> fst (resize True (fail_at 1) 3 ragged_cloud) = False
   \<and> map (length \<circ> m_data) (m_scalarFields (snd (resize True (fail_at 1) 3 ragged_cloud))) = [1, 1]"
proof -
  note r = ragged_cloud_built
  have f: "1 < length (m_scalarFields ragged_cloud)" "\<not> fail_at 1 1" "\<forall>k < 1. fail_at 1 k"
    by (simp_all add: ragged_cloud_def fail_at_def)
  have b: "map (length \<circ> m_data) (m_scalarFields ragged_cloud) = [0, 1]"
    by (simp add: ragged_cloud_def)
  have a: "fst (resize True (fail_at 1) 3 ragged_cloud) = False
      \<and> map (length \<circ> m_data) (m_scalarFields (snd (resize True (fail_at 1) 3 ragged_cloud)))
          = [1, 1]"
    using resize_field_fail [OF f, of 3]
    by (simp add: ragged_cloud_def length_resized_field)
  from r b a show ?thesis by blast
qed


text \<open>
  Claim C1, amended. When the allocation of the points fails, \<^verbatim>\<open>resize\<close> returns false and
  the cloud is unchanged. When the points succeed and field \<open>m\<close> is the first whose
  \<open>resizeSafe\<close> fails, the call returns false; the number of points is the old one; every
  field before \<open>m\<close> has been resized to the new count and back to the old number of points,
  so it has as many slots as there were points and statistics recomputed from its values;
  the fields from \<open>m\<close> on, the bounding box, the roles and the iterator are untouched; and
  the cloud as a whole is identical to the cloud before the call provided that the new
  count is not below the old one and that every field before \<open>m\<close> had one slot per point
  and current statistics. When nothing fails the call returns true, and the points and
  every field have exactly \<open>newCount\<close> elements, the statistics being recomputed.
\<close>

theorem resize_rollback_atomic:
  "resize False okField newCount c = (False, c)
   \<and> (m < length (m_scalarFields c) \<and> \<not> okField m \<and> (\<forall>k < m. okField k) \<longrightarrow>
        fst (resize True okField newCount c) = False
      \<and> size_cloud (snd (resize True okField newCount c)) = size_cloud c
      \<and> length (m_scalarFields (snd (resize True okField newCount c))) = length (m_scalarFields c)
      \<and> (\<forall>k < m.
            m_scalarFields (snd (resize True okField newCount c)) ! k
              = resized_field (size_cloud c) (resized_field newCount (m_scalarFields c ! k))
          \<and> m_name (m_scalarFields (snd (resize True okField newCount c)) ! k)
              = m_name (m_scalarFields c ! k)
          \<and> length (m_data (m_scalarFields (snd (resize True okField newCount c)) ! k))
              = size_cloud c
          \<and> stats_current (m_scalarFields (snd (resize True okField newCount c)) ! k))
      \<and> (\<forall>k. m \<le> k \<and> k < length (m_scalarFields c) \<longrightarrow>
            m_scalarFields (snd (resize True okField newCount c)) ! k = m_scalarFields c ! k)
      \<and> m_bbox (snd (resize True okField newCount c)) = m_bbox c
      \<and> m_currentPointIndex (snd (resize True okField newCount c)) = m_currentPointIndex c
      \<and> m_currentInScalarFieldIndex (snd (resize True okField newCount c))
          = m_currentInScalarFieldIndex c
      \<and> m_currentOutScalarFieldIndex (snd (resize True okField newCount c))
          = m_currentOutScalarFieldIndex c
      \<and> (size_cloud c \<le> newCount
          \<and> (\<forall>k < m. length (m_data (m_scalarFields c ! k)) = size_cloud c
                     \<and> stats_current (m_scalarFields c ! k))
          \<longrightarrow> snd (resize True okField newCount c) = c))
   \<and> ((\<forall>k < length (m_scalarFields c). okField k) \<longrightarrow>
        fst (resize True okField newCount c) = True
      \<and> size_cloud (snd (resize True okField newCount c)) = newCount
      \<and> length (m_scalarFields (snd (resize True okField newCount c))) = length (m_scalarFields c)
      \<and> (\<forall>k < length (m_scalarFields c).
            m_scalarFields (snd (resize True okField newCount c)) ! k
              = resized_field newCount (m_scalarFields c ! k)
          \<and> m_name (m_scalarFields (snd (resize True okField newCount c)) ! k)
              = m_name (m_scalarFields c ! k)
          \<and> length (m_data (m_scalarFields (snd (resize True okField newCount c)) ! k)) = newCount
          \<and> stats_current (m_scalarFields (snd (resize True okField newCount c)) ! k)))"
proof (intro conjI impI)
  show "resize False okField newCount c = (False, c)" by (rule resize_points_fail)
next
  assume a: "m < length (m_scalarFields c) \<and> \<not> okField m \<and> (\<forall>k < m. okField k)"
  let ?fs = "m_scalarFields c"
  let ?old = "length (m_points c)"
  let ?c' = "c\<lparr>m_scalarFields :=
             map (resized_field ?old \<circ> resized_field newCount) (take m ?fs) @ drop m ?fs,
          m_points := resize_list ?old origin (resize_list newCount origin (m_points c))\<rparr>"
  from a have m: "m < length ?fs" by simp
  have r: "resize True okField newCount c = (False, ?c')"
    using a by (intro resize_field_fail) simp_all
  have before: "m_scalarFields ?c' ! k = resized_field ?old (resized_field newCount (?fs ! k))"
    if "k < m" for k
    using that m by (simp add: nth_append)
  have after: "m_scalarFields ?c' ! k = ?fs ! k" if "m \<le> k" "k < length ?fs" for k
    using that m by (simp add: nth_append min_def)
  show "fst (resize True okField newCount c) = False" by (simp add: r)
  show "size_cloud (snd (resize True okField newCount c)) = size_cloud c"
    by (simp add: r size_cloud_def length_resize_list)
  show "length (m_scalarFields (snd (resize True okField newCount c))) = length ?fs"
    using m by (simp add: r)
  show "\<forall>k < m.
            m_scalarFields (snd (resize True okField newCount c)) ! k
              = resized_field (size_cloud c) (resized_field newCount (m_scalarFields c ! k))
          \<and> m_name (m_scalarFields (snd (resize True okField newCount c)) ! k)
              = m_name (m_scalarFields c ! k)
          \<and> length (m_data (m_scalarFields (snd (resize True okField newCount c)) ! k))
              = size_cloud c
          \<and> stats_current (m_scalarFields (snd (resize True okField newCount c)) ! k)"
    unfolding r snd_conv
  proof (intro allI impI)
    fix k assume "k < m"
    from before [OF this] show "m_scalarFields ?c' ! k
              = resized_field (size_cloud c) (resized_field newCount (m_scalarFields c ! k))
          \<and> m_name (m_scalarFields ?c' ! k) = m_name (m_scalarFields c ! k)
          \<and> length (m_data (m_scalarFields ?c' ! k)) = size_cloud c
          \<and> stats_current (m_scalarFields ?c' ! k)"
      by (simp only: size_cloud_def name_resized_field length_resized_field
          stats_current_def resized_field_uptodate simp_thms)
  qed
  show "\<forall>k. m \<le> k \<and> k < length (m_scalarFields c) \<longrightarrow>
            m_scalarFields (snd (resize True okField newCount c)) ! k = m_scalarFields c ! k"
    unfolding r snd_conv using after by blast
  show "m_bbox (snd (resize True okField newCount c)) = m_bbox c" by (simp add: r)
  show "m_currentPointIndex (snd (resize True okField newCount c)) = m_currentPointIndex c"
    by (simp add: r)
  show "m_currentInScalarFieldIndex (snd (resize True okField newCount c))
          = m_currentInScalarFieldIndex c"
    by (simp add: r)
  show "m_currentOutScalarFieldIndex (snd (resize True okField newCount c))
          = m_currentOutScalarFieldIndex c"
    by (simp add: r)
  show "snd (resize True okField newCount c) = c"
    if h: "size_cloud c \<le> newCount
          \<and> (\<forall>k < m. length (m_data (m_scalarFields c ! k)) = size_cloud c
                     \<and> stats_current (m_scalarFields c ! k))"
  proof -
    from h have le: "?old \<le> newCount" by (simp add: size_cloud_def)
    from h have "\<forall>k < m. length (m_data (?fs ! k)) = ?old \<and> computeMinAndMax (?fs ! k) = ?fs ! k"
      by (simp add: size_cloud_def stats_current_def)
    then have "map (resized_field ?old \<circ> resized_field newCount) (take m ?fs) @ drop m ?fs = ?fs"
      using le m by (intro rollback_restores) simp_all
    moreover have "resize_list ?old origin (resize_list newCount origin (m_points c)) = m_points c"
      using le by (rule resize_list_back)
    ultimately show ?thesis by (simp add: r)
  qed
next
  assume a: "\<forall>k < length (m_scalarFields c). okField k"
  let ?c' = "c\<lparr>m_points := resize_list newCount origin (m_points c),
                 m_scalarFields := map (resized_field newCount) (m_scalarFields c)\<rparr>"
  have r: "resize True okField newCount c = (True, ?c')"
    using a by (rule resize_success)
  show "fst (resize True okField newCount c) = True" by (simp add: r)
  show "size_cloud (snd (resize True okField newCount c)) = newCount"
    by (simp add: r size_cloud_def length_resize_list)
  show "length (m_scalarFields (snd (resize True okField newCount c))) = length (m_scalarFields c)"
    by (simp add: r)
  show "\<forall>k < length (m_scalarFields c).
            m_scalarFields (snd (resize True okField newCount c)) ! k
              = resized_field newCount (m_scalarFields c ! k)
          \<and> m_name (m_scalarFields (snd (resize True okField newCount c)) ! k)
              = m_name (m_scalarFields c ! k)
          \<and> length (m_data (m_scalarFields (snd (resize True okField newCount c)) ! k)) = newCount
          \<and> stats_current (m_scalarFields (snd (resize True okField newCount c)) ! k)"
    by (simp add: r name_resized_field length_resized_field stats_current_def
        resized_field_uptodate)
qed


theorem resize_rollback_atomic_witness:
  "resize False never_fails 5 three_points_two_fields = (False, three_points_two_fields)
   \<and> fst (resize True (fail_at 1) 5 three_points_two_fields) = False
   \<and> snd (resize True (fail_at 1) 5 three_points_two_fields) = three_points_two_fields
   \<and> fst (resize True never_fails 5 three_points_two_fields) = True
   \<and> size_cloud (snd (resize True never_fails 5 three_points_two_fields)) = 5
   \<and> length (m_data (m_scalarFields (snd (resize True never_fails 5 three_points_two_fields)) ! 0)) = 5
   \<and> length (m_data (m_scalarFields (snd (resize True never_fails 5 three_points_two_fields)) ! 1)) = 5"
proof -
  note t1 = resize_rollback_atomic [of "fail_at 1" 5 three_points_two_fields 1]
  note t2 = resize_rollback_atomic [of never_fails 5 three_points_two_fields 0]
  have f: "1 < length (m_scalarFields three_points_two_fields) \<and> \<not> fail_at 1 1
      \<and> (\<forall>k < 1. fail_at 1 k)"
    by (simp add: three_points_two_fields_def fail_at_def)
  have st: "stats_current default_field"
    by (simp add: stats_current_def computeMinAndMax_def default_field_def fmin_def fmax_def)
  have g: "size_cloud three_points_two_fields \<le> 5
      \<and> (\<forall>k < 1. length (m_data (m_scalarFields three_points_two_fields ! k))
                     = size_cloud three_points_two_fields
                   \<and> stats_current (m_scalarFields three_points_two_fields ! k))"
    using st by (simp add: three_points_two_fields_def three_points_def size_cloud_def
        default_field_def)
  have n: "\<forall>k < length (m_scalarFields three_points_two_fields). never_fails k"
    by (simp add: never_fails_def)
  have l: "length (m_scalarFields three_points_two_fields) = 2"
    by (simp add: three_points_two_fields_def)
  note a = t1 [THEN conjunct2, THEN conjunct1, THEN mp, OF f]
  note b = t2 [THEN conjunct2, THEN conjunct2, THEN mp, OF n]
  have one: "resize False never_fails 5 three_points_two_fields = (False, three_points_two_fields)"
    using t2 [THEN conjunct1] .
  have two: "fst (resize True (fail_at 1) 5 three_points_two_fields) = False"
    using a by blast
  have three: "snd (resize True (fail_at 1) 5 three_points_two_fields) = three_points_two_fields"
    using a g by blast
  have four: "fst (resize True never_fails 5 three_points_two_fields) = True
      \<and> size_cloud (snd (resize True never_fails 5 three_points_two_fields)) = 5"
    using b by blast
  have five: "length (m_data (m_scalarFields (snd (resize True never_fails 5 three_points_two_fields)) ! 0)) = 5
   \<and> length (m_data (m_scalarFields (snd (resize True never_fails 5 three_points_two_fields)) ! 1)) = 5"
    using b l by (simp add: length_resized_field)
  from one two three four five show ?thesis by blast
qed

section \<open>Bounding box\<close>

lemma getBoundingBox_valid:
  "m_valid (m_bbox c) \<Longrightarrow> getBoundingBox c = (corners (m_bbox c), c)"
  by (simp add: getBoundingBox_def corners_def)

lemma getBoundingBox_invalid:
  "\<not> m_valid (m_bbox c) \<Longrightarrow>
   getBoundingBox c = (corners (box_of (m_points c)), c\<lparr>m_bbox := box_of (m_points c)\<rparr>)"
  by (simp add: getBoundingBox_def corners_def box_of_def bbox_clear_def Let_def)

lemma fold_bbox_add_valid:
  "m_valid b \<Longrightarrow>
   fold bbox_add Ps b =
     \<lparr>m_bbMin = fold (\<lambda>P A. vmin A P) Ps (m_bbMin b),
      m_bbMax = fold (\<lambda>P A. vmax A P) Ps (m_bbMax b), m_valid = True\<rparr>"
  by (induction Ps arbitrary: b) (simp_all add: bbox_add_def)

lemma box_of_Cons:
  "box_of (P # Ps) =
     \<lparr>m_bbMin = fold (\<lambda>P A. vmin A P) Ps P, m_bbMax = fold (\<lambda>P A. vmax A P) Ps P,
      m_valid = True\<rparr>"
  by (simp add: box_of_def bbox_add_def fold_bbox_add_valid)

lemma box_of_valid: "m_valid (box_of pts) = (pts \<noteq> [])"
  by (cases pts) (simp_all add: box_of_Cons, simp add: box_of_def)

lemma fold_vmin_coords:
  "fold (\<lambda>P A. vmin A P) Ps A =
     CCVector3 (fold (\<lambda>P a. fmin a (vx P)) Ps (vx A)) (fold (\<lambda>P a. fmin a (vy P)) Ps (vy A))
       (fold (\<lambda>P a. fmin a (vz P)) Ps (vz A))"
  by (induction Ps arbitrary: A) (simp_all add: vmin_def)

lemma fold_vmax_coords:
  "fold (\<lambda>P A. vmax A P) Ps A =
     CCVector3 (fold (\<lambda>P a. fmax a (vx P)) Ps (vx A)) (fold (\<lambda>P a. fmax a (vy P)) Ps (vy A))
       (fold (\<lambda>P a. fmax a (vz P)) Ps (vz A))"
  by (induction Ps arbitrary: A) (simp_all add: vmax_def)

lemma fmin_Num: "fmin (Num a) (Num b) = Num (min b a)"
  by (simp add: fmin_def min_def)

lemma fmax_Num: "fmax (Num a) (Num b) = Num (max b a)"
  by (simp add: fmax_def max_def)

lemma fold_fmin_Num:
  "list_all (\<lambda>P. sel P \<noteq> NaN) Ps \<Longrightarrow>
   fold (\<lambda>P a. fmin a (sel P)) Ps (Num a0) = Num (fold min (map (real_of \<circ> sel) Ps) a0)"
proof (induction Ps arbitrary: a0)
  case Nil
  show ?case by simp
next
  case (Cons P Ps)
  then obtain p where p: "sel P = Num p" by (cases "sel P") simp_all
  from Cons show ?case by (simp add: p fmin_Num)
qed

lemma fold_fmax_Num:
  "list_all (\<lambda>P. sel P \<noteq> NaN) Ps \<Longrightarrow>
   fold (\<lambda>P a. fmax a (sel P)) Ps (Num a0) = Num (fold max (map (real_of \<circ> sel) Ps) a0)"
proof (induction Ps arbitrary: a0)
  case Nil
  show ?case by simp
next
  case (Cons P Ps)
  then obtain p where p: "sel P = Num p" by (cases "sel P") simp_all
  from Cons show ?case by (simp add: p fmax_Num)
qed

lemma nan_free_sel:
  "nan_free pts \<Longrightarrow> list_all (\<lambda>P. vx P \<noteq> NaN) pts \<and> list_all (\<lambda>P. vy P \<noteq> NaN) pts
     \<and> list_all (\<lambda>P. vz P \<noteq> NaN) pts"
  by (simp add: nan_free_def hasNaN_def list_all_iff)

lemma coord_min:
  assumes "list_all (\<lambda>P. sel P \<noteq> NaN) (P # Ps)"
  shows "fold (\<lambda>P a. fmin a (sel P)) Ps (sel P) = Num (Min (set (map (real_of \<circ> sel) (P # Ps))))"
proof -
  from assms obtain p where p: "sel P = Num p" by (cases "sel P") simp_all
  from assms have "list_all (\<lambda>P. sel P \<noteq> NaN) Ps" by simp
  then have "fold (\<lambda>P a. fmin a (sel P)) Ps (Num p) = Num (fold min (map (real_of \<circ> sel) Ps) p)"
    by (rule fold_fmin_Num)
  also have "fold min (map (real_of \<circ> sel) Ps) p = Min (set (p # map (real_of \<circ> sel) Ps))"
    by (rule Min.set_eq_fold [symmetric])
  finally show ?thesis by (simp add: p)
qed

lemma coord_max:
  assumes "list_all (\<lambda>P. sel P \<noteq> NaN) (P # Ps)"
  shows "fold (\<lambda>P a. fmax a (sel P)) Ps (sel P) = Num (Max (set (map (real_of \<circ> sel) (P # Ps))))"
proof -
  from assms obtain p where p: "sel P = Num p" by (cases "sel P") simp_all
  from assms have "list_all (\<lambda>P. sel P \<noteq> NaN) Ps" by simp
  then have "fold (\<lambda>P a. fmax a (sel P)) Ps (Num p) = Num (fold max (map (real_of \<circ> sel) Ps) p)"
    by (rule fold_fmax_Num)
  also have "fold max (map (real_of \<circ> sel) Ps) p = Max (set (p # map (real_of \<circ> sel) Ps))"
    by (rule Max.set_eq_fold [symmetric])
  finally show ?thesis by (simp add: p)
qed

lemma box_of_min_max:
  assumes "pts \<noteq> []" "nan_free pts"
  shows "box_of pts = \<lparr>m_bbMin = min_corner pts, m_bbMax = max_corner pts, m_valid = True\<rparr>"
proof -
  from assms(1) obtain P Ps where pts: "pts = P # Ps" by (cases pts) auto
  note s = nan_free_sel [OF assms(2), unfolded pts]
  have mn: "fold (\<lambda>P A. vmin A P) Ps P = min_corner (P # Ps)"
    unfolding fold_vmin_coords min_corner_def
    using coord_min [of vx P Ps] coord_min [of vy P Ps] coord_min [of vz P Ps] s by simp
  have mx: "fold (\<lambda>P A. vmax A P) Ps P = max_corner (P # Ps)"
    unfolding fold_vmax_coords max_corner_def
    using coord_max [of vx P Ps] coord_max [of vy P Ps] coord_max [of vz P Ps] s by simp
  show ?thesis unfolding pts box_of_Cons mn mx ..
qed

lemma box_of_swap:
  assumes "i < length pts" "j < length pts" "nan_free pts"
  shows "box_of (swap_list i j pts) = box_of pts"
proof -
  have s: "set (swap_list i j pts) = set pts"
    using assms(1,2) by (rule set_swap_list)
  have ne: "pts \<noteq> []" "swap_list i j pts \<noteq> []"
    using assms(1) by (auto simp: swap_list_def)
  have nf: "nan_free (swap_list i j pts)"
    using assms(3) s by (simp add: nan_free_def list_all_iff)
  have "min_corner (swap_list i j pts) = min_corner pts"
    "max_corner (swap_list i j pts) = max_corner pts"
    by (simp_all add: min_corner_def max_corner_def s)
  then show ?thesis
    by (simp add: box_of_min_max [OF ne(1) assms(3)] box_of_min_max [OF ne(2) nf])
qed

lemma getBoundingBox_corners:
  "fst (getBoundingBox c)
     = (if m_valid (m_bbox c) then corners (m_bbox c) else corners (box_of (m_points c)))"
  by (simp add: getBoundingBox_valid getBoundingBox_invalid)

lemma getBoundingBox_exact:
  "cache_exact c \<Longrightarrow> fst (getBoundingBox c) = corners (box_of (m_points c))"
  by (simp add: getBoundingBox_corners cache_exact_def)

lemma getBoundingBox_twice:
  "fst (getBoundingBox (snd (getBoundingBox c))) = fst (getBoundingBox c)"
proof (cases "m_valid (m_bbox c)")
  case True
  then show ?thesis by (simp add: getBoundingBox_valid)
next
  case False
  then show ?thesis
    by (simp add: getBoundingBox_invalid getBoundingBox_corners)
qed

lemma cache_exact_getBoundingBox: "cache_exact c \<Longrightarrow> cache_exact (snd (getBoundingBox c))"
  by (cases "m_valid (m_bbox c)")
     (simp_all add: getBoundingBox_valid getBoundingBox_invalid cache_exact_def)

lemma cache_exact_invalid: "\<not> m_valid (m_bbox c) \<Longrightarrow> cache_exact c"
  by (simp add: cache_exact_def)

lemma swapPoints_bbox: "swapPoints i j c = Some c' \<Longrightarrow> m_bbox c' = m_bbox c"
  by (auto simp: swapPoints_def split: if_splits option.splits)

lemma swapPoints_points:
  "swapPoints i j c = Some c' \<Longrightarrow>
   m_points c' = (if i = j \<or> length (m_points c) \<le> i \<or> length (m_points c) \<le> j
                  then m_points c else swap_list i j (m_points c))"
  by (auto simp: swapPoints_def split: if_splits option.splits)

lemma cache_exact_swapPoints:
  assumes "cache_exact c" "nan_free (m_points c)" "swapPoints i j c = Some c'"
  shows "cache_exact c'"
proof -
  have "box_of (m_points c') = box_of (m_points c)"
    using swapPoints_points [OF assms(3)] assms(2) by (simp add: box_of_swap)
  with assms(1) swapPoints_bbox [OF assms(3)] show ?thesis
    by (simp add: cache_exact_def)
qed


lemma first_failure:
  assumes "\<not> (\<forall>k < n. okField k)"
  obtains m :: nat where "m < n" "\<not> okField m" "\<forall>k < m. okField k"
proof -
  from assms have "\<exists>k. k < n \<and> \<not> okField k" by blast
  then obtain m where m: "m < n \<and> \<not> okField m" and least: "\<forall>k < m. \<not> (k < n \<and> \<not> okField k)"
    using exists_least_iff [of "\<lambda>k. k < n \<and> \<not> okField k"] by blast
  from m least have "\<forall>k < m. okField k" by auto
  with m that show ?thesis by blast
qed

lemma resize_bbox: "m_bbox (snd (resize okPoints okField newCount c)) = m_bbox c"
proof (cases okPoints)
  case False
  then show ?thesis by (simp add: resize_points_fail)
next
  case True
  show ?thesis
  proof (cases "\<forall>k < length (m_scalarFields c). okField k")
    case all: True
    then show ?thesis using True by (simp add: resize_success)
  next
    case False
    then obtain m where "m < length (m_scalarFields c)" "\<not> okField m" "\<forall>k < m. okField k"
      by (rule first_failure)
    then show ?thesis using True by (simp add: resize_field_fail)
  qed
qed

lemma enableScalarField_finish_bbox:
  "m_bbox (snd (enableScalarField_finish capacity okFinal c)) = m_bbox c"
  by (simp add: enableScalarField_finish_def Let_def split_beta)

lemma addScalarField_bbox:
  "m_bbox (cloud_after (addScalarField okNew okResize okPush name c)) = m_bbox c"
  by (simp add: cloud_after_addScalarField)

lemma enableScalarField_bbox:
  "m_bbox (cloud_after (enableScalarField capacity okNew okResize okPush okFinal c)) = m_bbox c"
  by (simp add: cloud_after_enableScalarField enableScalarField_finish_bbox)

lemma mutation_bbox:
  "mutation c c' \<Longrightarrow> m_bbox c' = m_bbox c \<or> m_bbox c' = setValidity False (m_bbox c)"
proof (induction rule: mutation.induct)
  case (m_clear c)
  show ?case
    by (simp add: clear_def invalidateBoundingBox_def placeIteratorAtBeginning_def
        deleteAllScalarFields_def)
next
  case (m_forEach action c c')
  then show ?case
    by (auto simp: forEach_def Let_def split: option.splits if_splits)
next
  case (m_invalidateBoundingBox c)
  show ?case by (simp add: invalidateBoundingBox_def)
next
  case (m_placeIteratorAtBeginning c)
  show ?case by (simp add: placeIteratorAtBeginning_def)
next
  case (m_getNextPoint c)
  show ?case by (simp add: getNextPoint_def)
next
  case (m_resize okPoints okField newCount c)
  show ?case by (simp add: resize_bbox)
next
  case (m_reserve okPoints okField capacityAfter newCapacity c)
  show ?case by (simp add: reserve_def)
next
  case (m_addPoint P c)
  show ?case by (simp add: addPoint_def Let_def)
next
  case (m_applyTransformation ar tol tr c)
  show ?case by (simp add: applyTransformation_bbox)
next
  case (m_enableScalarField capacity okNew okResize okPush okFinal c)
  show ?case by (simp add: enableScalarField_bbox)
next
  case (m_setPointScalarValue pointIndex v c c')
  then show ?case
    by (auto simp: setPointScalarValue_def Let_def split: option.splits if_splits)
next
  case (m_addScalarField okNew okResize okPush name c)
  show ?case by (simp add: addScalarField_bbox)
next
  case (m_deleteScalarField index c)
  show ?case by (simp add: deleteScalarField_eq)
next
  case (m_deleteAllScalarFields c)
  show ?case by (simp add: deleteAllScalarFields_def)
next
  case (m_renameScalarField index newName c)
  show ?case by (simp add: renameScalarField_eq)
next
  case (m_swapPoints i j c c')
  then show ?case by (simp add: swapPoints_bbox)
next
  case (m_setCurrentInScalarField c index)
  show ?case by (simp add: setCurrentInScalarField_def)
next
  case (m_setCurrentOutScalarField c index)
  show ?case by (simp add: setCurrentOutScalarField_def)
qed

lemma mutation_keeps_invalid:
  "mutation c c' \<Longrightarrow> \<not> m_valid (m_bbox c) \<Longrightarrow> \<not> m_valid (m_bbox c')"
  using mutation_bbox [of c c'] by (auto simp: setValidity_def)

text \<open>
  Claim C5, as the claim states it, fails for \<^verbatim>\<open>swapPoints\<close>: the cache of \<open>boxed_points\<close>
  (the three points after \<^verbatim>\<open>getBoundingBox\<close>) is valid, \<^verbatim>\<open>swapPoints(0, 1)\<close> moves two
  points, and the cache is still valid afterwards.
\<close>

theorem swapPoints_keeps_cache_counterexample:
  "snd (getBoundingBox three_points) = boxed_points
   \<and> m_valid (m_bbox boxed_points)
   \<and> swapPoints 0 1 boxed_points =
       Some (boxed_points\<lparr>m_points := [CCVector3 (Num 1) (Num 0) (Num 0),
               CCVector3 (Num 0) (Num 0) (Num 0), CCVector3 (Num 0) (Num 1) (Num 0)]\<rparr>)
   \<and> m_valid (m_bbox (boxed_points\<lparr>m_points := [CCVector3 (Num 1) (Num 0) (Num 0),
               CCVector3 (Num 0) (Num 0) (Num 0), CCVector3 (Num 0) (Num 1) (Num 0)]\<rparr>))"
  by (simp add: getBoundingBox_def three_points_def boxed_points_def invalid_box_def
      bbox_clear_def bbox_add_def vmin_def vmax_def fmin_def fmax_def swapPoints_def
      swap_list_def Let_def)

text \<open>
  Claim C5, amended. After \<^verbatim>\<open>addPoint\<close>, and after an \<^verbatim>\<open>applyTransformation\<close> of which
  at least one phase runs, the cache of the bounding box is invalid. \<^verbatim>\<open>swapPoints\<close> does
  not touch the cache: flag and corners are what they were. A swap of points without
  not-a-number coordinates does not make a cache stale: a cache that was invalid or held
  the box of the points is invalid or holds the box of the points after the swap. An
  invalid cache is still invalid after a call of any method other than
  \<^verbatim>\<open>getBoundingBox\<close> (or of a setter of the roles): it stays invalid until the next
  recomputation.
\<close>

theorem cache_invalidation:
  "\<not> m_valid (m_bbox (addPoint P c))
   \<and> (scale_runs ar tol tr \<or> rotation_runs tr \<or> translation_runs ar tol tr \<longrightarrow>
        \<not> m_valid (m_bbox (applyTransformation ar tol tr c)))
   \<and> (swapPoints i j c = Some c' \<longrightarrow> m_bbox c' = m_bbox c)
   \<and> (swapPoints i j c = Some c' \<and> cache_exact c \<and> nan_free (m_points c) \<longrightarrow> cache_exact c')
   \<and> (mutation c d \<and> \<not> m_valid (m_bbox c) \<longrightarrow> \<not> m_valid (m_bbox d))"
proof -
  have a: "\<not> m_valid (m_bbox (addPoint P c))" by (rule addPoint_bbox_invalid)
  have b: "scale_runs ar tol tr \<or> rotation_runs tr \<or> translation_runs ar tol tr \<longrightarrow>
        \<not> m_valid (m_bbox (applyTransformation ar tol tr c))"
    by (simp add: applyTransformation_bbox setValidity_def)
  have e: "swapPoints i j c = Some c' \<longrightarrow> m_bbox c' = m_bbox c"
    by (simp add: swapPoints_bbox)
  have f: "swapPoints i j c = Some c' \<and> cache_exact c \<and> nan_free (m_points c) \<longrightarrow> cache_exact c'"
    using cache_exact_swapPoints by blast
  have g: "mutation c d \<and> \<not> m_valid (m_bbox c) \<longrightarrow> \<not> m_valid (m_bbox d)"
    using mutation_keeps_invalid by blast
  from a b e f g show ?thesis by blast
qed

theorem cache_invalidation_witness:
  "\<not> m_valid (m_bbox (addPoint unit_point boxed_points))
   \<and> \<not> m_valid (m_bbox (applyTransformation exact_arithmetic tolerance similarity boxed_points))
   \<and> m_bbox (boxed_points\<lparr>m_points := [CCVector3 (Num 1) (Num 0) (Num 0),
               CCVector3 (Num 0) (Num 0) (Num 0), CCVector3 (Num 0) (Num 1) (Num 0)]\<rparr>)
       = m_bbox boxed_points
   \<and> cache_exact (boxed_points\<lparr>m_points := [CCVector3 (Num 1) (Num 0) (Num 0),
               CCVector3 (Num 0) (Num 0) (Num 0), CCVector3 (Num 0) (Num 1) (Num 0)]\<rparr>)
   \<and> \<not> m_valid (m_bbox (snd (resize True never_fails 5 three_points)))"
proof -
  let ?c' = "boxed_points\<lparr>m_points := [CCVector3 (Num 1) (Num 0) (Num 0),
               CCVector3 (Num 0) (Num 0) (Num 0), CCVector3 (Num 0) (Num 1) (Num 0)]\<rparr>"
  note t = cache_invalidation [of unit_point boxed_points exact_arithmetic tolerance similarity
      0 1 ?c' boxed_points]
  note u = cache_invalidation [of unit_point three_points exact_arithmetic tolerance similarity
      0 1 ?c' "snd (resize True never_fails 5 three_points)"]
  have r: "rotation_runs similarity"
    by (simp add: rotation_runs_def similarity_def quarter_turn_def)
  have sw: "swapPoints 0 1 boxed_points = Some ?c'"
    by (simp add: swapPoints_def boxed_points_def three_points_def swap_list_def)
  have ex: "cache_exact boxed_points"
    by (simp add: cache_exact_def corners_def box_of_def boxed_points_def three_points_def
        bbox_add_def vmin_def vmax_def fmin_def fmax_def)
  have nf: "nan_free (m_points boxed_points)"
    by (simp add: nan_free_def hasNaN_def boxed_points_def three_points_def)
  have inv: "\<not> m_valid (m_bbox three_points)"
    by (simp add: three_points_def invalid_box_def)
  have mu: "mutation three_points (snd (resize True never_fails 5 three_points))"
    by (rule m_resize)
  from t u r sw ex nf inv mu show ?thesis by blast
qed

text \<open>
  What \<^verbatim>\<open>getBoundingBox\<close> returns: the cached corners when the cache is flagged valid;
  otherwise it folds every current point into the accumulator, stores the box (valid as
  soon as there is a point) and returns its corners. The box of a non-empty sequence of
  points without not-a-number coordinates has the coordinate-wise minimum and maximum as
  corners. Two calls in a row return the same corners, in every state. After \<^verbatim>\<open>addPoint\<close>,
  and after an \<^verbatim>\<open>applyTransformation\<close> of which a phase runs, the cache is invalid and the
  next call returns the box of the new points.
\<close>

lemma getBoundingBox_returns:
  "(m_valid (m_bbox c) \<longrightarrow> getBoundingBox c = (corners (m_bbox c), c))
   \<and> (\<not> m_valid (m_bbox c) \<longrightarrow>
        getBoundingBox c = (corners (box_of (m_points c)), c\<lparr>m_bbox := box_of (m_points c)\<rparr>))
   \<and> m_valid (box_of pts) = (pts \<noteq> [])
   \<and> (pts \<noteq> [] \<and> nan_free pts \<longrightarrow> corners (box_of pts) = (min_corner pts, max_corner pts))
   \<and> fst (getBoundingBox (snd (getBoundingBox c))) = fst (getBoundingBox c)
   \<and> fst (getBoundingBox (addPoint P c)) = corners (box_of (m_points (addPoint P c)))
   \<and> (scale_runs ar tol tr \<or> rotation_runs tr \<or> translation_runs ar tol tr \<longrightarrow>
        fst (getBoundingBox (applyTransformation ar tol tr c))
          = corners (box_of (m_points (applyTransformation ar tol tr c))))"
proof -
  have a: "m_valid (m_bbox c) \<longrightarrow> getBoundingBox c = (corners (m_bbox c), c)"
    by (simp add: getBoundingBox_valid)
  have b: "\<not> m_valid (m_bbox c) \<longrightarrow>
        getBoundingBox c = (corners (box_of (m_points c)), c\<lparr>m_bbox := box_of (m_points c)\<rparr>)"
    by (simp add: getBoundingBox_invalid)
  have d: "pts \<noteq> [] \<and> nan_free pts \<longrightarrow> corners (box_of pts) = (min_corner pts, max_corner pts)"
    by (simp add: box_of_min_max corners_def)
  have g: "fst (getBoundingBox (addPoint P c)) = corners (box_of (m_points (addPoint P c)))"
    by (intro getBoundingBox_exact cache_exact_invalid addPoint_bbox_invalid)
  have h: "scale_runs ar tol tr \<or> rotation_runs tr \<or> translation_runs ar tol tr \<longrightarrow>
        fst (getBoundingBox (applyTransformation ar tol tr c))
          = corners (box_of (m_points (applyTransformation ar tol tr c)))"
  proof
    assume "scale_runs ar tol tr \<or> rotation_runs tr \<or> translation_runs ar tol tr"
    then have "\<not> m_valid (m_bbox (applyTransformation ar tol tr c))"
      by (simp add: applyTransformation_bbox setValidity_def)
    then show "fst (getBoundingBox (applyTransformation ar tol tr c))
          = corners (box_of (m_points (applyTransformation ar tol tr c)))"
      by (intro getBoundingBox_exact cache_exact_invalid)
  qed
  from a b box_of_valid [of pts] d getBoundingBox_twice [of c] g h
  show ?thesis by blast
qed

text \<open>
  Claim C4 fails in the source. \<^verbatim>\<open>resize\<close> changes the sequence of points and, unlike
  \<^verbatim>\<open>addPoint\<close>, \<^verbatim>\<open>clear\<close> and the phases of \<^verbatim>\<open>applyTransformation\<close>, does not invalidate
  the cache of the bounding box. After \<^verbatim>\<open>addPoint(1, 1, 1)\<close> on a new cloud,
  \<^verbatim>\<open>getBoundingBox\<close> and \<^verbatim>\<open>resize(2)\<close> (no allocation failing), the cloud holds the points
  \<open>(1, 1, 1)\<close> and \<open>(0, 0, 0)\<close> and its cache is still flagged valid: \<^verbatim>\<open>getBoundingBox\<close>
  returns \<open>(1, 1, 1)\<close> as both corners, where the coordinate-wise minimum of the current
  points is \<open>(0, 0, 0)\<close> and a recomputation would return it.
\<close>

theorem getBoundingBox_stale_after_resize:
  "snd (resize True never_fails 2 (snd (getBoundingBox (addPoint unit_point PointCloud_new))))
     = stale_cloud
   \<and> m_points stale_cloud = [unit_point, CCVector3 (Num 0) (Num 0) (Num 0)]
   \<and> m_valid (m_bbox stale_cloud)
   \<and> fst (getBoundingBox stale_cloud) = (unit_point, unit_point)
   \<and> min_corner (m_points stale_cloud) = CCVector3 (Num 0) (Num 0) (Num 0)
   \<and> corners (box_of (m_points stale_cloud)) = (CCVector3 (Num 0) (Num 0) (Num 0), unit_point)"
proof -
  have a: "snd (getBoundingBox (addPoint unit_point PointCloud_new))
      = \<lparr>m_points = [unit_point],
         m_bbox = \<lparr>m_bbMin = unit_point, m_bbMax = unit_point, m_valid = True\<rparr>,
         m_scalarFields = [], m_currentPointIndex = 0,
         m_currentInScalarFieldIndex = -1, m_currentOutScalarFieldIndex = -1\<rparr>"
    by (simp add: getBoundingBox_def addPoint_def PointCloud_new_def unit_point_def
        setValidity_def bbox_clear_def bbox_add_def Let_def)
  have b: "snd (resize True never_fails 2
              (snd (getBoundingBox (addPoint unit_point PointCloud_new)))) = stale_cloud"
    unfolding a
    by (simp add: resize_success stale_cloud_def resize_list_def origin_def)
  have d: "fst (getBoundingBox stale_cloud) = (unit_point, unit_point)"
    by (simp add: getBoundingBox_def stale_cloud_def)
  have e: "min_corner (m_points stale_cloud) = CCVector3 (Num 0) (Num 0) (Num 0)"
    by (simp add: min_corner_def stale_cloud_def unit_point_def)
  have f: "m_points stale_cloud = [unit_point, CCVector3 (Num 0) (Num 0) (Num 0)]
      \<and> m_valid (m_bbox stale_cloud)"
    by (simp add: stale_cloud_def)
  have g: "corners (box_of (m_points stale_cloud))
      = (CCVector3 (Num 0) (Num 0) (Num 0), unit_point)"
    by (simp add: corners_def box_of_def stale_cloud_def unit_point_def bbox_add_def vmin_def
        vmax_def fmin_def fmax_def)
  from b f d e g show ?thesis by blast
qed

end
